theory Spec2Isabelle
  imports Complex_Main "HOL-Library.Sublist"
begin

section \<open>NVIDIA GPU Setup Tool: the orchestration core of nlinux.c\<close>

text \<open>
  The development embeds the worker threads, the two click handlers and the console log
  of \<^verbatim>\<open>nlinux.c\<close>. External processes are reached through \<^verbatim>\<open>popen\<close>; the
  embedding takes them as a parameter \<open>sh\<close>, which tells for the \<open>n\<close>-th process started
  since program start and its command line whether the pipe could be opened and, if so,
  the wait status and the text the process printed. Every run of the program is
  described by one such function, so a statement for all \<open>sh\<close> covers all runs.
  The \<^verbatim>\<open>gdouble\<close> progress values are modelled by exact rationals: the quotient
  \<open>100 / total_steps\<close> is exact in both for 5 steps, while for 9 steps the source holds
  the nearest \<^verbatim>\<open>gdouble\<close> and the embedding the quotient itself.
\<close>

subsection \<open>Constants and enumerations\<close>

definition MAX_LOG_LINES :: nat where
  "MAX_LOG_LINES = 1000"

datatype StatusType =
  STATUS_UNKNOWN | STATUS_SUCCESS | STATUS_WARNING | STATUS_ERROR | STATUS_INFO

definition newline :: char where
  "newline = CHR 0x0A"

subsection \<open>printf conversions\<close>

definition digit_char :: "nat \<Rightarrow> char" where
  "digit_char d = ''0123456789'' ! (d mod 10)"

fun show_nat :: "nat \<Rightarrow> string" where
  "show_nat n = (if n < 10 then [digit_char n] else show_nat (n div 10) @ [digit_char n])"

declare show_nat.simps [simp del]

text \<open>The conversion \<^verbatim>\<open>%d\<close> of a \<^verbatim>\<open>gint\<close>.\<close>

definition show_int :: "int \<Rightarrow> string" where
  "show_int i = (if i < 0 then CHR ''-'' # show_nat (nat (- i)) else show_nat (nat i))"

subsection \<open>The console log\<close>

text \<open>
  The wall clock read by \<^verbatim>\<open>g_date_time_new_now_local\<close>; the format
  \<^verbatim>\<open>%H:%M:%S\<close> prints each field with two digits.
\<close>

record GDateTime =
  hour :: nat
  minute :: nat
  second :: nat

definition two_digits :: "nat \<Rightarrow> string" where
  "two_digits n = [digit_char (n div 10), digit_char n]"

definition g_date_time_format :: "GDateTime \<Rightarrow> string" where
  "g_date_time_format now =
     two_digits (hour now) @ '':'' @ two_digits (minute now) @ '':'' @ two_digits (second now)"

definition status_icon :: "StatusType \<Rightarrow> string" where
  "status_icon t =
     (case t of
        STATUS_SUCCESS \<Rightarrow> ''[OK]''
      | STATUS_WARNING \<Rightarrow> ''[WARN]''
      | STATUS_ERROR \<Rightarrow> ''[ERROR]''
      | STATUS_INFO \<Rightarrow> ''[INFO]''
      | STATUS_UNKNOWN \<Rightarrow> ''[*]'')"

text \<open>\<^verbatim>\<open>g_strdup_printf("[%s] %s %s\n", timestamp, status_icon, message)\<close>\<close>

definition formatted_message :: "GDateTime \<Rightarrow> string \<Rightarrow> StatusType \<Rightarrow> string" where
  "formatted_message now message t =
     ''['' @ g_date_time_format now @ ''] '' @ status_icon t @ '' '' @ message @ [newline]"

text \<open>
  A text buffer is its text, a string of bytes in UTF-8. GTK ends a line at a line feed,
  at a carriage return, at a carriage return and a line feed taken together, and at the
  paragraph separator U+2029 (the bytes \<^verbatim>\<open>E2 80 A9\<close>). \<open>line_end s\<close> is the number of
  bytes of the line end at the head of \<open>s\<close>, and 0 when there is none.
\<close>

definition carriage_return :: char where
  "carriage_return = CHR 0x0D"

definition paragraph_separator :: string where
  "paragraph_separator = [CHR 0xE2, CHR 0x80, CHR 0xA9]"

definition line_end :: "string \<Rightarrow> nat" where
  "line_end s =
     (if prefix [carriage_return, newline] s then 2
      else if prefix [newline] s \<or> prefix [carriage_return] s then 1
      else if prefix paragraph_separator s then 3
      else 0)"

text \<open>
  The line ends of a text, read from its start; \<open>skip\<close> is the number of bytes still to
  pass of a line end already counted. GTK counts lines as one more than the line ends, so
  the empty buffer has one line and a text that ends in a line end has an empty last line.
\<close>

fun line_ends :: "nat \<Rightarrow> string \<Rightarrow> nat" where
  "line_ends skip [] = 0"
| "line_ends skip (c # cs) =
     (if 0 < skip then line_ends (skip - 1) cs
      else (let k = line_end (c # cs)
            in if k = 0 then line_ends 0 cs else Suc (line_ends (k - 1) cs)))"

definition gtk_text_buffer_get_line_count :: "string \<Rightarrow> nat" where
  "gtk_text_buffer_get_line_count buf = Suc (line_ends 0 buf)"

text \<open>
  \<open>delete_to_line n buf\<close> is \<^verbatim>\<open>gtk_text_buffer_delete\<close> from the iterator at line 0
  to the iterator at the start of line \<open>n\<close>: the first \<open>n\<close> lines go, line ends
  included. Past the last line the iterator is the end iterator.
\<close>

fun delete_lines :: "nat \<Rightarrow> nat \<Rightarrow> string \<Rightarrow> string" where
  "delete_lines n skip [] = []"
| "delete_lines n skip (c # cs) =
     (if 0 < skip then delete_lines n (skip - 1) cs
      else if n = 0 then c # cs
      else (let k = line_end (c # cs)
            in if k = 0 then delete_lines n 0 cs else delete_lines (n - 1) (k - 1) cs))"

definition delete_to_line :: "nat \<Rightarrow> string \<Rightarrow> string" where
  "delete_to_line n buf = delete_lines n 0 buf"

text \<open>
  \<open>log_message\<close> on the console buffer; \<open>None\<close> is the \<^verbatim>\<open>NULL\<close> buffer, for which
  the function returns at once. The insertion is at the end iterator.
\<close>

definition log_message :: "GDateTime \<Rightarrow> string \<Rightarrow> StatusType \<Rightarrow> string option \<Rightarrow> string option" where
  "log_message now message t console_buffer =
     (case console_buffer of
        None \<Rightarrow> None
      | Some buf \<Rightarrow>
          (let line_count = gtk_text_buffer_get_line_count buf;
               buf' = (if line_count \<ge> MAX_LOG_LINES
                       then delete_to_line (line_count - MAX_LOG_LINES + 1) buf
                       else buf)
           in Some (buf' @ formatted_message now message t)))"

text \<open>A sequence of insertions, oldest first, each with the clock reading at its call.\<close>

fun log_messages :: "(GDateTime \<times> string \<times> StatusType) list \<Rightarrow> string option \<Rightarrow> string option" where
  "log_messages [] console_buffer = console_buffer"
| "log_messages ((now, message, t) # es) console_buffer =
     log_messages es (log_message now message t console_buffer)"

text \<open>
  The lines of a text that are closed by a line end, first line first and without their
  line ends; \<open>cur\<close> is the part of the current line read so far.
\<close>

fun lines_from :: "string \<Rightarrow> nat \<Rightarrow> string \<Rightarrow> string list" where
  "lines_from cur skip [] = []"
| "lines_from cur skip (c # cs) =
     (if 0 < skip then lines_from cur (skip - 1) cs
      else (let k = line_end (c # cs)
            in if k = 0 then lines_from (cur @ [c]) 0 cs else cur # lines_from [] (k - 1) cs))"

definition closed_lines :: "string \<Rightarrow> string list" where
  "closed_lines buf = lines_from [] 0 buf"

text \<open>The text of one insertion as it stands in the buffer, without its line break.\<close>

definition log_line :: "GDateTime \<times> string \<times> StatusType \<Rightarrow> string" where
  "log_line e = butlast (formatted_message (fst e) (fst (snd e)) (snd (snd e)))"

text \<open>The line format \<^verbatim>\<open>[HH:MM:SS] [SEVERITY] message\<close>, as a check on one line.\<close>

definition is_digit :: "char \<Rightarrow> bool" where
  "is_digit c = (c \<in> set ''0123456789'')"

definition severity_tags :: "string list" where
  "severity_tags = [''[OK]'', ''[WARN]'', ''[ERROR]'', ''[INFO]'', ''[*]'']"

fun log_line_format :: "string \<Rightarrow> bool" where
  "log_line_format (b1 # h1 # h2 # c1 # m1 # m2 # c2 # s1 # s2 # b2 # sp # rest) =
     (b1 = CHR ''['' \<and> is_digit h1 \<and> is_digit h2 \<and> c1 = CHR '':'' \<and> is_digit m1 \<and> is_digit m2
      \<and> c2 = CHR '':'' \<and> is_digit s1 \<and> is_digit s2 \<and> b2 = CHR '']'' \<and> sp = CHR '' ''
      \<and> list_ex (\<lambda>tag. prefix (tag @ '' '') rest) severity_tags)"
| "log_line_format _ = False"

text \<open>A text made of closed lines, and the lines that stay when one more is inserted.\<close>

definition join_lines :: "string list \<Rightarrow> string" where
  "join_lines ls = concat (map (\<lambda>l. l @ [newline]) ls)"

definition keep_newest :: "string list \<Rightarrow> string list" where
  "keep_newest ls = drop (Suc (length ls) - (MAX_LOG_LINES - 1)) ls"

definition nine_o_five :: GDateTime where
  "nine_o_five = \<lparr>hour = 9, minute = 5, second = 59\<rparr>"

subsection \<open>GLib string helpers\<close>

text \<open>
  \<^verbatim>\<open>g_ascii_isspace\<close> holds of the space, the tab, the line feed, the form feed and the
  carriage return; the vertical tab is not among them.
\<close>

definition g_ascii_isspace :: "char \<Rightarrow> bool" where
  "g_ascii_isspace c = (c \<in> set [CHR '' '', CHR 0x09, CHR 0x0A, CHR 0x0C, CHR 0x0D])"

definition g_strchug :: "string \<Rightarrow> string" where
  "g_strchug s = dropWhile g_ascii_isspace s"

definition g_strchomp :: "string \<Rightarrow> string" where
  "g_strchomp s = rev (dropWhile g_ascii_isspace (rev s))"

text \<open>\<^verbatim>\<open>strstr(haystack, needle) != NULL\<close>\<close>

fun strstr :: "string \<Rightarrow> string \<Rightarrow> bool" where
  "strstr [] needle = (needle = [])"
| "strstr (c # cs) needle = (prefix needle (c # cs) \<or> strstr cs needle)"

text \<open>A text that GTK keeps on one line: it holds no line end.\<close>

definition one_line :: "string \<Rightarrow> bool" where
  "one_line s = (newline \<notin> set s \<and> carriage_return \<notin> set s \<and> \<not> strstr s paragraph_separator)"

text \<open>
  \<^verbatim>\<open>g_ascii_strtoll(s, NULL, 10)\<close>: leading white space, an optional sign, then the
  longest run of decimal digits; no digits give 0 and the result saturates at the
  bounds of \<^verbatim>\<open>gint64\<close>. The white space it passes over is that of the C locale, which
  has the vertical tab as well.
\<close>

definition strtoll_isspace :: "char \<Rightarrow> bool" where
  "strtoll_isspace c = (c \<in> set [CHR '' '', CHR 0x09, CHR 0x0A, CHR 0x0B, CHR 0x0C, CHR 0x0D])"

definition digit_value :: "char \<Rightarrow> int" where
  "digit_value c = int (of_char c) - 48"

fun strtoll_digits :: "int \<Rightarrow> string \<Rightarrow> int" where
  "strtoll_digits acc [] = acc"
| "strtoll_digits acc (c # cs) =
     (if is_digit c then strtoll_digits (acc * 10 + digit_value c) cs else acc)"

definition G_MAXINT64 :: int where
  "G_MAXINT64 = 9223372036854775807"

definition g_ascii_strtoll :: "string \<Rightarrow> int" where
  "g_ascii_strtoll s =
     (let t = dropWhile strtoll_isspace s;
          v = (case t of
                 [] \<Rightarrow> 0
               | c # cs \<Rightarrow>
                   if c = CHR ''-'' then - strtoll_digits 0 cs
                   else if c = CHR ''+'' then strtoll_digits 0 cs
                   else strtoll_digits 0 t)
      in max (- G_MAXINT64 - 1) (min G_MAXINT64 v))"

text \<open>The conversion \<^verbatim>\<open>%s\<close> of a \<^verbatim>\<open>gchar *\<close>, which prints a null pointer as \<^verbatim>\<open>(null)\<close>.\<close>

definition show_str :: "string option \<Rightarrow> string" where
  "show_str p = (case p of None \<Rightarrow> ''(null)'' | Some s \<Rightarrow> s)"

subsection \<open>Application state and effects\<close>

record SystemInfo =
  gpu_detected :: bool
  gpu_info :: "string option"
  driver_installed :: bool
  driver_info :: "string option"
  cuda_installed :: bool
  cuda_info :: "string option"
  distro_codename :: "string option"

record ProgressUpdate =
  upd_progress :: rat
  upd_message :: "string option"
  upd_log_message :: "string option"
  upd_log_type :: StatusType

datatype widget = detect_button | install_button

text \<open>The callbacks handed to \<^verbatim>\<open>g_idle_add\<close>, each with its argument.\<close>

datatype idle_callback =
    update_progress_ui ProgressUpdate
  | update_status_display_wrapper
  | set_widget_sensitive_wrapper widget
  | set_button_label_wrapper
  | show_completion_dialog_wrapper
  | show_error_dialog_wrapper

datatype thread = detection_thread_fn | installation_thread_fn

text \<open>
  What the program does to the world outside its own fields, recorded in order:
  processes started with \<^verbatim>\<open>popen\<close>, direct calls of \<^verbatim>\<open>log_message\<close>, callbacks queued
  with \<^verbatim>\<open>g_idle_add\<close>, modal dialogs, threads created. Writes to the run flag are recorded
  too, so that their place among the queued callbacks can be stated.
\<close>

datatype effect =
    Popen string
  | LogMessage string StatusType
  | IdleAdd idle_callback
  | SetInstallationRunning bool
  | ErrorDialog string string
  | ConfirmationDialog string string
  | PasswordDialog
  | PthreadCreate thread

text \<open>
  The fields of \<^verbatim>\<open>AppData\<close> that the worker threads and click handlers read or write,
  with the widget properties they depend on. \<open>live_threads\<close> are the threads created and
  not yet returned, \<open>started\<close> counts the processes started so far.
\<close>

record AppData =
  system_info :: SystemInfo
  installation_running :: bool
  install_driver_check :: bool
  install_cuda_check :: bool
  detect_button_sensitive :: bool
  install_button_sensitive :: bool
  install_button_label :: string
  progress_frame_visible :: bool
  live_threads :: "thread list"
  started :: nat
  effects :: "effect list"

type_synonym shell = "nat \<Rightarrow> string \<Rightarrow> (int \<times> string) option"

definition do_effect :: "effect \<Rightarrow> AppData \<Rightarrow> AppData" where
  "do_effect e data = data\<lparr>effects := effects data @ [e]\<rparr>"

definition g_idle_add :: "idle_callback \<Rightarrow> AppData \<Rightarrow> AppData" where
  "g_idle_add cb data = do_effect (IdleAdd cb) data"

definition log_message_call :: "string \<Rightarrow> StatusType \<Rightarrow> AppData \<Rightarrow> AppData" where
  "log_message_call message t data = do_effect (LogMessage message t) data"

definition set_installation_running :: "bool \<Rightarrow> AppData \<Rightarrow> AppData" where
  "set_installation_running b data = do_effect (SetInstallationRunning b) (data\<lparr>installation_running := b\<rparr>)"

definition pthread_create :: "thread \<Rightarrow> AppData \<Rightarrow> AppData" where
  "pthread_create t data = do_effect (PthreadCreate t) (data\<lparr>live_threads := live_threads data @ [t]\<rparr>)"

text \<open>The commands of the processes started, in order.\<close>

fun commands :: "effect list \<Rightarrow> string list" where
  "commands [] = []"
| "commands (Popen c # es) = c # commands es"
| "commands (_ # es) = commands es"

subsection \<open>Process Runner\<close>

text \<open>
  \<open>run_command\<close> returns the status and what it stored through \<^verbatim>\<open>output\<close>: nothing
  when the pipe could not be opened (status \<open>-1\<close>, the caller's variable keeps its old
  value), else all the process printed, which may be the empty string.
\<close>

definition run_command :: "shell \<Rightarrow> string \<Rightarrow> AppData \<Rightarrow> (int \<times> string option) \<times> AppData" where
  "run_command sh command data =
     (let data' = do_effect (Popen command) (data\<lparr>started := Suc (started data)\<rparr>)
      in case sh (started data) command of
           None \<Rightarrow> ((- 1, None), data')
         | Some (status, printed) \<Rightarrow> ((status, Some printed), data'))"

definition progress_update :: "rat \<Rightarrow> string option \<Rightarrow> string \<Rightarrow> StatusType \<Rightarrow> idle_callback" where
  "progress_update p m l t =
     update_progress_ui \<lparr>upd_progress = p, upd_message = m, upd_log_message = Some l, upd_log_type = t\<rparr>"

definition run_command_with_progress :: "shell \<Rightarrow> string \<Rightarrow> rat \<Rightarrow> AppData \<Rightarrow> bool \<times> AppData" where
  "run_command_with_progress sh command progress_increment data =
     (let data1 = g_idle_add (progress_update 0 None (''Running: '' @ command) STATUS_INFO) data;
          (r, data2) = run_command sh command data1;
          result = fst r
      in if result = 0
         then (True, g_idle_add (progress_update progress_increment None
                                   ''Command completed successfully'' STATUS_SUCCESS) data2)
         else (False, g_idle_add (progress_update 0 None
                                   (''Command failed with exit code '' @ show_int result) STATUS_ERROR) data2))"


subsection \<open>System Prober\<close>

definition set_system_info :: "(SystemInfo \<Rightarrow> SystemInfo) \<Rightarrow> AppData \<Rightarrow> AppData" where
  "set_system_info f data = data\<lparr>system_info := f (system_info data)\<rparr>"

text \<open>The test \<^verbatim>\<open>result == 0 && output != NULL && strlen(output) > 0\<close>.\<close>

definition detected :: "int \<times> string option \<Rightarrow> bool" where
  "detected r = (case r of (result, Some out) \<Rightarrow> result = 0 \<and> out \<noteq> [] | (result, None) \<Rightarrow> False)"

definition lspci_command :: string where
  "lspci_command = ''lspci | grep -i nvidia''"

definition lsb_release_command :: string where
  "lsb_release_command = ''lsb_release -cs 2>/dev/null''"

definition detect_nvidia_gpu :: "shell \<Rightarrow> AppData \<Rightarrow> bool \<times> AppData" where
  "detect_nvidia_gpu sh data =
     (let (r, data') = run_command sh lspci_command data
      in if detected r
         then (True, set_system_info (\<lambda>info. info\<lparr>gpu_detected := True,
                 gpu_info := Some (''Detected: '' @ g_strchomp (g_strchug (show_str (snd r))))\<rparr>) data')
         else (False, set_system_info (\<lambda>info. info\<lparr>gpu_detected := False,
                 gpu_info := Some ''No NVIDIA GPU detected''\<rparr>) data'))"

definition nvidia_smi_command :: string where
  "nvidia_smi_command = ''nvidia-smi --query-gpu=driver_version --format=csv,noheader,nounits 2>/dev/null''"

definition nvcc_command :: string where
  "nvcc_command = ''nvcc --version 2>/dev/null | grep '' @ [CHR 0x27] @ ''release'' @ [CHR 0x27]
             @ '' | awk '' @ [CHR 0x27] @ ''{print $6}'' @ [CHR 0x27] @ '' | cut -c2-''"

definition detect_nvidia_driver :: "shell \<Rightarrow> AppData \<Rightarrow> bool \<times> AppData" where
  "detect_nvidia_driver sh data =
     (let (r, data') = run_command sh nvidia_smi_command data
      in if detected r
         then (True, set_system_info (\<lambda>info. info\<lparr>driver_installed := True,
                 driver_info := Some (''Installed: Version '' @ g_strchomp (g_strchug (show_str (snd r))))\<rparr>) data')
         else (False, set_system_info (\<lambda>info. info\<lparr>driver_installed := False,
                 driver_info := Some ''Not installed''\<rparr>) data'))"

definition detect_cuda :: "shell \<Rightarrow> AppData \<Rightarrow> bool \<times> AppData" where
  "detect_cuda sh data =
     (let (r, data') = run_command sh nvcc_command data
      in if detected r
         then (True, set_system_info (\<lambda>info. info\<lparr>cuda_installed := True,
                 cuda_info := Some (''Installed: CUDA '' @ g_strchomp (g_strchug (show_str (snd r))))\<rparr>) data')
         else (False, set_system_info (\<lambda>info. info\<lparr>cuda_installed := False,
                 cuda_info := Some ''Not installed''\<rparr>) data'))"

definition wsl_probe_command :: string where
  "wsl_probe_command = ''cat /proc/version 2>/dev/null | grep -i microsoft''"

definition is_wsl_system :: "shell \<Rightarrow> AppData \<Rightarrow> bool \<times> AppData" where
  "is_wsl_system sh data =
     (let (r, data') = run_command sh wsl_probe_command data
      in (detected r, data'))"

definition ping_command :: string where
  "ping_command = ''ping -c 1 8.8.8.8 >/dev/null 2>&1''"

definition check_internet_connectivity :: "shell \<Rightarrow> AppData \<Rightarrow> bool \<times> AppData" where
  "check_internet_connectivity sh data =
     (let (r, data') = run_command sh ping_command data
      in if fst r \<noteq> 0
         then (False, log_message_call
                 ''No internet connection detected. Installation requires internet access.''
                 STATUS_ERROR data')
         else (True, data'))"

text \<open>
  The checks of \<open>check_system_compatibility\<close> after the WSL gate, one definition for each
  block of the function. Each of them logs at most a warning. The disk block and the
  Secure Boot block share the local variable \<^verbatim>\<open>output\<close>: the disk block frees what
  \<open>run_command\<close> stored there and leaves the pointer in place, and the Secure Boot block
  frees \<^verbatim>\<open>output\<close> again whenever it is not \<^verbatim>\<open>NULL\<close>. When the second pipe does not
  open, \<open>run_command\<close> has stored nothing new, so a pointer left by the disk block is
  freed a second time and the C library ends the process. \<open>check_disk_space\<close> returns
  what is in \<^verbatim>\<open>output\<close> after its block, \<open>None\<close> for \<^verbatim>\<open>NULL\<close>, and
  \<open>check_secure_boot\<close> takes it; \<open>Inl DoubleFree\<close> is the end of the process, with the
  state it had reached.
\<close>

datatype fault = DoubleFree

definition df_command :: string where
  "df_command = ''df / | tail -1 | awk '' @ [CHR 0x27] @ ''{print $4}'' @ [CHR 0x27]"

definition check_root :: "nat \<Rightarrow> AppData \<Rightarrow> AppData" where
  "check_root uid data =
     (if uid = 0
      then log_message_call ''WARNING: Running as root. This is not recommended for security reasons.''
             STATUS_WARNING data
      else data)"

definition check_disk_space :: "shell \<Rightarrow> AppData \<Rightarrow> string option \<times> AppData" where
  "check_disk_space sh data =
     (let (df, data1) = run_command sh df_command data;
          output = snd df
      in (output,
          case df of
            (result, Some out) \<Rightarrow>
              if result = 0 \<and> g_ascii_strtoll out < 2000000
              then log_message_call ''WARNING: Low disk space detected. Installation may fail.''
                     STATUS_WARNING data1
              else data1
          | (result, None) \<Rightarrow> data1))"

definition mokutil_command :: string where
  "mokutil_command = ''mokutil --sb-state 2>/dev/null''"

definition check_secure_boot :: "shell \<Rightarrow> string option \<Rightarrow> AppData \<Rightarrow> (fault + unit) \<times> AppData" where
  "check_secure_boot sh output data =
     (let (sb, data1) = run_command sh mokutil_command data
      in case sb of
           (result, Some out) \<Rightarrow>
             (Inr (),
              if result = 0 \<and> strstr out ''enabled''
              then log_message_call
                     ''WARNING: Secure Boot is enabled. Driver installation may require additional steps.''
                     STATUS_WARNING data1
              else data1)
         | (result, None) \<Rightarrow>
             (case output of
                None \<Rightarrow> (Inr (), data1)
              | Some freed \<Rightarrow> (Inl DoubleFree, data1)))"

definition check_distro :: "AppData \<Rightarrow> AppData" where
  "check_distro data =
     (case distro_codename (system_info data) of
        None \<Rightarrow> data
      | Some codename \<Rightarrow>
          if codename = ''bullseye''
          then log_message_call ''WARNING: Debian 11 is EOL. Upgrade recommended.'' STATUS_WARNING data
          else if codename \<noteq> ''bookworm'' \<and> codename \<noteq> ''jammy'' \<and> codename \<noteq> ''noble''
          then log_message_call ''WARNING: Unsupported distro. Installation may fail.''
                 STATUS_WARNING data
          else data)"

text \<open>The six lines logged when the WSL marker is found.\<close>

definition wsl_log :: "(string \<times> StatusType) list" where
  "wsl_log =
     [(''ERROR: Running in WSL. NVIDIA driver installation requires native Linux.'', STATUS_ERROR),
      (''This tool is designed for live boot Linux systems or native installations.'', STATUS_INFO),
      (''To use this tool:'', STATUS_INFO),
      (''1. Create a live USB with Ubuntu/Debian'', STATUS_INFO),
      (''2. Boot from the USB on the target system'', STATUS_INFO),
      (''3. Run this tool on the live system'', STATUS_INFO)]"

text \<open>
  \<open>uid\<close> is what \<^verbatim>\<open>getuid()\<close> returns. The result is \<open>Inr\<close> of the value returned, or
  \<open>Inl\<close> of the fault that ended the process, and the state reached.
\<close>

definition check_system_compatibility :: "shell \<Rightarrow> nat \<Rightarrow> AppData \<Rightarrow> (fault + bool) \<times> AppData" where
  "check_system_compatibility sh uid data =
     (let (wsl, data1) = is_wsl_system sh data
      in if wsl
         then (Inr False, fold (\<lambda>(m, t). log_message_call m t) wsl_log data1)
         else
           (let (output, data2) = check_disk_space sh (check_root uid data1)
            in case check_secure_boot sh output data2 of
                 (Inl f, data3) \<Rightarrow> (Inl f, data3)
               | (Inr u, data3) \<Rightarrow> (Inr True, check_distro data3)))"

text \<open>
  The probe. \<^verbatim>\<open>run_command\<close> stores its output in \<^verbatim>\<open>distro_codename\<close> itself, so the
  field keeps its old value when the pipe cannot be opened. The three \<^verbatim>\<open>nanosleep\<close>
  calls only delay and are left out.
\<close>

definition detection_thread :: "shell \<Rightarrow> AppData \<Rightarrow> AppData" where
  "detection_thread sh data =
     (let data1 = log_message_call ''Detecting system components...'' STATUS_INFO data;
          data2 = log_message_call ''Detecting Linux distribution...'' STATUS_INFO data1;
          (r, data3) = run_command sh lsb_release_command data2;
          codename = (case snd r of None \<Rightarrow> distro_codename (system_info data3) | Some out \<Rightarrow> Some out);
          data4 = (case codename of
                     Some c \<Rightarrow>
                       log_message_call (''Distribution codename: '' @ g_strchomp c) STATUS_INFO
                         (set_system_info (\<lambda>info. info\<lparr>distro_codename := Some (g_strchomp c)\<rparr>) data3)
                   | None \<Rightarrow>
                       log_message_call ''Unable to detect distribution codename'' STATUS_WARNING
                         (set_system_info (\<lambda>info. info\<lparr>distro_codename := Some ''unknown''\<rparr>) data3));
          data5 = log_message_call ''Checking for NVIDIA GPU...'' STATUS_INFO data4;
          (gpu, data6) = detect_nvidia_gpu sh data5;
          data7 = log_message_call ''Checking driver status...'' STATUS_INFO data6;
          (driver, data8) = detect_nvidia_driver sh data7;
          data9 = log_message_call ''Checking CUDA status...'' STATUS_INFO data8;
          (cuda, data10) = detect_cuda sh data9;
          data11 = g_idle_add (progress_update 0 None ''System detection completed.'' STATUS_INFO) data10;
          data12 = g_idle_add update_status_display_wrapper data11
      in g_idle_add (set_widget_sensitive_wrapper detect_button) data12)"


subsection \<open>Installation Planner/Executor\<close>

definition total_steps :: "bool \<Rightarrow> bool \<Rightarrow> int" where
  "total_steps install_driver install_cuda =
     1 + (if install_driver then 4 else 0) + (if install_cuda then 4 else 0)"

definition progress_increment_of :: "bool \<Rightarrow> bool \<Rightarrow> rat" where
  "progress_increment_of install_driver install_cuda =
     100 / of_int (total_steps install_driver install_cuda)"

text \<open>
  The block that opens a step in \<^verbatim>\<open>installation_thread\<close>:
  \<^verbatim>\<open>progress += progress_increment\<close>, then an update with the new progress, a message
  for the progress label and a log line is queued.
\<close>

definition announce :: "rat \<Rightarrow> string \<Rightarrow> string \<Rightarrow> rat \<times> AppData \<Rightarrow> rat \<times> AppData" where
  "announce progress_increment message l st =
     (let progress = fst st + progress_increment
      in (progress, g_idle_add (progress_update progress (Some message) l STATUS_INFO) (snd st)))"

definition prereq_cmd :: string where
  "prereq_cmd = ''sudo apt-get install -y software-properties-common ''
                @ ''apt-transport-https ca-certificates curl wget gnupg ''
                @ ''lsb-release build-essential dkms''"

definition repo_cmd :: "string option \<Rightarrow> string" where
  "repo_cmd codename =
     ''wget https://developer.download.nvidia.com/compute/cuda/repos/'' @ show_str codename
     @ ''/x86_64/cuda-keyring_1.1-1_all.deb''"

definition env_cmd :: string where
  "env_cmd = ''echo '' @ [CHR 0x27] @ ''export PATH=/usr/local/cuda/bin${PATH:+:$PATH}'' @ [CHR 0x27]
             @ '' | sudo tee /etc/profile.d/cuda.sh && ''
             @ ''echo '' @ [CHR 0x27]
             @ ''export LD_LIBRARY_PATH=/usr/local/cuda/lib64${LD_LIBRARY_PATH:+:$LD_LIBRARY_PATH}''
             @ [CHR 0x27] @ '' | sudo tee -a /etc/profile.d/cuda.sh''"

definition autoremove_command :: string where
  "autoremove_command = ''sudo apt-get autoremove -y''"

definition remove_keyring_command :: string where
  "remove_keyring_command = ''rm -f cuda-keyring_1.1-1_all.deb''"

text \<open>The body of \<^verbatim>\<open>if (install_driver)\<close>; \<open>False\<close> is the jump to \<^verbatim>\<open>cleanup_install\<close>.\<close>

definition driver_steps :: "shell \<Rightarrow> rat \<Rightarrow> rat \<times> AppData \<Rightarrow> bool \<times> rat \<times> AppData" where
  "driver_steps sh inc st =
     (let (p1, d1) = announce inc ''Adding NVIDIA repository...'' ''Adding NVIDIA repository...'' st
      in case run_command_with_progress sh (repo_cmd (distro_codename (system_info d1))) inc d1 of
           (False, d2) \<Rightarrow> (False, p1, d2)
         | (True, d2) \<Rightarrow>
      (case run_command_with_progress sh ''sudo dpkg -i cuda-keyring_1.1-1_all.deb'' inc d2 of
           (False, d3) \<Rightarrow> (False, p1, d3)
         | (True, d3) \<Rightarrow>
      (let (p2, d4) = announce inc ''Updating package lists...''
                        ''Updating package lists with NVIDIA repository...'' (p1, d3)
       in case run_command_with_progress sh ''sudo apt-get update'' inc d4 of
           (False, d5) \<Rightarrow> (False, p2, d5)
         | (True, d5) \<Rightarrow>
      (let (p3, d6) = announce inc ''Installing NVIDIA driver...''
                        ''Installing NVIDIA proprietary driver...'' (p2, d5)
       in case run_command_with_progress sh ''sudo apt-get install -y cuda-drivers'' inc d6 of
           (False, d7) \<Rightarrow> (False, p3, d7)
         | (True, d7) \<Rightarrow> (True, p3, d7)))))"

text \<open>The body of \<^verbatim>\<open>if (install_cuda)\<close>.\<close>

definition cuda_steps :: "shell \<Rightarrow> rat \<Rightarrow> rat \<times> AppData \<Rightarrow> bool \<times> rat \<times> AppData" where
  "cuda_steps sh inc st =
     (let (p1, d1) = announce inc ''Verifying CUDA repository...''
                       ''Ensuring NVIDIA CUDA repository...'' st
      in case run_command_with_progress sh ''sudo apt-get update'' inc d1 of
           (False, d2) \<Rightarrow> (False, p1, d2)
         | (True, d2) \<Rightarrow>
      (let (p2, d3) = announce inc ''Installing CUDA toolkit...'' ''Installing CUDA toolkit...'' (p1, d2)
       in case run_command_with_progress sh ''sudo apt-get install -y cuda-toolkit-12-6'' inc d3 of
           (False, d4) \<Rightarrow> (False, p2, d4)
         | (True, d4) \<Rightarrow>
      (let (p3, d5) = announce inc ''Setting up environment variables...''
                        ''Configuring CUDA environment...'' (p2, d4)
       in case run_command_with_progress sh env_cmd inc d5 of
           (False, d6) \<Rightarrow> (False, p3, d6)
         | (True, d6) \<Rightarrow> (True, p3, d6))))"

text \<open>
  From \<^verbatim>\<open>// Update package lists\<close> to the label \<^verbatim>\<open>cleanup_install\<close>: the result is
  \<^verbatim>\<open>success\<close>, the local \<^verbatim>\<open>progress\<close> and the state on reaching the label.
\<close>

definition install_sequence :: "shell \<Rightarrow> bool \<Rightarrow> bool \<Rightarrow> rat \<Rightarrow> AppData \<Rightarrow> bool \<times> rat \<times> AppData" where
  "install_sequence sh install_driver install_cuda inc data =
     (let (p1, d1) = announce inc ''Updating package lists...'' ''Updating package repositories...''
                       (0, data)
      in case run_command_with_progress sh ''sudo apt-get update'' inc d1 of
           (False, d2) \<Rightarrow> (False, p1, d2)
         | (True, d2) \<Rightarrow>
      (let (p2, d3) = announce inc ''Installing prerequisites...'' ''Installing required packages...''
                        (p1, d2)
       in case run_command_with_progress sh prereq_cmd inc d3 of
           (False, d4) \<Rightarrow> (False, p2, d4)
         | (True, d4) \<Rightarrow>
      (case (if install_driver then driver_steps sh inc (p2, d4) else (True, p2, d4)) of
           (False, st5) \<Rightarrow> (False, st5)
         | (True, st5) \<Rightarrow>
      (case (if install_cuda then cuda_steps sh inc st5 else (True, st5)) of
           (False, st6) \<Rightarrow> (False, st6)
         | (True, st6) \<Rightarrow>
      (let d7 = g_idle_add (update_progress_ui
                   \<lparr>upd_progress = 100,
                    upd_message = Some ''Installation completed successfully!'',
                    upd_log_message = Some ''Installation completed successfully!'',
                    upd_log_type = STATUS_SUCCESS\<rparr>) (snd st6);
           d8 = snd (run_command sh remove_keyring_command d7)
       in (True, 100, d8))))))"

text \<open>The three callbacks that give the buttons back, queued on every way out.\<close>

definition restore_buttons :: "AppData \<Rightarrow> AppData" where
  "restore_buttons data =
     g_idle_add set_button_label_wrapper
       (g_idle_add (set_widget_sensitive_wrapper detect_button)
         (g_idle_add (set_widget_sensitive_wrapper install_button) data))"

text \<open>From the label \<^verbatim>\<open>cleanup_install\<close> to the end of the thread function.\<close>

definition cleanup_install :: "shell \<Rightarrow> bool \<Rightarrow> AppData \<Rightarrow> AppData" where
  "cleanup_install sh success data =
     (let data1 = (if \<not> success then snd (run_command sh autoremove_command data) else data);
          data2 = restore_buttons (set_installation_running False data1)
      in if success
         then g_idle_add show_completion_dialog_wrapper data2
         else g_idle_add show_error_dialog_wrapper data2)"

text \<open>
  The thread function: \<open>Inr ()\<close> when it returns, \<open>Inl\<close> of the fault when the process
  ends inside the compatibility check, and the state reached.
\<close>

definition installation_thread :: "shell \<Rightarrow> nat \<Rightarrow> AppData \<Rightarrow> (fault + unit) \<times> AppData" where
  "installation_thread sh uid data =
     (let install_driver = install_driver_check data;
          install_cuda = install_cuda_check data;
          progress_increment = progress_increment_of install_driver install_cuda;
          (r, data1) = check_system_compatibility sh uid data
      in case r of
           Inl f \<Rightarrow> (Inl f, data1)
         | Inr compatible \<Rightarrow>
             if \<not> compatible
             then (Inr (), restore_buttons (set_installation_running False data1))
             else
               (let (online, data2) = check_internet_connectivity sh data1
                in if \<not> online
                   then (Inr (), g_idle_add show_error_dialog_wrapper
                                   (restore_buttons (set_installation_running False data2)))
                   else
                     (let (success, progress, data3) =
                            install_sequence sh install_driver install_cuda progress_increment data2
                      in (Inr (), cleanup_install sh success data3))))"

text \<open>A thread function returns: the thread is no longer live.\<close>

definition thread_return :: "thread \<Rightarrow> AppData \<Rightarrow> AppData" where
  "thread_return t data = data\<lparr>live_threads := remove1 t (live_threads data)\<rparr>"


subsection \<open>The step list of a run\<close>

text \<open>
  The steps of \<open>install_sequence\<close> read off as a list, for stating which step failed:
  each step is the command it runs, and the message and log line it announces first
  when it has any (the \<^verbatim>\<open>dpkg\<close> step runs under the announcement of the step before it).
  \<open>run_steps\<close> runs such a list the way the thread does, stopping at the first command
  that does not return 0.
\<close>

type_synonym step = "(string \<times> string) option \<times> string"

definition driver_plan :: "string option \<Rightarrow> step list" where
  "driver_plan codename =
     [(Some (''Adding NVIDIA repository...'', ''Adding NVIDIA repository...''), repo_cmd codename),
      (None, ''sudo dpkg -i cuda-keyring_1.1-1_all.deb''),
      (Some (''Updating package lists...'', ''Updating package lists with NVIDIA repository...''),
       ''sudo apt-get update''),
      (Some (''Installing NVIDIA driver...'', ''Installing NVIDIA proprietary driver...''),
       ''sudo apt-get install -y cuda-drivers'')]"

definition cuda_plan :: "step list" where
  "cuda_plan =
     [(Some (''Verifying CUDA repository...'', ''Ensuring NVIDIA CUDA repository...''),
       ''sudo apt-get update''),
      (Some (''Installing CUDA toolkit...'', ''Installing CUDA toolkit...''),
       ''sudo apt-get install -y cuda-toolkit-12-6''),
      (Some (''Setting up environment variables...'', ''Configuring CUDA environment...''), env_cmd)]"

definition install_plan :: "bool \<Rightarrow> bool \<Rightarrow> string option \<Rightarrow> step list" where
  "install_plan install_driver install_cuda codename =
     [(Some (''Updating package lists...'', ''Updating package repositories...''), ''sudo apt-get update''),
      (Some (''Installing prerequisites...'', ''Installing required packages...''), prereq_cmd)]
     @ (if install_driver then driver_plan codename else [])
     @ (if install_cuda then cuda_plan else [])"

fun run_steps :: "shell \<Rightarrow> rat \<Rightarrow> step list \<Rightarrow> rat \<times> AppData \<Rightarrow> bool \<times> rat \<times> AppData" where
  "run_steps sh inc [] st = (True, st)"
| "run_steps sh inc ((a, command) # rest) st =
     (let st1 = (case a of None \<Rightarrow> st | Some (message, l) \<Rightarrow> announce inc message l st)
      in case run_command_with_progress sh command inc (snd st1) of
           (False, d) \<Rightarrow> (False, fst st1, d)
         | (True, d) \<Rightarrow> run_steps sh inc rest (fst st1, d))"

text \<open>
  The value \<open>run_command\<close> returns for an answer of the shell: \<open>-1\<close> when the pipe did
  not open, else what \<^verbatim>\<open>pclose\<close> returned, which is the wait status of the process. A
  process that left through \<^verbatim>\<open>exit\<close> with status \<open>e\<close> has the wait status \<open>256 * e\<close>, and
  \<^verbatim>\<open>WEXITSTATUS\<close> reads \<open>e\<close> back from it.
\<close>

definition WEXITSTATUS :: "int \<Rightarrow> int" where
  "WEXITSTATUS status = (status div 256) mod 256"

definition returned_status :: "(int \<times> string) option \<Rightarrow> int" where
  "returned_status r = (case r of None \<Rightarrow> - 1 | Some (status, printed) \<Rightarrow> status)"

text \<open>
  What \<^verbatim>\<open>update_progress_ui\<close> shows once the queue is drained: the progress label holds
  the message of the last queued update that has one.
\<close>

fun label_messages :: "effect list \<Rightarrow> string list" where
  "label_messages [] = []"
| "label_messages (IdleAdd (update_progress_ui u) # es) =
     (case upd_message u of None \<Rightarrow> label_messages es | Some m \<Rightarrow> m # label_messages es)"
| "label_messages (_ # es) = label_messages es"

definition progress_label :: "effect list \<Rightarrow> string option" where
  "progress_label es = (case label_messages es of [] \<Rightarrow> None | m # ms \<Rightarrow> Some (last (m # ms)))"

text \<open>
  The description announced last among the steps \<open>0..k\<close> of a step list. It is the
  description of step \<open>k\<close> when that step announces one, and that of an earlier step
  otherwise.
\<close>

definition last_announced :: "step list \<Rightarrow> nat \<Rightarrow> string option" where
  "last_announced plan k =
     (case map fst (List.map_filter fst (take (Suc k) plan)) of
        [] \<Rightarrow> None
      | m # ms \<Rightarrow> Some (last (m # ms)))"

text \<open>The callbacks that end a run: the buttons come back and the closing dialog is shown.\<close>

fun terminal_event :: "effect \<Rightarrow> bool" where
  "terminal_event (IdleAdd (set_widget_sensitive_wrapper w)) = True"
| "terminal_event (IdleAdd set_button_label_wrapper) = True"
| "terminal_event (IdleAdd show_completion_dialog_wrapper) = True"
| "terminal_event (IdleAdd show_error_dialog_wrapper) = True"
| "terminal_event _ = False"

subsection \<open>Click handlers and program start\<close>

definition sudo_check_command :: string where
  "sudo_check_command = ''sudo -S echo '' @ [CHR 0x27] @ ''test'' @ [CHR 0x27] @ '' >/dev/null 2>&1''"

text \<open>
  \<open>verify_sudo_access\<close> opens its own pipe, for writing, and feeds it the password; the
  result is whether the pipe opened and \<^verbatim>\<open>pclose\<close> returned 0.
\<close>

definition verify_sudo_access :: "shell \<Rightarrow> string \<Rightarrow> AppData \<Rightarrow> bool \<times> AppData" where
  "verify_sudo_access sh password data =
     (let data' = do_effect (Popen sudo_check_command) (data\<lparr>started := Suc (started data)\<rparr>)
      in case sh (started data) sudo_check_command of
           None \<Rightarrow> (False, data')
         | Some (status, printed) \<Rightarrow> (status = 0, data'))"

definition on_detect_clicked :: "AppData \<Rightarrow> AppData" where
  "on_detect_clicked data =
     (if installation_running data then data
      else pthread_create detection_thread_fn
             (log_message_call ''Running system detection...'' STATUS_INFO
               (data\<lparr>detect_button_sensitive := False\<rparr>)))"

definition bullet :: string where
  "bullet = [CHR 0xE2, CHR 0x80, CHR 0xA2]"

definition confirmation_message :: "bool \<Rightarrow> bool \<Rightarrow> string" where
  "confirmation_message install_driver install_cuda =
     ''This will install:'' @ [newline, newline]
     @ (if install_driver then bullet @ '' NVIDIA Driver'' @ [newline] else [])
     @ (if install_cuda then bullet @ '' CUDA Toolkit'' @ [newline] else [])
     @ [newline] @ ''The installation may take several minutes and require a reboot.''
     @ [newline] @ ''Continue?''"

definition wsl_dialog_message :: string where
  "wsl_dialog_message =
     ''This tool cannot install NVIDIA drivers in WSL.'' @ [newline, newline]
     @ ''This tool is designed for live boot Linux systems.'' @ [newline, newline]
     @ ''To use this tool:'' @ [newline]
     @ ''1. Create a live USB with Ubuntu/Debian'' @ [newline]
     @ ''2. Boot from the USB on the target system'' @ [newline]
     @ ''3. Run this tool on the live system''"

text \<open>
  \<open>confirm\<close> is the answer to the confirmation dialog and \<open>password\<close> what the password
  dialog returns, \<open>None\<close> when it is cancelled.
\<close>

definition on_install_clicked :: "shell \<Rightarrow> bool \<Rightarrow> string option \<Rightarrow> AppData \<Rightarrow> AppData" where
  "on_install_clicked sh confirm password data =
     (if installation_running data then data
      else
        (let (wsl, data1) = is_wsl_system sh data
         in if wsl then do_effect (ErrorDialog ''WSL Environment Detected'' wsl_dialog_message) data1
            else if \<not> gpu_detected (system_info data1)
            then do_effect (ErrorDialog ''Error''
                   ''No NVIDIA GPU detected. Installation cannot proceed.'') data1
            else
              (let install_driver = install_driver_check data1;
                   install_cuda = install_cuda_check data1
               in if \<not> install_driver \<and> \<not> install_cuda
                  then do_effect (ErrorDialog ''Warning''
                         ''Please select at least one installation option.'') data1
                  else
                    (let data2 = do_effect (ConfirmationDialog ''Confirm Installation''
                                   (confirmation_message install_driver install_cuda)) data1
                     in if \<not> confirm then data2
                        else
                          (let data3 = do_effect PasswordDialog data2
                           in case password of
                                None \<Rightarrow> data3
                              | Some pw \<Rightarrow>
                                  (let (ok, data4) = verify_sudo_access sh pw data3
                                   in if \<not> ok
                                      then do_effect (ErrorDialog ''Error''
                                             ''Invalid password or insufficient privileges.'') data4
                                      else pthread_create installation_thread_fn
                                             (log_message_call ''Starting installation process...''
                                                STATUS_INFO
                                               ((set_installation_running True data4)
                                                  \<lparr>progress_frame_visible := True,
                                                   install_button_sensitive := False,
                                                   detect_button_sensitive := False,
                                                   install_button_label := ''Installing...''\<rparr>))))))))"

text \<open>
  The state \<^verbatim>\<open>main\<close> builds before \<^verbatim>\<open>gtk_main\<close>: \<open>init_app_data\<close>, the window with the
  driver option ticked, and the first detection thread.
\<close>

definition init_app_data :: AppData where
  "init_app_data =
     \<lparr>system_info = \<lparr>gpu_detected = False, gpu_info = Some ''Unknown'',
                      driver_installed = False, driver_info = Some ''Unknown'',
                      cuda_installed = False, cuda_info = Some ''Unknown'',
                      distro_codename = None\<rparr>,
      installation_running = False,
      install_driver_check = True,
      install_cuda_check = False,
      detect_button_sensitive = True,
      install_button_sensitive = True,
      install_button_label = ''[INSTALL] Start'',
      progress_frame_visible = False,
      live_threads = [],
      started = 0,
      effects = []\<rparr>"

definition main_start :: AppData where
  "main_start = pthread_create detection_thread_fn init_app_data"

subsection \<open>Observations and concrete environments\<close>

text \<open>The messages a thread logged directly with a given severity.\<close>

fun logged :: "StatusType \<Rightarrow> effect list \<Rightarrow> string list" where
  "logged t [] = []"
| "logged t (LogMessage m t' # es) = (if t' = t then m # logged t es else logged t es)"
| "logged t (_ # es) = logged t es"

text \<open>What a run does between its gates and its end: processes and progress updates.\<close>

fun step_event :: "effect \<Rightarrow> bool" where
  "step_event (Popen c) = True"
| "step_event (IdleAdd (update_progress_ui u)) = True"
| "step_event _ = False"

text \<open>What a thread does before the run flag is reset: also direct log calls.\<close>

fun worker_event :: "effect \<Rightarrow> bool" where
  "worker_event (LogMessage m t) = True"
| "worker_event e = step_event e"

text \<open>
  The effects of the pieces of a run, for stating what a run leaves behind: the three
  events of \<open>run_command_with_progress\<close> for a command and its status, the announcement
  of a step, the update that closes a successful run, and the WSL log lines.
\<close>

definition command_events :: "rat \<Rightarrow> string \<Rightarrow> int \<Rightarrow> effect list" where
  "command_events inc c status =
     [IdleAdd (progress_update 0 None (''Running: '' @ c) STATUS_INFO), Popen c,
      IdleAdd (if status = 0
               then progress_update inc None ''Command completed successfully'' STATUS_SUCCESS
               else progress_update 0 None (''Command failed with exit code '' @ show_int status)
                      STATUS_ERROR)]"

definition announcement :: "rat \<Rightarrow> (string \<times> string) option \<Rightarrow> effect list" where
  "announcement progress a =
     (case a of None \<Rightarrow> []
      | Some (m, l) \<Rightarrow> [IdleAdd (progress_update progress (Some m) l STATUS_INFO)])"

definition final_update :: effect where
  "final_update = IdleAdd (update_progress_ui
                   \<lparr>upd_progress = 100,
                    upd_message = Some ''Installation completed successfully!'',
                    upd_log_message = Some ''Installation completed successfully!'',
                    upd_log_type = STATUS_SUCCESS\<rparr>)"

definition wsl_effects :: "effect list" where
  "wsl_effects = map (\<lambda>(m, t). LogMessage m t) wsl_log"

definition restore_events :: "effect list" where
  "restore_events =
     [IdleAdd (set_widget_sensitive_wrapper install_button),
      IdleAdd (set_widget_sensitive_wrapper detect_button),
      IdleAdd set_button_label_wrapper]"

text \<open>The four read-only commands of the two gates, in the order they are started.\<close>

definition gate_commands :: "string list" where
  "gate_commands = [wsl_probe_command, df_command, mokutil_command, ping_command]"

text \<open>What the checks of a gate that is passed do: processes, and warnings logged directly.\<close>

fun gate_event :: "effect \<Rightarrow> bool" where
  "gate_event (Popen c) = True"
| "gate_event (LogMessage m t) = (t = STATUS_WARNING)"
| "gate_event _ = False"

text \<open>\<open>d'\<close> is \<open>d\<close> with more effects, all of them warnings logged on the worker thread.\<close>

definition logs_only :: "AppData \<Rightarrow> AppData \<Rightarrow> bool" where
  "logs_only d d' = (\<exists>X. d' = d\<lparr>effects := effects d @ X\<rparr> \<and> list_all gate_event X \<and> commands X = [])"

text \<open>
  The lines that reach the console with the severity of an error, in order: those logged
  directly and those carried by a queued progress update.
\<close>

fun error_lines :: "effect list \<Rightarrow> string list" where
  "error_lines [] = []"
| "error_lines (LogMessage m t # es) = (if t = STATUS_ERROR then m # error_lines es else error_lines es)"
| "error_lines (IdleAdd (update_progress_ui u) # es) =
     (case upd_log_message u of
        None \<Rightarrow> error_lines es
      | Some l \<Rightarrow> if upd_log_type u = STATUS_ERROR then l # error_lines es else error_lines es)"
| "error_lines (_ # es) = error_lines es"

text \<open>
  A native Linux host with an NVIDIA card on which every command succeeds: the WSL probe
  finds nothing (\<^verbatim>\<open>grep\<close> leaves with 1, wait status 256).
\<close>

definition gpu_line :: string where
  "gpu_line = ''01:00.0 VGA compatible controller: NVIDIA Corporation AD104'' @ [newline]"

definition native_shell :: shell where
  "native_shell n command =
     (if command = lspci_command then Some (0, gpu_line)
      else if command = lsb_release_command then Some (0, ''noble'' @ [newline])
      else if command = wsl_probe_command then Some (256, [])
      else Some (0, []))"

text \<open>The same host without \<^verbatim>\<open>lsb_release\<close>: the shell prints nothing on the pipe and leaves with 127.\<close>

definition no_lsb_shell :: shell where
  "no_lsb_shell n command =
     (if command = lsb_release_command then Some (32512, [])
      else native_shell n command)"

text \<open>
  The same host where installing the driver package fails: \<^verbatim>\<open>apt-get\<close> leaves with exit
  status 100, which \<^verbatim>\<open>pclose\<close> returns as the wait status 25600.
\<close>

definition driver_fails_shell :: shell where
  "driver_fails_shell n command =
     (if command = ''sudo apt-get install -y cuda-drivers'' then Some (25600, [])
      else native_shell n command)"

text \<open>The same host where \<^verbatim>\<open>dpkg\<close> fails on the keyring package with exit status 1.\<close>

definition dpkg_fails_shell :: shell where
  "dpkg_fails_shell n command =
     (if command = ''sudo dpkg -i cuda-keyring_1.1-1_all.deb'' then Some (256, [])
      else native_shell n command)"

text \<open>
  The same host at a moment when no further pipe can be opened once \<^verbatim>\<open>df\<close> has run:
  \<^verbatim>\<open>popen\<close> fails for \<^verbatim>\<open>mokutil\<close>.
\<close>

definition no_mokutil_pipe_shell :: shell where
  "no_mokutil_pipe_shell n command =
     (if command = mokutil_command then None else native_shell n command)"

text \<open>
  A host where \<^verbatim>\<open>lsb_release\<close> prints a notice on its standard output before the
  codename, and the message the probe then logs.
\<close>

definition two_line_shell :: shell where
  "two_line_shell n command =
     (if command = lsb_release_command
      then Some (0, ''No LSB modules are available.'' @ [newline] @ ''noble'' @ [newline])
      else native_shell n command)"

definition two_line_message :: string where
  "two_line_message = ''Distribution codename: No LSB modules are available.'' @ [newline] @ ''noble''"

text \<open>A console that is one insertion short of the cap: 999 insertions of a one-line message.\<close>

definition busy_log :: "(GDateTime \<times> string \<times> StatusType) list" where
  "busy_log = replicate 999 (nine_o_five, ''Checking for NVIDIA GPU...'', STATUS_INFO)"

text \<open>A WSL host: the probe prints the kernel version line with the marker.\<close>

definition wsl_shell :: shell where
  "wsl_shell n command =
     (if command = wsl_probe_command
      then Some (0, ''Linux version 5.15.90.1-microsoft-standard-WSL2'' @ [newline])
      else native_shell n command)"

text \<open>
  The state after the first probe on the native host has returned, and the state in
  which the installation thread then starts: the user has clicked Install, confirmed and
  given a password that \<^verbatim>\<open>sudo\<close> accepts.
\<close>

definition probed :: AppData where
  "probed = thread_return detection_thread_fn (detection_thread native_shell main_start)"

definition ready :: AppData where
  "ready = on_install_clicked native_shell True (Some ''secret'') probed"

text \<open>The commands an install run starts, from its first to its last.\<close>

definition run_commands :: "shell \<Rightarrow> nat \<Rightarrow> AppData \<Rightarrow> string list" where
  "run_commands sh uid data =
     drop (length (commands (effects data)))
       (commands (effects (snd (installation_thread sh uid data))))"

text \<open>The probe up to and including its first step, the distribution codename.\<close>

definition codename_step :: "shell \<Rightarrow> AppData \<Rightarrow> AppData" where
  "codename_step sh d =
     (let d2 = log_message_call ''Detecting Linux distribution...'' STATUS_INFO
                 (log_message_call ''Detecting system components...'' STATUS_INFO d);
          r = run_command sh lsb_release_command d2;
          d3 = snd r
      in case (case snd (fst r) of None \<Rightarrow> distro_codename (system_info d3) | Some out \<Rightarrow> Some out) of
           Some c \<Rightarrow>
             log_message_call (''Distribution codename: '' @ g_strchomp c) STATUS_INFO
               (set_system_info (\<lambda>info. info\<lparr>distro_codename := Some (g_strchomp c)\<rparr>) d3)
         | None \<Rightarrow>
             log_message_call ''Unable to detect distribution codename'' STATUS_WARNING
               (set_system_info (\<lambda>info. info\<lparr>distro_codename := Some ''unknown''\<rparr>) d3))"

text \<open>The state after the first probe in which the user has unticked the driver option.\<close>

definition unticked :: AppData where
  "unticked = probed\<lparr>install_driver_check := False\<rparr>"

text \<open>
  Two readings of the progress a run reports. \<open>step_increments\<close> are the increments that
  \<open>run_command_with_progress\<close> attaches to its success updates (no message, severity
  success), one for each command that returned 0. \<open>announced_progress\<close> are the values
  of the local \<^verbatim>\<open>progress\<close> queued with a message, the only ones that
  \<^verbatim>\<open>update_progress_ui\<close> puts on the progress bar.
\<close>

fun step_increments :: "effect list \<Rightarrow> rat list" where
  "step_increments [] = []"
| "step_increments (IdleAdd (update_progress_ui u) # es) =
     (if upd_message u = None \<and> upd_log_type u = STATUS_SUCCESS
      then upd_progress u # step_increments es else step_increments es)"
| "step_increments (_ # es) = step_increments es"

fun announced_progress :: "effect list \<Rightarrow> rat list" where
  "announced_progress [] = []"
| "announced_progress (IdleAdd (update_progress_ui u) # es) =
     (if upd_message u = None then announced_progress es
      else upd_progress u # announced_progress es)"
| "announced_progress (_ # es) = announced_progress es"

section \<open>Properties\<close>

subsection \<open>The console log keeps at most MAX_LOG_LINES lines\<close>

lemma digit_char_is_digit: "is_digit (digit_char d)"
  unfolding is_digit_def digit_char_def by (rule nth_mem) simp

lemma line_end_newline: "line_end (newline # rest) = 1"
  by (simp add: line_end_def carriage_return_def newline_def)

lemma one_line_tail: "one_line (c # l) \<Longrightarrow> one_line l"
  by (simp add: one_line_def)

lemma one_line_head: "line_end (c # l @ newline # rest) = 0" if "one_line (c # l)"
proof -
  have c: "c \<noteq> newline" "c \<noteq> carriage_return" and sep: "\<not> prefix paragraph_separator (c # l)"
    using that by (auto simp: one_line_def)
  have "\<not> prefix paragraph_separator (c # l @ newline # rest)"
  proof (cases l)
    case Nil
    then show ?thesis by (simp add: paragraph_separator_def newline_def)
  next
    case (Cons x xs)
    then show ?thesis
      using sep by (cases xs) (auto simp: paragraph_separator_def newline_def)
  qed
  then show ?thesis
    using c by (simp add: line_end_def)
qed

lemma line_ends_one_line:
  "one_line l \<Longrightarrow> line_ends 0 (l @ newline # rest) = Suc (line_ends 0 rest)"
proof (induction l)
  case Nil
  then show ?case by (simp add: line_end_newline)
next
  case (Cons c l)
  then show ?case
    using one_line_head[OF Cons.prems, of rest] one_line_tail[OF Cons.prems] by simp
qed

lemma delete_lines_one_line:
  "one_line l \<Longrightarrow> delete_lines (Suc n) 0 (l @ newline # rest) = delete_lines n 0 rest"
proof (induction l)
  case Nil
  then show ?case by (cases rest) (simp_all add: line_end_newline)
next
  case (Cons c l)
  then show ?case
    using one_line_head[OF Cons.prems, of rest] one_line_tail[OF Cons.prems] by simp
qed

lemma lines_from_one_line:
  "one_line l \<Longrightarrow> lines_from cur 0 (l @ newline # rest) = (cur @ l) # lines_from [] 0 rest"
proof (induction l arbitrary: cur)
  case Nil
  then show ?case by (simp add: line_end_newline)
next
  case (Cons c l)
  then show ?case
    using one_line_head[OF Cons.prems, of rest] one_line_tail[OF Cons.prems] by simp
qed

lemma delete_lines_0: "delete_lines 0 0 buf = buf"
  by (cases buf) simp_all

lemma strstr_after: "strstr (p @ s) paragraph_separator = strstr s paragraph_separator"
  if "CHR 0xE2 \<notin> set p"
  using that by (induction p) (auto simp: paragraph_separator_def)

lemma digit_char_plain:
  "digit_char d \<noteq> CHR 0x0A" "digit_char d \<noteq> CHR 0x0D" "digit_char d \<noteq> CHR 0xE2"
  using digit_char_is_digit[of d] by (auto simp: is_digit_def)

lemma one_line_stamp:
  "newline \<notin> set (g_date_time_format now)" "carriage_return \<notin> set (g_date_time_format now)"
  "CHR 0xE2 \<notin> set (g_date_time_format now)"
  using digit_char_plain digit_char_plain[symmetric]
  by (simp_all add: g_date_time_format_def two_digits_def newline_def carriage_return_def)

lemma one_line_icon:
  "newline \<notin> set (status_icon t)" "carriage_return \<notin> set (status_icon t)"
  "CHR 0xE2 \<notin> set (status_icon t)"
  by (cases t; simp add: status_icon_def newline_def carriage_return_def)+

lemma formatted_message_line:
  "formatted_message now message t = log_line (now, message, t) @ [newline]"
  by (simp add: log_line_def formatted_message_def butlast_append)

lemma one_line_log_line: "one_line (log_line (now, message, t))" if "one_line message"
proof -
  let ?p = "''['' @ g_date_time_format now @ ''] '' @ status_icon t @ '' ''"
  have l: "log_line (now, message, t) = ?p @ message"
    by (simp add: log_line_def formatted_message_def butlast_append)
  have p: "newline \<notin> set ?p" "carriage_return \<notin> set ?p" "CHR 0xE2 \<notin> set ?p"
    using one_line_stamp[of now] one_line_icon[of t]
    by (simp_all add: newline_def carriage_return_def)
  show ?thesis
    unfolding l one_line_def using that p strstr_after[OF p(3), of message]
    by (simp add: one_line_def)
qed

lemma log_line_format_log_line: "log_line_format (log_line (now, message, t))"
  using digit_char_is_digit
  by (cases t) (simp_all add: log_line_def formatted_message_def butlast_append
      g_date_time_format_def two_digits_def status_icon_def severity_tags_def)

lemma line_count_join: "gtk_text_buffer_get_line_count (join_lines ls) = Suc (length ls)"
  if "\<forall>l \<in> set ls. one_line l"
  using that
proof (induction ls)
  case Nil
  then show ?case by (simp add: join_lines_def gtk_text_buffer_get_line_count_def)
next
  case (Cons l ls)
  then show ?case
    using line_ends_one_line[of l "join_lines ls"]
    by (simp add: join_lines_def gtk_text_buffer_get_line_count_def)
qed

lemma delete_to_line_join:
  "\<forall>l \<in> set ls. one_line l \<Longrightarrow> delete_to_line n (join_lines ls) = join_lines (drop n ls)"
proof (induction ls arbitrary: n)
  case Nil
  then show ?case by (simp add: join_lines_def delete_to_line_def)
next
  case (Cons l ls)
  show ?case
  proof (cases n)
    case 0
    then show ?thesis by (simp add: delete_to_line_def delete_lines_0)
  next
    case (Suc m)
    have "delete_to_line (Suc m) (join_lines (l # ls)) = delete_to_line m (join_lines ls)"
      using Cons.prems delete_lines_one_line[of l m "join_lines ls"]
      by (simp add: join_lines_def delete_to_line_def)
    with Cons Suc show ?thesis by simp
  qed
qed

lemma closed_lines_join:
  "\<forall>l \<in> set ls. one_line l \<Longrightarrow> closed_lines (join_lines ls) = ls"
proof (induction ls)
  case Nil
  then show ?case by (simp add: join_lines_def closed_lines_def)
next
  case (Cons l ls)
  then show ?case
    using lines_from_one_line[of l "[]" "join_lines ls"]
    by (simp add: join_lines_def closed_lines_def)
qed

lemma join_lines_snoc: "join_lines (ls @ [l]) = join_lines ls @ l @ [newline]"
  by (simp add: join_lines_def)

lemma log_message_join:
  assumes "\<forall>l \<in> set ls. one_line l"
  shows "log_message now message t (Some (join_lines ls)) =
           Some (join_lines (keep_newest ls) @ formatted_message now message t)"
proof -
  have "Suc (length ls) - MAX_LOG_LINES + 1 = Suc (length ls) - (MAX_LOG_LINES - 1)"
    if "MAX_LOG_LINES \<le> Suc (length ls)"
    using that by (simp add: MAX_LOG_LINES_def)
  moreover have "keep_newest ls = ls" if "\<not> MAX_LOG_LINES \<le> Suc (length ls)"
    using that by (simp add: keep_newest_def MAX_LOG_LINES_def)
  ultimately show ?thesis
    using assms
    by (simp add: log_message_def line_count_join delete_to_line_join keep_newest_def Let_def)
qed

lemma log_message_join_line:
  assumes "\<forall>l \<in> set ls. one_line l"
  shows "log_message now message t (Some (join_lines ls)) =
           Some (join_lines (keep_newest ls @ [log_line (now, message, t)]))"
  using log_message_join[OF assms] by (simp add: join_lines_snoc formatted_message_line)

lemma log_messages_join:
  assumes "\<forall>l \<in> set ls. one_line l"
    and "\<forall>e \<in> set entries. one_line (fst (snd e))"
    and "length ls < MAX_LOG_LINES"
  shows "log_messages entries (Some (join_lines ls)) =
           Some (join_lines (drop (length ls + length entries - (MAX_LOG_LINES - 1))
                               (ls @ map log_line entries)))"
  using assms
proof (induction entries arbitrary: ls)
  case Nil
  then show ?case by (simp add: MAX_LOG_LINES_def)
next
  case (Cons e es)
  obtain now message t where e: "e = (now, message, t)" by (cases e) auto
  let ?ls = "keep_newest ls @ [log_line e]"
  have nl: "\<forall>l \<in> set ?ls. one_line l"
    using Cons.prems(1,2) one_line_log_line[of message now t]
    by (auto simp: e keep_newest_def dest: in_set_dropD)
  have len: "length ?ls < MAX_LOG_LINES"
    using Cons.prems(3) by (simp add: keep_newest_def MAX_LOG_LINES_def)
  have "log_messages (e # es) (Some (join_lines ls)) = log_messages es (Some (join_lines ?ls))"
    using Cons.prems(1) by (simp add: e log_message_join_line)
  also have "\<dots> = Some (join_lines (drop (length ?ls + length es - (MAX_LOG_LINES - 1))
                               (?ls @ map log_line es)))"
    using Cons.IH[OF nl _ len] Cons.prems(2) by simp
  also have "drop (length ?ls + length es - (MAX_LOG_LINES - 1)) (?ls @ map log_line es)
      = drop (length ls + length (e # es) - (MAX_LOG_LINES - 1)) (ls @ map log_line (e # es))"
  proof (cases "length ls = MAX_LOG_LINES - 1")
    case True
    then have "keep_newest ls = drop 1 ls" "Suc 0 - length ls = 0"
      by (auto simp: keep_newest_def MAX_LOG_LINES_def)
    then have "?ls @ map log_line es = drop 1 (ls @ map log_line (e # es))"
      by simp
    moreover have "length (keep_newest ls) = MAX_LOG_LINES - 2"
      using True by (simp add: keep_newest_def MAX_LOG_LINES_def)
    ultimately show ?thesis
      using True by (simp add: MAX_LOG_LINES_def del: drop_append)
  next
    case False
    then have "keep_newest ls = ls"
      using Cons.prems(3) by (simp add: keep_newest_def MAX_LOG_LINES_def)
    then show ?thesis by simp
  qed
  finally show ?case .
qed

lemma keep_newest_at_cap: "length xs = MAX_LOG_LINES - 1 \<Longrightarrow> keep_newest xs = tl xs"
  by (simp add: keep_newest_def MAX_LOG_LINES_def drop_Suc)

lemma list_all_log_lines: "list_all log_line_format (map log_line entries)"
proof (induction entries)
  case Nil
  then show ?case by simp
next
  case (Cons e es)
  then show ?case using log_line_format_log_line by (cases e) simp
qed

text \<open>
  Start from the empty console and insert any sequence of messages that GTK keeps on one
  line each. The buffer then holds at most \<open>MAX_LOG_LINES\<close> lines in GTK's count, namely
  \<open>min (n + 1) MAX_LOG_LINES\<close> after \<open>n\<close> insertions; its closed lines are exactly the
  newest insertions, the oldest evicted first; every one of them has the format
  \<^verbatim>\<open>[HH:MM:SS] [SEVERITY] message\<close>; and when the count is at the cap, one more
  insertion of such a message evicts exactly the oldest line and leaves the count at the
  cap.
\<close>

lemma log_of_one_line_messages:
  assumes "\<forall>e \<in> set entries. one_line (fst (snd e))"
  shows "\<exists>buf. log_messages entries (Some []) = Some buf
           \<and> buf = join_lines (drop (length entries - (MAX_LOG_LINES - 1)) (map log_line entries))
           \<and> gtk_text_buffer_get_line_count buf = min (Suc (length entries)) MAX_LOG_LINES
           \<and> closed_lines buf = drop (length entries - (MAX_LOG_LINES - 1)) (map log_line entries)
           \<and> list_all one_line (closed_lines buf)
           \<and> list_all log_line_format (closed_lines buf)
           \<and> (gtk_text_buffer_get_line_count buf = MAX_LOG_LINES \<longrightarrow>
                (\<forall>now message t. one_line message \<longrightarrow>
                  (\<exists>buf'. log_message now message t (Some buf) = Some buf'
                     \<and> gtk_text_buffer_get_line_count buf' = MAX_LOG_LINES
                     \<and> closed_lines buf' = tl (closed_lines buf) @ [log_line (now, message, t)])))"
proof -
  let ?ls = "drop (length entries - (MAX_LOG_LINES - 1)) (map log_line entries)"
  have nl_all: "\<forall>l \<in> set (map log_line entries). one_line l"
  proof
    fix l assume "l \<in> set (map log_line entries)"
    then obtain e where "e \<in> set entries" "l = log_line e" by auto
    then show "one_line l"
      using assms one_line_log_line[of "fst (snd e)" "fst e" "snd (snd e)"] by simp
  qed
  then have nl: "\<forall>l \<in> set ?ls. one_line l"
    by (meson in_set_dropD)
  have run: "log_messages entries (Some []) = Some (join_lines ?ls)"
    using log_messages_join[of "[]" entries] assms
    by (simp add: join_lines_def MAX_LOG_LINES_def)
  have count: "gtk_text_buffer_get_line_count (join_lines ?ls) = min (Suc (length entries)) MAX_LOG_LINES"
    using line_count_join[OF nl] by (simp add: MAX_LOG_LINES_def)
  have lines: "closed_lines (join_lines ?ls) = ?ls"
    by (rule closed_lines_join[OF nl])
  have fmt: "list_all log_line_format ?ls"
    using list_all_log_lines[of entries] unfolding list_all_iff by (meson in_set_dropD)
  have one: "list_all one_line ?ls"
    using nl unfolding list_all_iff .
  have cap: "\<exists>buf'. log_message now message t (Some (join_lines ?ls)) = Some buf'
                     \<and> gtk_text_buffer_get_line_count buf' = MAX_LOG_LINES
                     \<and> closed_lines buf' = tl ?ls @ [log_line (now, message, t)]"
    if at_cap: "gtk_text_buffer_get_line_count (join_lines ?ls) = MAX_LOG_LINES"
      and msg: "one_line message" for now message t
  proof -
    have len: "length ?ls = MAX_LOG_LINES - 1"
      using at_cap line_count_join[OF nl] by (simp add: MAX_LOG_LINES_def)
    then have keep: "keep_newest ?ls = tl ?ls"
      by (rule keep_newest_at_cap)
    let ?new = "tl ?ls @ [log_line (now, message, t)]"
    have "?ls \<noteq> []" using len by (auto simp: MAX_LOG_LINES_def)
    then have nl': "\<forall>l \<in> set ?new. one_line l"
      using nl one_line_log_line[OF msg, of now t]
      by (auto dest: list.set_sel(2)[rotated])
    have "log_message now message t (Some (join_lines ?ls)) = Some (join_lines ?new)"
      using log_message_join_line[OF nl, of now message t] keep by simp
    moreover have "gtk_text_buffer_get_line_count (join_lines ?new) = MAX_LOG_LINES"
      using line_count_join[OF nl'] len by (simp add: MAX_LOG_LINES_def)
    moreover have "closed_lines (join_lines ?new) = ?new"
      by (rule closed_lines_join[OF nl'])
    ultimately show ?thesis by simp
  qed
  show ?thesis
    using run count lines fmt one cap by (intro exI[of _ "join_lines ?ls"]) simp
qed



subsection \<open>What the pieces of a run do\<close>

lemmas effect_defs = do_effect_def g_idle_add_def log_message_call_def set_installation_running_def
  pthread_create_def

lemma run_command_status [simp]:
  "fst (fst (run_command sh c d)) = returned_status (sh (started d) c)"
  by (simp add: run_command_def returned_status_def Let_def split: option.splits prod.splits)

lemma run_command_state [simp]:
  "snd (run_command sh c d) = d\<lparr>started := Suc (started d), effects := effects d @ [Popen c]\<rparr>"
  by (simp add: run_command_def do_effect_def Let_def split: option.splits prod.splits)

lemma run_command_with_progress_eq:
  "run_command_with_progress sh c inc d =
     (returned_status (sh (started d) c) = 0,
      d\<lparr>started := Suc (started d),
        effects := effects d @
          [IdleAdd (progress_update 0 None (''Running: '' @ c) STATUS_INFO), Popen c,
           IdleAdd (if returned_status (sh (started d) c) = 0
                    then progress_update inc None ''Command completed successfully'' STATUS_SUCCESS
                    else progress_update 0 None
                           (''Command failed with exit code '' @ show_int (returned_status (sh (started d) c)))
                           STATUS_ERROR)]\<rparr>)"
  by (simp add: run_command_with_progress_def effect_defs Let_def split_beta)

lemma announce_eq:
  "announce inc m l (p, d) =
     (p + inc, d\<lparr>effects := effects d @ [IdleAdd (progress_update (p + inc) (Some m) l STATUS_INFO)]\<rparr>)"
  by (simp add: announce_def effect_defs Let_def)


lemma rcwp_eq:
  "run_command_with_progress sh c inc d =
     (returned_status (sh (started d) c) = 0,
      d\<lparr>started := Suc (started d),
        effects := effects d @ command_events inc c (returned_status (sh (started d) c))\<rparr>)"
  by (simp add: run_command_with_progress_eq command_events_def)

lemma run_steps_Cons:
  "run_steps sh inc ((a, c) # rest) (p, d) =
     (let p1 = (case a of None \<Rightarrow> p | Some x \<Rightarrow> p + inc);
          status = returned_status (sh (started d) c);
          d2 = d\<lparr>started := Suc (started d),
                 effects := effects d @ announcement p1 a @ command_events inc c status\<rparr>
      in if status = 0 then run_steps sh inc rest (p1, d2) else (False, p1, d2))"
  by (cases a) (auto simp: rcwp_eq announce_eq announcement_def Let_def)

declare run_steps.simps(2) [simp del]

lemma commands_append [simp]: "commands (xs @ ys) = commands xs @ commands ys"
  by (induction xs rule: commands.induct) auto

lemma commands_command_events [simp]: "commands (command_events inc c status) = [c]"
  by (simp add: command_events_def)

lemma commands_announcement [simp]: "commands (announcement p a) = []"
  by (cases a) (auto simp: announcement_def)

lemma step_event_command_events [simp]: "list_all step_event (command_events inc c status)"
  by (simp add: command_events_def progress_update_def)

lemma step_event_announcement [simp]: "list_all step_event (announcement p a)"
  by (cases a) (auto simp: announcement_def progress_update_def)

lemma run_steps_ok:
  assumes "\<forall>j<length plan. returned_status (sh (started d + j) (snd (plan ! j))) = 0"
  shows "\<exists>p' X. run_steps sh inc plan (p, d) =
            (True, p', d\<lparr>started := started d + length plan, effects := effects d @ X\<rparr>)
          \<and> commands X = map snd plan \<and> list_all step_event X"
  using assms
proof (induction plan arbitrary: p d)
  case Nil
  show ?case by (rule exI[of _ p], rule exI[of _ "[]"]) simp
next
  case (Cons s rest)
  obtain a c where s: "s = (a, c)" by (cases s) auto
  let ?p1 = "case a of None \<Rightarrow> p | Some x \<Rightarrow> p + inc"
  let ?E = "announcement ?p1 a @ command_events inc c 0"
  let ?d2 = "d\<lparr>started := Suc (started d), effects := effects d @ ?E\<rparr>"
  have st0: "returned_status (sh (started d) c) = 0"
    using Cons.prems[rule_format, of 0] by (simp add: s)
  have rest: "\<forall>j<length rest. returned_status (sh (started ?d2 + j) (snd (rest ! j))) = 0"
    using Cons.prems[rule_format, of "Suc j" for j] by simp
  from Cons.IH[OF rest, of ?p1] obtain p' X where
    X: "run_steps sh inc rest (?p1, ?d2) =
          (True, p', ?d2\<lparr>started := started ?d2 + length rest, effects := effects ?d2 @ X\<rparr>)"
       "commands X = map snd rest" "list_all step_event X"
    by blast
  have "run_steps sh inc (s # rest) (p, d) =
          (True, p', d\<lparr>started := started d + length (s # rest), effects := effects d @ (?E @ X)\<rparr>)"
    using X(1) st0 by (simp add: s run_steps_Cons Let_def)
  moreover have "commands (?E @ X) = map snd (s # rest)"
    using X(2) by (simp add: s)
  moreover have "list_all step_event (?E @ X)"
    using X(3) by simp
  ultimately show ?case by blast
qed


lemma label_messages_append [simp]: "label_messages (xs @ ys) = label_messages xs @ label_messages ys"
  by (induction xs rule: label_messages.induct) (auto split: option.splits)

lemma label_messages_command_events [simp]: "label_messages (command_events inc c status) = []"
  by (simp add: command_events_def progress_update_def)

lemma error_lines_append [simp]: "error_lines (xs @ ys) = error_lines xs @ error_lines ys"
  by (induction xs rule: error_lines.induct) (auto split: option.splits)

lemma error_lines_command_events [simp]: "error_lines (command_events inc c 0) = []"
  by (simp add: command_events_def progress_update_def)

lemma error_lines_announcement [simp]: "error_lines (announcement p a) = []"
  by (cases a) (auto simp: announcement_def progress_update_def)

lemma label_messages_announcement:
  "label_messages (announcement p a) = map fst (List.map_filter fst [(a, c)])"
  by (cases a) (auto simp: announcement_def progress_update_def)

lemma map_filter_Cons_fst:
  "List.map_filter fst ((a, c) # xs) = List.map_filter fst [(a, c)] @ List.map_filter fst xs"
  by (cases a) simp_all

lemma run_steps_fail:
  assumes "k < length plan"
    and "\<forall>j<k. returned_status (sh (started d + j) (snd (plan ! j))) = 0"
    and "returned_status (sh (started d + k) (snd (plan ! k))) \<noteq> 0"
  shows "\<exists>p' X. run_steps sh inc plan (p, d) =
            (False, p', d\<lparr>started := started d + Suc k,
                          effects := effects d @ X @ command_events inc (snd (plan ! k))
                                       (returned_status (sh (started d + k) (snd (plan ! k))))\<rparr>)
          \<and> commands X = map snd (take k plan) \<and> list_all step_event X
          \<and> label_messages X = map fst (List.map_filter fst (take (Suc k) plan))
          \<and> error_lines X = []"
  using assms
proof (induction plan arbitrary: k p d)
  case Nil
  then show ?case by simp
next
  case (Cons s rest)
  obtain a c where s: "s = (a, c)" by (cases s) auto
  let ?p1 = "case a of None \<Rightarrow> p | Some x \<Rightarrow> p + inc"
  show ?case
  proof (cases k)
    case 0
    let ?X = "announcement ?p1 a"
    have "run_steps sh inc (s # rest) (p, d) =
            (False, ?p1, d\<lparr>started := started d + Suc k,
                          effects := effects d @ ?X @ command_events inc (snd ((s # rest) ! k))
                                       (returned_status (sh (started d + k) (snd ((s # rest) ! k))))\<rparr>)"
      using Cons.prems(3) by (simp add: 0 s run_steps_Cons Let_def)
    moreover have "commands ?X = map snd (take k (s # rest))" by (simp add: 0)
    moreover have "list_all step_event ?X" by simp
    moreover have "label_messages ?X = map fst (List.map_filter fst (take (Suc k) (s # rest)))"
      using label_messages_announcement[of ?p1 a c] by (simp add: 0 s)
    moreover have "error_lines ?X = []" by simp
    ultimately show ?thesis by blast
  next
    case (Suc k')
    let ?E = "announcement ?p1 a @ command_events inc c 0"
    let ?d2 = "d\<lparr>started := Suc (started d), effects := effects d @ ?E\<rparr>"
    have st0: "returned_status (sh (started d) c) = 0"
      using Cons.prems(2)[rule_format, of 0] by (simp add: s Suc)
    have k': "k' < length rest" using Cons.prems(1) Suc by simp
    have before: "\<forall>j<k'. returned_status (sh (started ?d2 + j) (snd (rest ! j))) = 0"
      using Cons.prems(2)[rule_format, of "Suc j" for j] by (simp add: Suc)
    have fails: "returned_status (sh (started ?d2 + k') (snd (rest ! k'))) \<noteq> 0"
      using Cons.prems(3) by (simp add: Suc)
    from Cons.IH[OF k' before fails, of ?p1] obtain p' X where
      X: "run_steps sh inc rest (?p1, ?d2) =
            (False, p', ?d2\<lparr>started := started ?d2 + Suc k',
                            effects := effects ?d2 @ X @ command_events inc (snd (rest ! k'))
                                         (returned_status (sh (started ?d2 + k') (snd (rest ! k'))))\<rparr>)"
        "commands X = map snd (take k' rest)" "list_all step_event X"
        "label_messages X = map fst (List.map_filter fst (take (Suc k') rest))"
        "error_lines X = []"
      by blast
    have "run_steps sh inc (s # rest) (p, d) =
            (False, p', d\<lparr>started := started d + Suc k,
                          effects := effects d @ (?E @ X) @ command_events inc (snd ((s # rest) ! k))
                                       (returned_status (sh (started d + k) (snd ((s # rest) ! k))))\<rparr>)"
      using X(1) st0 by (simp add: s Suc run_steps_Cons Let_def)
    moreover have "commands (?E @ X) = map snd (take k (s # rest))"
      using X(2) by (simp add: s Suc)
    moreover have "list_all step_event (?E @ X)"
      using X(3) by simp
    moreover have "label_messages (?E @ X) = map fst (List.map_filter fst (take (Suc k) (s # rest)))"
      using X(4) label_messages_announcement[of ?p1 a c]
        map_filter_Cons_fst[of a c "take (Suc k') rest"]
      by (simp add: s Suc)
    moreover have "error_lines (?E @ X) = []"
      using X(5) by simp
    ultimately show ?thesis by blast
  qed
qed

lemma run_steps_fail_cong:
  assumes "k < length plan"
    and "\<forall>j<k. returned_status (sh (started d + j) (snd (plan ! j))) = 0"
    and "returned_status (sh (started d + k) (snd (plan ! k))) \<noteq> 0"
    and "\<forall>j\<le>k. sh' (started d + j) = sh (started d + j)"
  shows "run_steps sh' inc plan (p, d) = run_steps sh inc plan (p, d)"
  using assms
proof (induction plan arbitrary: k p d)
  case Nil
  then show ?case by simp
next
  case (Cons s rest)
  obtain a c where s: "s = (a, c)" by (cases s) auto
  have same0: "sh' (started d) = sh (started d)"
    using Cons.prems(4)[rule_format, of 0] by simp
  show ?case
  proof (cases k)
    case 0
    then show ?thesis
      using Cons.prems(3) same0 by (simp add: s run_steps_Cons Let_def)
  next
    case (Suc k')
    let ?p1 = "case a of None \<Rightarrow> p | Some x \<Rightarrow> p + inc"
    let ?d2 = "d\<lparr>started := Suc (started d),
                   effects := effects d @ announcement ?p1 a @ command_events inc c 0\<rparr>"
    have st0: "returned_status (sh (started d) c) = 0"
      using Cons.prems(2)[rule_format, of 0] by (simp add: s Suc)
    have k': "k' < length rest" using Cons.prems(1) Suc by simp
    have before: "\<forall>j<k'. returned_status (sh (started ?d2 + j) (snd (rest ! j))) = 0"
      using Cons.prems(2)[rule_format, of "Suc j" for j] by (simp add: Suc)
    have fails: "returned_status (sh (started ?d2 + k') (snd (rest ! k'))) \<noteq> 0"
      using Cons.prems(3) by (simp add: Suc)
    have same: "\<forall>j\<le>k'. sh' (started ?d2 + j) = sh (started ?d2 + j)"
      using Cons.prems(4)[rule_format, of "Suc j" for j] by (simp add: Suc)
    show ?thesis
      using Cons.IH[OF k' before fails same, of ?p1] st0 same0
      by (simp add: s run_steps_Cons Let_def)
  qed
qed


lemma driver_steps_plan:
  "driver_steps sh inc (p, d) = run_steps sh inc (driver_plan (distro_codename (system_info d))) (p, d)"
  by (simp add: driver_steps_def driver_plan_def run_steps_Cons rcwp_eq announce_eq Let_def
      announcement_def)

lemma cuda_steps_plan:
  "cuda_steps sh inc (p, d) = run_steps sh inc cuda_plan (p, d)"
  by (simp add: cuda_steps_def cuda_plan_def run_steps_Cons rcwp_eq announce_eq Let_def
      announcement_def)


lemma run_steps_append:
  "run_steps sh inc (xs @ ys) st =
     (case run_steps sh inc xs st of (False, st') \<Rightarrow> (False, st') | (True, st') \<Rightarrow> run_steps sh inc ys st')"
proof (induction xs arbitrary: st)
  case Nil
  then show ?case by simp
next
  case (Cons s xs)
  obtain a c where s: "s = (a, c)" by (cases s) auto
  obtain p d where st: "st = (p, d)" by (cases st) auto
  show ?case
    using Cons.IH by (simp add: s st run_steps_Cons Let_def)
qed

lemma install_sequence_plan:
  "install_sequence sh install_driver install_cuda inc data =
     (case run_steps sh inc (install_plan install_driver install_cuda (distro_codename (system_info data)))
             (0, data) of
        (False, st) \<Rightarrow> (False, st)
      | (True, p, d) \<Rightarrow>
          (True, 100, d\<lparr>started := Suc (started d),
                         effects := effects d @ [final_update, Popen remove_keyring_command]\<rparr>))"
  by (cases install_driver; cases install_cuda)
     (simp_all add: install_sequence_def install_plan_def run_steps_Cons run_steps_append
        driver_steps_plan cuda_steps_plan rcwp_eq announce_eq Let_def announcement_def
        final_update_def effect_defs split: prod.splits bool.splits)


lemma run_command_eq:
  "run_command sh c d =
     ((returned_status (sh (started d) c), map_option snd (sh (started d) c)),
      d\<lparr>started := Suc (started d), effects := effects d @ [Popen c]\<rparr>)"
  by (simp add: run_command_def returned_status_def do_effect_def Let_def split: option.splits prod.splits)

lemma is_wsl_system_eq:
  "is_wsl_system sh d =
     (detected (returned_status (sh (started d) wsl_probe_command),
                map_option snd (sh (started d) wsl_probe_command)),
      d\<lparr>started := Suc (started d), effects := effects d @ [Popen wsl_probe_command]\<rparr>)"
  by (simp add: is_wsl_system_def run_command_eq)


lemma fold_log_message_call:
  "fold (\<lambda>(m, t). log_message_call m t) ls d =
     d\<lparr>effects := effects d @ map (\<lambda>(m, t). LogMessage m t) ls\<rparr>"
  by (induction ls arbitrary: d) (auto simp: effect_defs)

lemma csc_wsl:
  assumes "fst (is_wsl_system sh d)"
  shows "check_system_compatibility sh uid d =
           (Inr False, d\<lparr>started := Suc (started d),
                         effects := effects d @ Popen wsl_probe_command # wsl_effects\<rparr>)"
  using assms
  by (simp add: check_system_compatibility_def is_wsl_system_eq fold_log_message_call wsl_effects_def)


lemma logs_only_refl [simp]: "logs_only d d"
  unfolding logs_only_def by (rule exI[of _ "[]"]) simp

lemma logs_only_log [simp]: "logs_only d (log_message_call m STATUS_WARNING d)"
  unfolding logs_only_def by (rule exI[of _ "[LogMessage m STATUS_WARNING]"]) (simp add: effect_defs)

lemma logs_only_trans: "logs_only d d' \<Longrightarrow> logs_only d' d'' \<Longrightarrow> logs_only d d''"
proof -
  assume "logs_only d d'" "logs_only d' d''"
  then obtain X Y where X: "d' = d\<lparr>effects := effects d @ X\<rparr>" "list_all gate_event X" "commands X = []"
    and Y: "d'' = d'\<lparr>effects := effects d' @ Y\<rparr>" "list_all gate_event Y" "commands Y = []"
    unfolding logs_only_def by blast
  have "d'' = d\<lparr>effects := effects d @ (X @ Y)\<rparr>" using X(1) Y(1) by simp
  moreover have "list_all gate_event (X @ Y)" "commands (X @ Y) = []" using X Y by simp_all
  ultimately show ?thesis unfolding logs_only_def by blast
qed

lemma logs_only_started: "logs_only d d' \<Longrightarrow> started d' = started d"
  unfolding logs_only_def by auto

lemma check_root_logs: "logs_only d (check_root uid d)"
  by (simp add: check_root_def)

lemma check_disk_space_logs:
  "logs_only (snd (run_command sh df_command d)) (snd (check_disk_space sh d))"
  by (simp add: check_disk_space_def run_command_eq Let_def split: option.splits prod.splits)

lemma check_disk_space_output:
  "fst (check_disk_space sh d) = map_option snd (sh (started d) df_command)"
  by (simp add: check_disk_space_def run_command_eq Let_def)

lemma check_secure_boot_returns:
  assumes "outp = None \<or> sh (started d) mokutil_command \<noteq> None"
  shows "fst (check_secure_boot sh outp d) = Inr ()"
    and "logs_only (snd (run_command sh mokutil_command d)) (snd (check_secure_boot sh outp d))"
  using assms
  by (auto simp: check_secure_boot_def run_command_eq Let_def split: option.splits prod.splits)

lemma check_secure_boot_fault:
  assumes "outp \<noteq> None" and "sh (started d) mokutil_command = None"
  shows "check_secure_boot sh outp d =
           (Inl DoubleFree, d\<lparr>started := Suc (started d), effects := effects d @ [Popen mokutil_command]\<rparr>)"
  using assms
  by (auto simp: check_secure_boot_def run_command_eq Let_def split: option.splits prod.splits)

lemma check_distro_logs: "logs_only d (check_distro d)"
  by (simp add: check_distro_def split: option.splits)

text \<open>
  The compatibility check on a native host, up to the Secure Boot block: the commands so
  far are the WSL probe and \<^verbatim>\<open>df\<close>, and \<^verbatim>\<open>output\<close> holds a pointer exactly when the
  \<^verbatim>\<open>df\<close> pipe opened.
\<close>

lemma csc_to_secure_boot:
  assumes "\<not> fst (is_wsl_system sh d)"
  shows "\<exists>X. list_all gate_event X \<and> commands X = [wsl_probe_command, df_command]
         \<and> check_system_compatibility sh uid d =
             (case check_secure_boot sh (map_option snd (sh (Suc (started d)) df_command))
                     (d\<lparr>started := Suc (Suc (started d)), effects := effects d @ X\<rparr>) of
                (Inl f, d3) \<Rightarrow> (Inl f, d3)
              | (Inr u, d3) \<Rightarrow> (Inr True, check_distro d3))"
proof -
  let ?d1 = "d\<lparr>started := Suc (started d), effects := effects d @ [Popen wsl_probe_command]\<rparr>"
  obtain X1 where X1: "check_root uid ?d1 = ?d1\<lparr>effects := effects ?d1 @ X1\<rparr>"
      "list_all gate_event X1" "commands X1 = []"
    using check_root_logs[of ?d1 uid] unfolding logs_only_def by blast
  let ?d2 = "check_root uid ?d1"
  obtain X2 where X2: "snd (check_disk_space sh ?d2) =
        (snd (run_command sh df_command ?d2))\<lparr>effects := effects (snd (run_command sh df_command ?d2)) @ X2\<rparr>"
      "list_all gate_event X2" "commands X2 = []"
    using check_disk_space_logs[of sh ?d2] unfolding logs_only_def by blast
  let ?X = "Popen wsl_probe_command # X1 @ Popen df_command # X2"
  have d2: "?d2 = d\<lparr>started := Suc (started d), effects := effects d @ Popen wsl_probe_command # X1\<rparr>"
    using X1(1) by simp
  have d3: "snd (check_disk_space sh ?d2) =
              d\<lparr>started := Suc (Suc (started d)), effects := effects d @ ?X\<rparr>"
    unfolding X2(1) unfolding d2 by simp
  have out: "fst (check_disk_space sh ?d2) = map_option snd (sh (Suc (started d)) df_command)"
    unfolding check_disk_space_output unfolding d2 by simp
  have cds: "check_disk_space sh ?d2 =
               (map_option snd (sh (Suc (started d)) df_command),
                d\<lparr>started := Suc (Suc (started d)), effects := effects d @ ?X\<rparr>)"
    using out d3 by (simp add: prod_eq_iff)
  have "check_system_compatibility sh uid d =
             (case check_secure_boot sh (map_option snd (sh (Suc (started d)) df_command))
                     (d\<lparr>started := Suc (Suc (started d)), effects := effects d @ ?X\<rparr>) of
                (Inl f, d3) \<Rightarrow> (Inl f, d3)
              | (Inr u, d3) \<Rightarrow> (Inr True, check_distro d3))"
    using assms
    by (simp add: check_system_compatibility_def is_wsl_system_eq cds)
  moreover have "list_all gate_event ?X" using X1 X2 by simp
  moreover have "commands ?X = [wsl_probe_command, df_command]"
    using X1 X2 by simp
  ultimately show ?thesis by blast
qed

lemma csc_native:
  assumes "\<not> fst (is_wsl_system sh d)"
    and "sh (started d + 1) df_command = None \<or> sh (started d + 2) mokutil_command \<noteq> None"
  shows "\<exists>X. check_system_compatibility sh uid d =
           (Inr True, d\<lparr>started := started d + 3, effects := effects d @ X\<rparr>)
         \<and> list_all gate_event X
         \<and> commands X = [wsl_probe_command, df_command, mokutil_command]"
proof -
  from csc_to_secure_boot[OF assms(1), of uid] obtain X0 where
    X0: "list_all gate_event X0" "commands X0 = [wsl_probe_command, df_command]"
      "check_system_compatibility sh uid d =
             (case check_secure_boot sh (map_option snd (sh (Suc (started d)) df_command))
                     (d\<lparr>started := Suc (Suc (started d)), effects := effects d @ X0\<rparr>) of
                (Inl f, d3) \<Rightarrow> (Inl f, d3)
              | (Inr u, d3) \<Rightarrow> (Inr True, check_distro d3))"
    by blast
  let ?out = "map_option snd (sh (Suc (started d)) df_command)"
  let ?d3 = "d\<lparr>started := Suc (Suc (started d)), effects := effects d @ X0\<rparr>"
  have ok: "?out = None \<or> sh (started ?d3) mokutil_command \<noteq> None"
    using assms(2) by auto
  obtain X3 where X3: "snd (check_secure_boot sh ?out ?d3) =
        (snd (run_command sh mokutil_command ?d3))\<lparr>effects := effects (snd (run_command sh mokutil_command ?d3)) @ X3\<rparr>"
      "list_all gate_event X3" "commands X3 = []"
    using check_secure_boot_returns(2)[where outp = ?out and sh = sh and d = ?d3, OF ok]
    unfolding logs_only_def by blast
  let ?d4 = "snd (check_secure_boot sh ?out ?d3)"
  obtain X4 where X4: "check_distro ?d4 = ?d4\<lparr>effects := effects ?d4 @ X4\<rparr>"
      "list_all gate_event X4" "commands X4 = []"
    using check_distro_logs[of ?d4] unfolding logs_only_def by blast
  let ?X = "X0 @ Popen mokutil_command # X3 @ X4"
  have d4: "?d4 = d\<lparr>started := Suc (Suc (Suc (started d))),
                     effects := effects d @ X0 @ Popen mokutil_command # X3\<rparr>"
    unfolding X3(1) by simp
  have d5: "check_distro ?d4 = d\<lparr>started := started d + 3, effects := effects d @ ?X\<rparr>"
    unfolding X4(1) unfolding d4 by simp
  have "check_system_compatibility sh uid d = (Inr True, check_distro ?d4)"
    unfolding X0(3)
    using check_secure_boot_returns(1)[where outp = ?out and sh = sh and d = ?d3, OF ok]
    by (simp add: split_beta)
  moreover have "list_all gate_event ?X" using X0 X3 X4 by simp
  moreover have "commands ?X = [wsl_probe_command, df_command, mokutil_command]"
    using X0 X3 X4 by simp
  ultimately show ?thesis using d5 by metis
qed

lemma csc_fault:
  assumes "\<not> fst (is_wsl_system sh d)"
    and "sh (started d + 1) df_command \<noteq> None" and "sh (started d + 2) mokutil_command = None"
  shows "\<exists>X. check_system_compatibility sh uid d =
           (Inl DoubleFree, d\<lparr>started := started d + 3, effects := effects d @ X\<rparr>)
         \<and> list_all gate_event X
         \<and> commands X = [wsl_probe_command, df_command, mokutil_command]"
proof -
  from csc_to_secure_boot[OF assms(1), of uid] obtain X0 where
    X0: "list_all gate_event X0" "commands X0 = [wsl_probe_command, df_command]"
      "check_system_compatibility sh uid d =
             (case check_secure_boot sh (map_option snd (sh (Suc (started d)) df_command))
                     (d\<lparr>started := Suc (Suc (started d)), effects := effects d @ X0\<rparr>) of
                (Inl f, d3) \<Rightarrow> (Inl f, d3)
              | (Inr u, d3) \<Rightarrow> (Inr True, check_distro d3))"
    by blast
  let ?out = "map_option snd (sh (Suc (started d)) df_command)"
  let ?d3 = "d\<lparr>started := Suc (Suc (started d)), effects := effects d @ X0\<rparr>"
  have "?out \<noteq> None" "sh (started ?d3) mokutil_command = None"
    using assms(2,3) by auto
  from check_secure_boot_fault[where outp = ?out and sh = sh and d = ?d3, OF this]
  have "check_system_compatibility sh uid d =
          (Inl DoubleFree, d\<lparr>started := started d + 3, effects := effects d @ (X0 @ [Popen mokutil_command])\<rparr>)"
    unfolding X0(3) by simp
  moreover have "list_all gate_event (X0 @ [Popen mokutil_command])"
    "commands (X0 @ [Popen mokutil_command]) = [wsl_probe_command, df_command, mokutil_command]"
    using X0 by simp_all
  ultimately show ?thesis by blast
qed

lemma cic_eq:
  "check_internet_connectivity sh d =
     (returned_status (sh (started d) ping_command) = 0,
      d\<lparr>started := Suc (started d),
        effects := effects d @ Popen ping_command #
          (if returned_status (sh (started d) ping_command) = 0 then []
           else [LogMessage ''No internet connection detected. Installation requires internet access.''
                   STATUS_ERROR])\<rparr>)"
  by (simp add: check_internet_connectivity_def run_command_eq ping_command_def effect_defs)

lemma restore_buttons_eq: "restore_buttons d = d\<lparr>effects := effects d @ restore_events\<rparr>"
  by (simp add: restore_buttons_def restore_events_def effect_defs)

lemma cleanup_install_eq:
  "cleanup_install sh success d =
     d\<lparr>installation_running := False,
       started := (if success then started d else Suc (started d)),
       effects := effects d @ (if success then [] else [Popen autoremove_command])
                  @ SetInstallationRunning False # restore_events
                  @ [IdleAdd (if success then show_completion_dialog_wrapper
                              else show_error_dialog_wrapper)]\<rparr>"
  by (simp add: cleanup_install_def restore_buttons_eq effect_defs Let_def)

lemma started_check_root [simp]: "started (check_root uid d) = started d"
  using logs_only_started[OF check_root_logs] .

lemma started_check_disk_space [simp]: "started (snd (check_disk_space sh d)) = Suc (started d)"
  using logs_only_started[OF check_disk_space_logs, of sh d] by simp

lemma check_disk_space_cong:
  "sh' (started d) = sh (started d) \<Longrightarrow> check_disk_space sh' d = check_disk_space sh d"
  by (simp add: check_disk_space_def run_command_eq)

lemma check_secure_boot_cong:
  "sh' (started d) = sh (started d) \<Longrightarrow> check_secure_boot sh' outp d = check_secure_boot sh outp d"
  by (simp add: check_secure_boot_def run_command_eq)

lemma csc_cong:
  assumes "\<And>n. n < started d + 3 \<Longrightarrow> sh' n = sh n"
  shows "check_system_compatibility sh' uid d = check_system_compatibility sh uid d"
proof -
  have 0: "sh' (started d) = sh (started d)" using assms[of "started d"] by simp
  have 1: "sh' (Suc (started d)) = sh (Suc (started d))" using assms[of "Suc (started d)"] by simp
  have 2: "sh' (Suc (Suc (started d))) = sh (Suc (Suc (started d)))"
    using assms[of "Suc (Suc (started d))"] by simp
  have w: "is_wsl_system sh' d = is_wsl_system sh d"
    by (simp add: is_wsl_system_eq 0)
  let ?d2 = "check_root uid (snd (is_wsl_system sh d))"
  have a: "check_disk_space sh' ?d2 = check_disk_space sh ?d2"
    by (rule check_disk_space_cong) (simp add: is_wsl_system_eq 1)
  have b: "check_secure_boot sh' outp (snd (check_disk_space sh ?d2))
             = check_secure_boot sh outp (snd (check_disk_space sh ?d2))" for outp
    by (rule check_secure_boot_cong) (simp add: is_wsl_system_eq 2)
  show ?thesis
    unfolding check_system_compatibility_def w using a b
    by (simp add: split_beta cong: sum.case_cong)
qed

lemma cic_cong:
  "sh' (started d) = sh (started d) \<Longrightarrow>
   check_internet_connectivity sh' d = check_internet_connectivity sh d"
  by (simp add: check_internet_connectivity_def run_command_eq)

lemma step_event_worker: "list_all step_event X \<Longrightarrow> list_all worker_event X"
proof (induction X)
  case Nil
  then show ?case by simp
next
  case (Cons e X)
  then show ?case by (cases e) auto
qed

lemma gate_event_worker: "list_all gate_event X \<Longrightarrow> list_all worker_event X"
proof (induction X)
  case Nil
  then show ?case by simp
next
  case (Cons e X)
  then show ?case by (cases e) auto
qed

lemma gate_event_quiet:
  "list_all gate_event X \<Longrightarrow> error_lines X = [] \<and> label_messages X = []"
proof (induction X)
  case Nil
  then show ?case by simp
next
  case (Cons e X)
  then show ?case by (cases e) auto
qed

lemma worker_not_terminal: "list_all worker_event X \<Longrightarrow> list_all (\<lambda>e. \<not> terminal_event e) X"
proof (induction X)
  case Nil
  then show ?case by simp
next
  case (Cons e X)
  have "\<not> terminal_event e" if "worker_event e"
    using that by (cases e rule: terminal_event.cases) auto
  with Cons show ?case by simp
qed

lemma installation_thread_wsl:
  assumes "fst (is_wsl_system sh d)"
  shows "installation_thread sh uid d =
           (Inr (), d\<lparr>installation_running := False, started := Suc (started d),
                      effects := effects d @ Popen wsl_probe_command # wsl_effects
                                 @ SetInstallationRunning False # restore_events\<rparr>)"
  using assms by (simp add: installation_thread_def csc_wsl restore_buttons_eq effect_defs)

text \<open>
  The run in which the \<^verbatim>\<open>df\<close> pipe opens and the \<^verbatim>\<open>mokutil\<close> pipe does not: the process
  ends in the compatibility check, after three read-only commands, with the run flag as
  it was and no callback queued.
\<close>

lemma installation_thread_fault:
  assumes "\<not> fst (is_wsl_system sh d)"
    and "sh (started d + 1) df_command \<noteq> None" and "sh (started d + 2) mokutil_command = None"
  shows "\<exists>X. installation_thread sh uid d =
           (Inl DoubleFree, d\<lparr>started := started d + 3, effects := effects d @ X\<rparr>)
         \<and> list_all gate_event X
         \<and> commands X = [wsl_probe_command, df_command, mokutil_command]"
proof -
  from csc_fault[OF assms, of uid] obtain X where
    X: "check_system_compatibility sh uid d =
           (Inl DoubleFree, d\<lparr>started := started d + 3, effects := effects d @ X\<rparr>)"
       "list_all gate_event X" "commands X = [wsl_probe_command, df_command, mokutil_command]"
    by blast
  have "installation_thread sh uid d =
           (Inl DoubleFree, d\<lparr>started := started d + 3, effects := effects d @ X\<rparr>)"
    by (simp add: installation_thread_def X(1))
  with X(2,3) show ?thesis by blast
qed

lemma gates_passed:
  assumes native: "\<not> fst (is_wsl_system sh d)"
    and nofault: "sh (started d + 1) df_command = None \<or> sh (started d + 2) mokutil_command \<noteq> None"
  shows "\<exists>X. list_all gate_event X \<and> commands X = gate_commands
           \<and> fst (check_system_compatibility sh uid d) = Inr True
           \<and> check_internet_connectivity sh (snd (check_system_compatibility sh uid d)) =
               (returned_status (sh (started d + 3) ping_command) = 0,
                d\<lparr>started := started d + 4,
                  effects := effects d @ X @
                    (if returned_status (sh (started d + 3) ping_command) = 0 then []
                     else [LogMessage ''No internet connection detected. Installation requires internet access.''
                             STATUS_ERROR])\<rparr>)"
proof -
  from csc_native[OF native nofault, of uid] obtain X1 where
    X1: "check_system_compatibility sh uid d =
           (Inr True, d\<lparr>started := started d + 3, effects := effects d @ X1\<rparr>)"
       "list_all gate_event X1" "commands X1 = [wsl_probe_command, df_command, mokutil_command]"
    by blast
  let ?d1 = "d\<lparr>started := started d + 3, effects := effects d @ X1\<rparr>"
  let ?X = "X1 @ [Popen ping_command]"
  have "list_all gate_event ?X" using X1(2) by simp
  moreover have "commands ?X = gate_commands" using X1(3) by (simp add: gate_commands_def)
  moreover have "fst (check_system_compatibility sh uid d) = Inr True" by (simp add: X1(1))
  moreover have "check_internet_connectivity sh (snd (check_system_compatibility sh uid d)) =
               (returned_status (sh (started d + 3) ping_command) = 0,
                d\<lparr>started := started d + 4,
                  effects := effects d @ ?X @
                    (if returned_status (sh (started d + 3) ping_command) = 0 then []
                     else [LogMessage ''No internet connection detected. Installation requires internet access.''
                             STATUS_ERROR])\<rparr>)"
    unfolding X1(1) snd_conv cic_eq by simp
  ultimately show ?thesis by blast
qed

lemma installation_thread_offline:
  assumes native: "\<not> fst (is_wsl_system sh d)"
    and nofault: "sh (started d + 1) df_command = None \<or> sh (started d + 2) mokutil_command \<noteq> None"
    and offline: "returned_status (sh (started d + 3) ping_command) \<noteq> 0"
  shows "\<exists>X. list_all gate_event X \<and> commands X = gate_commands
           \<and> installation_thread sh uid d =
               (Inr (), d\<lparr>installation_running := False, started := started d + 4,
                 effects := effects d @ X
                   @ LogMessage ''No internet connection detected. Installation requires internet access.''
                       STATUS_ERROR
                   # SetInstallationRunning False # restore_events
                   @ [IdleAdd show_error_dialog_wrapper]\<rparr>)"
proof -
  from gates_passed[OF native nofault, of uid] obtain X where
    X: "list_all gate_event X" "commands X = gate_commands"
       "fst (check_system_compatibility sh uid d) = Inr True"
       "check_internet_connectivity sh (snd (check_system_compatibility sh uid d)) =
               (returned_status (sh (started d + 3) ping_command) = 0,
                d\<lparr>started := started d + 4,
                  effects := effects d @ X @
                    (if returned_status (sh (started d + 3) ping_command) = 0 then []
                     else [LogMessage ''No internet connection detected. Installation requires internet access.''
                             STATUS_ERROR])\<rparr>)"
    by blast
  have "installation_thread sh uid d =
               (Inr (), d\<lparr>installation_running := False, started := started d + 4,
                 effects := effects d @ X
                   @ LogMessage ''No internet connection detected. Installation requires internet access.''
                       STATUS_ERROR
                   # SetInstallationRunning False # restore_events
                   @ [IdleAdd show_error_dialog_wrapper]\<rparr>)"
    using X(3,4) offline
    by (simp add: installation_thread_def split_beta restore_buttons_eq effect_defs)
  with X(1,2) show ?thesis by blast
qed

lemma installation_thread_online:
  assumes native: "\<not> fst (is_wsl_system sh d)"
    and nofault: "sh (started d + 1) df_command = None \<or> sh (started d + 2) mokutil_command \<noteq> None"
    and online: "returned_status (sh (started d + 3) ping_command) = 0"
  shows "\<exists>X. list_all gate_event X \<and> commands X = gate_commands
           \<and> installation_thread sh uid d =
               (Inr (),
                let r = run_steps sh (progress_increment_of (install_driver_check d) (install_cuda_check d))
                          (install_plan (install_driver_check d) (install_cuda_check d)
                             (distro_codename (system_info d)))
                          (0, d\<lparr>started := started d + 4, effects := effects d @ X\<rparr>);
                    d3 = snd (snd r)
                in if fst r
                   then cleanup_install sh True
                          (d3\<lparr>started := Suc (started d3),
                              effects := effects d3 @ [final_update, Popen remove_keyring_command]\<rparr>)
                   else cleanup_install sh False d3)"
proof -
  from gates_passed[OF native nofault, of uid] obtain X where
    X: "list_all gate_event X" "commands X = gate_commands"
       "fst (check_system_compatibility sh uid d) = Inr True"
       "check_internet_connectivity sh (snd (check_system_compatibility sh uid d)) =
               (returned_status (sh (started d + 3) ping_command) = 0,
                d\<lparr>started := started d + 4,
                  effects := effects d @ X @
                    (if returned_status (sh (started d + 3) ping_command) = 0 then []
                     else [LogMessage ''No internet connection detected. Installation requires internet access.''
                             STATUS_ERROR])\<rparr>)"
    by blast
  have "installation_thread sh uid d =
               (Inr (),
                let r = run_steps sh (progress_increment_of (install_driver_check d) (install_cuda_check d))
                          (install_plan (install_driver_check d) (install_cuda_check d)
                             (distro_codename (system_info d)))
                          (0, d\<lparr>started := started d + 4, effects := effects d @ X\<rparr>);
                    d3 = snd (snd r)
                in if fst r
                   then cleanup_install sh True
                          (d3\<lparr>started := Suc (started d3),
                              effects := effects d3 @ [final_update, Popen remove_keyring_command]\<rparr>)
                   else cleanup_install sh False d3)"
    using X(3,4) online
    by (simp add: installation_thread_def split_beta install_sequence_plan Let_def
        split: prod.splits bool.splits)
  with X(1,2) show ?thesis by blast
qed


lemma installation_thread_fail:
  assumes native: "\<not> fst (is_wsl_system sh d)"
    and nofault: "sh (started d + 1) df_command = None \<or> sh (started d + 2) mokutil_command \<noteq> None"
    and online: "returned_status (sh (started d + 3) ping_command) = 0"
    and plan: "plan = install_plan (install_driver_check d) (install_cuda_check d)
                        (distro_codename (system_info d))"
    and inc: "inc = progress_increment_of (install_driver_check d) (install_cuda_check d)"
    and k: "k < length plan"
    and before: "\<forall>j<k. returned_status (sh (started d + 4 + j) (snd (plan ! j))) = 0"
    and fails: "returned_status (sh (started d + 4 + k) (snd (plan ! k))) \<noteq> 0"
  shows "\<exists>X Y. list_all gate_event X \<and> commands X = gate_commands
           \<and> list_all step_event Y \<and> commands Y = map snd (take k plan)
           \<and> label_messages Y = map fst (List.map_filter fst (take (Suc k) plan))
           \<and> error_lines Y = []
           \<and> installation_thread sh uid d =
               (Inr (), d\<lparr>installation_running := False, started := started d + 6 + k,
                 effects := effects d @ X @ Y
                   @ command_events inc (snd (plan ! k))
                       (returned_status (sh (started d + 4 + k) (snd (plan ! k))))
                   @ Popen autoremove_command # SetInstallationRunning False # restore_events
                   @ [IdleAdd show_error_dialog_wrapper]\<rparr>)"
proof -
  from installation_thread_online[OF native nofault online, of uid] obtain X where
    X: "list_all gate_event X" "commands X = gate_commands"
       "installation_thread sh uid d =
               (Inr (),
                let r = run_steps sh inc plan (0, d\<lparr>started := started d + 4, effects := effects d @ X\<rparr>);
                    d3 = snd (snd r)
                in if fst r
                   then cleanup_install sh True
                          (d3\<lparr>started := Suc (started d3),
                              effects := effects d3 @ [final_update, Popen remove_keyring_command]\<rparr>)
                   else cleanup_install sh False d3)"
    unfolding plan inc by blast
  let ?d2 = "d\<lparr>started := started d + 4, effects := effects d @ X\<rparr>"
  have b: "\<forall>j<k. returned_status (sh (started ?d2 + j) (snd (plan ! j))) = 0"
    using before by simp
  have f: "returned_status (sh (started ?d2 + k) (snd (plan ! k))) \<noteq> 0"
    using fails by simp
  from run_steps_fail[OF k b f, of inc 0] obtain p' Y where
    Y: "run_steps sh inc plan (0, ?d2) =
            (False, p', ?d2\<lparr>started := started ?d2 + Suc k,
                          effects := effects ?d2 @ Y @ command_events inc (snd (plan ! k))
                                       (returned_status (sh (started ?d2 + k) (snd (plan ! k))))\<rparr>)"
       "commands Y = map snd (take k plan)" "list_all step_event Y"
       "label_messages Y = map fst (List.map_filter fst (take (Suc k) plan))"
       "error_lines Y = []"
    by blast
  have "installation_thread sh uid d =
               (Inr (), d\<lparr>installation_running := False, started := started d + 6 + k,
                 effects := effects d @ X @ Y
                   @ command_events inc (snd (plan ! k))
                       (returned_status (sh (started d + 4 + k) (snd (plan ! k))))
                   @ Popen autoremove_command # SetInstallationRunning False # restore_events
                   @ [IdleAdd show_error_dialog_wrapper]\<rparr>)"
    unfolding X(3) Y(1) by (simp add: cleanup_install_eq)
  with X(1,2) Y(2,3,4,5) show ?thesis by blast
qed

lemma installation_thread_success:
  assumes native: "\<not> fst (is_wsl_system sh d)"
    and nofault: "sh (started d + 1) df_command = None \<or> sh (started d + 2) mokutil_command \<noteq> None"
    and online: "returned_status (sh (started d + 3) ping_command) = 0"
    and plan: "plan = install_plan (install_driver_check d) (install_cuda_check d)
                        (distro_codename (system_info d))"
    and all: "\<forall>j<length plan. returned_status (sh (started d + 4 + j) (snd (plan ! j))) = 0"
  shows "\<exists>X Y. list_all gate_event X \<and> commands X = gate_commands
           \<and> list_all step_event Y \<and> commands Y = map snd plan
           \<and> installation_thread sh uid d =
               (Inr (), d\<lparr>installation_running := False, started := started d + 5 + length plan,
                 effects := effects d @ X @ Y
                   @ [final_update, Popen remove_keyring_command]
                   @ SetInstallationRunning False # restore_events
                   @ [IdleAdd show_completion_dialog_wrapper]\<rparr>)"
proof -
  let ?inc = "progress_increment_of (install_driver_check d) (install_cuda_check d)"
  from installation_thread_online[OF native nofault online, of uid] obtain X where
    X: "list_all gate_event X" "commands X = gate_commands"
       "installation_thread sh uid d =
               (Inr (),
                let r = run_steps sh ?inc plan (0, d\<lparr>started := started d + 4, effects := effects d @ X\<rparr>);
                    d3 = snd (snd r)
                in if fst r
                   then cleanup_install sh True
                          (d3\<lparr>started := Suc (started d3),
                              effects := effects d3 @ [final_update, Popen remove_keyring_command]\<rparr>)
                   else cleanup_install sh False d3)"
    unfolding plan by blast
  let ?d2 = "d\<lparr>started := started d + 4, effects := effects d @ X\<rparr>"
  have a: "\<forall>j<length plan. returned_status (sh (started ?d2 + j) (snd (plan ! j))) = 0"
    using all by simp
  from run_steps_ok[OF a, of ?inc 0] obtain p' Y where
    Y: "run_steps sh ?inc plan (0, ?d2) =
            (True, p', ?d2\<lparr>started := started ?d2 + length plan, effects := effects ?d2 @ Y\<rparr>)"
       "commands Y = map snd plan" "list_all step_event Y"
    by blast
  have "installation_thread sh uid d =
               (Inr (), d\<lparr>installation_running := False, started := started d + 5 + length plan,
                 effects := effects d @ X @ Y
                   @ [final_update, Popen remove_keyring_command]
                   @ SetInstallationRunning False # restore_events
                   @ [IdleAdd show_completion_dialog_wrapper]\<rparr>)"
    unfolding X(3) Y(1) by (simp add: cleanup_install_eq)
  with X(1,2) Y(2,3) show ?thesis by blast
qed

lemma installation_thread_cong:
  assumes native: "\<not> fst (is_wsl_system sh d)"
    and nofault: "sh (started d + 1) df_command = None \<or> sh (started d + 2) mokutil_command \<noteq> None"
    and online: "returned_status (sh (started d + 3) ping_command) = 0"
    and plan: "plan = install_plan (install_driver_check d) (install_cuda_check d)
                        (distro_codename (system_info d))"
    and k: "k < length plan"
    and before: "\<forall>j<k. returned_status (sh (started d + 4 + j) (snd (plan ! j))) = 0"
    and fails: "returned_status (sh (started d + 4 + k) (snd (plan ! k))) \<noteq> 0"
    and same: "\<And>n. n < started d + 5 + k \<Longrightarrow> sh' n = sh n"
  shows "installation_thread sh' uid d = installation_thread sh uid d"
proof -
  let ?inc = "progress_increment_of (install_driver_check d) (install_cuda_check d)"
  have csc: "check_system_compatibility sh' uid d = check_system_compatibility sh uid d"
    by (rule csc_cong) (simp add: same)
  from gates_passed[OF native nofault, of uid] online obtain X where
    X: "fst (check_system_compatibility sh uid d) = Inr True"
       "check_internet_connectivity sh (snd (check_system_compatibility sh uid d)) =
               (True, d\<lparr>started := started d + 4, effects := effects d @ X\<rparr>)"
    by auto
  let ?d1 = "snd (check_system_compatibility sh uid d)"
  let ?d2 = "d\<lparr>started := started d + 4, effects := effects d @ X\<rparr>"
  have s1: "Suc (started ?d1) = started d + 4"
    using csc_native[OF native nofault, of uid] by auto
  have cic: "check_internet_connectivity sh' ?d1 = check_internet_connectivity sh ?d1"
    by (rule cic_cong, rule same) (use s1 in simp)
  have b: "\<forall>j<k. returned_status (sh (started ?d2 + j) (snd (plan ! j))) = 0"
    using before by simp
  have f: "returned_status (sh (started ?d2 + k) (snd (plan ! k))) \<noteq> 0"
    using fails by simp
  have e: "\<forall>j\<le>k. sh' (started ?d2 + j) = sh (started ?d2 + j)"
    by (simp add: same)
  have steps: "run_steps sh' ?inc plan (0, ?d2) = run_steps sh ?inc plan (0, ?d2)"
    by (rule run_steps_fail_cong[OF k b f e])
  from run_steps_fail[OF k b f, of ?inc 0] have failed: "\<not> fst (run_steps sh ?inc plan (0, ?d2))"
    by auto
  show ?thesis
    using X(1) failed steps
    by (simp add: installation_thread_def csc cic X(2) split_beta install_sequence_plan plan
        cleanup_install_eq split: prod.splits bool.splits)
qed


subsection \<open>Reachable states and the failure of a step\<close>

lemmas prober_defs = detection_thread_def detect_nvidia_gpu_def detect_nvidia_driver_def
  detect_cuda_def set_system_info_def detected_def g_strchomp_def g_strchug_def g_ascii_isspace_def
  show_str_def

lemmas shell_defs = native_shell_def no_lsb_shell_def driver_fails_shell_def wsl_shell_def
  wsl_probe_command_def lspci_command_def lsb_release_command_def nvidia_smi_command_def
  nvcc_command_def gpu_line_def newline_def

lemma probed_eq:
  "probed = init_app_data\<lparr>system_info :=
      \<lparr>gpu_detected = True,
       gpu_info = Some ''Detected: 01:00.0 VGA compatible controller: NVIDIA Corporation AD104'',
       driver_installed = False, driver_info = Some ''Not installed'',
       cuda_installed = False, cuda_info = Some ''Not installed'',
       distro_codename = Some ''noble''\<rparr>,
     started := 4, effects := effects probed\<rparr>"
  by (simp add: probed_def thread_return_def main_start_def init_app_data_def prober_defs shell_defs
      run_command_eq returned_status_def effect_defs progress_update_def Let_def split_beta)


lemma probed_fields:
  "\<not> installation_running probed" "gpu_detected (system_info probed)"
  "install_driver_check probed" "\<not> install_cuda_check probed" "started probed = 4"
  "distro_codename (system_info probed) = Some ''noble''" "live_threads probed = []"
  by (subst probed_eq, simp add: init_app_data_def)+

lemma native_shell_wsl: "native_shell n wsl_probe_command = Some (256, [])"
  by (simp add: native_shell_def lspci_command_def lsb_release_command_def wsl_probe_command_def)

lemma native_shell_sudo: "native_shell n sudo_check_command = Some (0, [])"
  by (simp add: native_shell_def lspci_command_def lsb_release_command_def wsl_probe_command_def sudo_check_command_def)

lemma ready_eq:
  "ready = probed\<lparr>installation_running := True, progress_frame_visible := True,
                   install_button_sensitive := False, detect_button_sensitive := False,
                   install_button_label := ''Installing...'',
                   live_threads := [installation_thread_fn], started := 6,
                   effects := effects ready\<rparr>"
  unfolding ready_def
  by (simp add: on_install_clicked_def is_wsl_system_eq verify_sudo_access_def probed_fields
      native_shell_wsl native_shell_sudo returned_status_def detected_def effect_defs Let_def)

lemma ready_fields:
  "install_driver_check ready" "\<not> install_cuda_check ready"
  "distro_codename (system_info ready) = Some ''noble''" "started ready = 6"
  "installation_running ready" "live_threads ready = [installation_thread_fn]"
  "gpu_detected (system_info ready)"
  by (subst ready_eq, simp add: probed_fields)+


lemma label_messages_tail [simp]:
  "label_messages restore_events = []" "label_messages [IdleAdd show_error_dialog_wrapper] = []"
  "label_messages [IdleAdd show_completion_dialog_wrapper] = []"
  by (simp_all add: restore_events_def)

lemma progress_label_last:
  assumes "label_messages Y \<noteq> []" and "label_messages Z = []"
  shows "progress_label (A @ Y @ Z) = Some (last (label_messages Y))"
proof -
  have "(case xs of [] \<Rightarrow> None | m # ms \<Rightarrow> Some (last (m # ms))) = Some (last xs)"
    if "xs \<noteq> []" for xs :: "string list"
    using that by (cases xs) auto
  from this[of "label_messages A @ label_messages Y"] show ?thesis
    using assms by (simp add: progress_label_def)
qed

lemma install_plan_labels:
  "map fst (List.map_filter fst (take (Suc k) (install_plan a b c))) \<noteq> []"
  by (simp add: install_plan_def)

lemma last_of_nonempty:
  "xs \<noteq> [] \<Longrightarrow> (case xs of [] \<Rightarrow> None | m # ms \<Rightarrow> Some (last (m # ms))) = Some (last xs)"
  by (cases xs) auto

lemma last_announced_own:
  assumes "k < length plan" and "fst (plan ! k) = Some (m, l)"
  shows "last_announced plan k = Some m"
proof -
  let ?A = "map fst (List.map_filter fst (take k plan))"
  have "take (Suc k) plan = take k plan @ [(Some (m, l), snd (plan ! k))]"
    using assms by (simp add: take_Suc_conv_app_nth prod_eq_iff)
  then have "map fst (List.map_filter fst (take (Suc k) plan)) = ?A @ [m]"
    by (simp add: List.map_filter_def)
  then show ?thesis
    unfolding last_announced_def using last_of_nonempty[of "?A @ [m]"] by simp
qed

lemma install_plan_unannounced:
  assumes "k < length (install_plan a b c)" and "fst (install_plan a b c ! k) = None"
  shows "a \<and> k = 3"
  using assms
  by (cases a; cases b)
     (auto simp: install_plan_def driver_plan_def cuda_plan_def nth_Cons less_Suc_eq
        eval_nat_numeral split: nat.splits)

lemma install_plan_dpkg:
  "install_plan True b c ! 3 = (None, ''sudo dpkg -i cuda-keyring_1.1-1_all.deb'')"
  "last_announced (install_plan True b c) 3 = Some ''Adding NVIDIA repository...''"
  by (simp_all add: install_plan_def driver_plan_def last_announced_def eval_nat_numeral)

text \<open>
  C2, amended. Take an install run that passes both gates, in which the process does not
  end in the compatibility check, and let \<open>plan\<close> be its step list. If step \<open>k\<close> is the
  first whose command makes \<open>run_command\<close> return a value other than 0, then the thread
  returns; the run starts exactly the commands of steps \<open>0..k\<close> after the gate commands
  and then the one cleanup command \<^verbatim>\<open>sudo apt-get autoremove -y\<close>, so no later step and
  no keyring removal; its last effects are the queued log line \<^verbatim>\<open>Running:\<close> with the
  failing command, that command, the queued error line with the value returned, the
  cleanup command, the reset of the run flag and the callbacks that end the run with the
  failure dialog; that error line is the only line of the run with the severity of an
  error; the progress label shows the description announced last among the steps \<open>0..k\<close>,
  which is the description of step \<open>k\<close> whenever that step announces one; the one step
  that announces none is the \<^verbatim>\<open>dpkg\<close> step, and when it fails the label shows the
  description of the keyring download before it; and whatever the cleanup command
  answers, the run is the same.
\<close>

theorem first_failing_step_aborts_run:
  assumes native: "\<not> fst (is_wsl_system sh data)"
    and nofault: "sh (started data + 1) df_command = None \<or> sh (started data + 2) mokutil_command \<noteq> None"
    and online: "returned_status (sh (started data + 3) ping_command) = 0"
    and plan: "plan = install_plan (install_driver_check data) (install_cuda_check data)
                        (distro_codename (system_info data))"
    and k: "k < length plan"
    and before: "\<forall>j<k. returned_status (sh (started data + 4 + j) (snd (plan ! j))) = 0"
    and fails: "returned_status (sh (started data + 4 + k) (snd (plan ! k))) = status" "status \<noteq> 0"
  shows "fst (installation_thread sh uid data) = Inr ()
       \<and> run_commands sh uid data = gate_commands @ map snd (take (Suc k) plan) @ [autoremove_command]
       \<and> (\<exists>es. effects (snd (installation_thread sh uid data)) =
              es @ [IdleAdd (update_progress_ui
                       \<lparr>upd_progress = 0, upd_message = None,
                        upd_log_message = Some (''Running: '' @ snd (plan ! k)),
                        upd_log_type = STATUS_INFO\<rparr>),
                    Popen (snd (plan ! k)),
                    IdleAdd (update_progress_ui
                       \<lparr>upd_progress = 0, upd_message = None,
                        upd_log_message = Some (''Command failed with exit code '' @ show_int status),
                        upd_log_type = STATUS_ERROR\<rparr>),
                    Popen autoremove_command,
                    SetInstallationRunning False,
                    IdleAdd (set_widget_sensitive_wrapper install_button),
                    IdleAdd (set_widget_sensitive_wrapper detect_button),
                    IdleAdd set_button_label_wrapper,
                    IdleAdd show_error_dialog_wrapper])
       \<and> error_lines (drop (length (effects data)) (effects (snd (installation_thread sh uid data))))
           = [''Command failed with exit code '' @ show_int status]
       \<and> progress_label (effects (snd (installation_thread sh uid data))) = last_announced plan k
       \<and> (\<forall>m l. fst (plan ! k) = Some (m, l) \<longrightarrow>
             progress_label (effects (snd (installation_thread sh uid data))) = Some m)
       \<and> (fst (plan ! k) = None \<longrightarrow>
             snd (plan ! k) = ''sudo dpkg -i cuda-keyring_1.1-1_all.deb''
             \<and> progress_label (effects (snd (installation_thread sh uid data)))
                 = Some ''Adding NVIDIA repository...'')
       \<and> installation_thread (sh(started data + 5 + k := answer)) uid data
           = installation_thread sh uid data"
proof -
  let ?inc = "progress_increment_of (install_driver_check data) (install_cuda_check data)"
  let ?R = "snd (installation_thread sh uid data)"
  have f: "returned_status (sh (started data + 4 + k) (snd (plan ! k))) \<noteq> 0"
    using fails by simp
  from installation_thread_fail[OF native nofault online plan refl k before f, of uid] obtain X Y where
    XY: "list_all gate_event X" "commands X = gate_commands" "commands Y = map snd (take k plan)"
      "label_messages Y = map fst (List.map_filter fst (take (Suc k) plan))"
      "error_lines Y = []"
      "installation_thread sh uid data =
         (Inr (), data\<lparr>installation_running := False, started := started data + 6 + k,
              effects := effects data @ X @ Y
                @ command_events ?inc (snd (plan ! k)) status
                @ Popen autoremove_command # SetInstallationRunning False # restore_events
                @ [IdleAdd show_error_dialog_wrapper]\<rparr>)"
    unfolding fails(1) by blast
  have c0: "fst (installation_thread sh uid data) = Inr ()"
    unfolding XY(6) by simp
  have take: "map snd (take (Suc k) plan) = map snd (take k plan) @ [snd (plan ! k)]"
    using k by (simp add: take_Suc_conv_app_nth)
  have c1: "run_commands sh uid data = gate_commands @ map snd (take (Suc k) plan) @ [autoremove_command]"
    unfolding run_commands_def XY(6) using XY(2,3) take by (simp add: restore_events_def)
  have c2: "effects ?R =
              (effects data @ X @ Y)
               @ [IdleAdd (update_progress_ui
                       \<lparr>upd_progress = 0, upd_message = None,
                        upd_log_message = Some (''Running: '' @ snd (plan ! k)),
                        upd_log_type = STATUS_INFO\<rparr>),
                    Popen (snd (plan ! k)),
                    IdleAdd (update_progress_ui
                       \<lparr>upd_progress = 0, upd_message = None,
                        upd_log_message = Some (''Command failed with exit code '' @ show_int status),
                        upd_log_type = STATUS_ERROR\<rparr>),
                    Popen autoremove_command,
                    SetInstallationRunning False,
                    IdleAdd (set_widget_sensitive_wrapper install_button),
                    IdleAdd (set_widget_sensitive_wrapper detect_button),
                    IdleAdd set_button_label_wrapper,
                    IdleAdd show_error_dialog_wrapper]"
    unfolding XY(6) using fails(2)
    by (simp add: command_events_def restore_events_def progress_update_def)
  have c2': "error_lines (drop (length (effects data)) (effects ?R))
           = [''Command failed with exit code '' @ show_int status]"
    unfolding c2 using XY(5) gate_event_quiet[OF XY(1)] by simp
  have ne: "label_messages Y \<noteq> []"
    unfolding XY(4) plan by (rule install_plan_labels)
  have "progress_label (effects ?R) = Some (last (label_messages Y))"
    unfolding XY(6) snd_conv
    using progress_label_last[OF ne, of "command_events ?inc (snd (plan ! k)) status
                @ Popen autoremove_command # SetInstallationRunning False # restore_events
                @ [IdleAdd show_error_dialog_wrapper]" "effects data @ X"]
    by simp
  then have c3: "progress_label (effects ?R) = last_announced plan k"
    using ne unfolding XY(4) by (simp add: last_announced_def split: list.splits)
  have c3': "\<forall>m l. fst (plan ! k) = Some (m, l) \<longrightarrow> progress_label (effects ?R) = Some m"
    unfolding c3 using last_announced_own[OF k] by blast
  have c3'': "snd (plan ! k) = ''sudo dpkg -i cuda-keyring_1.1-1_all.deb''
             \<and> progress_label (effects ?R) = Some ''Adding NVIDIA repository...''"
    if none: "fst (plan ! k) = None"
  proof -
    from install_plan_unannounced[OF k[unfolded plan] none[unfolded plan]]
    have "install_driver_check data" "k = 3" by simp_all
    then show ?thesis
      unfolding c3 unfolding plan using install_plan_dpkg by simp
  qed
  have c4: "installation_thread (sh(started data + 5 + k := answer)) uid data
           = installation_thread sh uid data"
    by (rule installation_thread_cong[OF native nofault online plan k before f]) simp
  from c0 c1 c2 c2' c3 c3' c3'' c4 show ?thesis by blast
qed


lemma driver_fails_shell_status:
  "returned_status (driver_fails_shell n c) =
     (if c = ''sudo apt-get install -y cuda-drivers'' then 25600
      else if c = wsl_probe_command then 256 else 0)"
  by (simp add: driver_fails_shell_def native_shell_def lspci_command_def lsb_release_command_def returned_status_def wsl_probe_command_def)

lemma driver_fails_shell_native: "\<not> fst (is_wsl_system driver_fails_shell d)"
  by (simp add: is_wsl_system_eq detected_def driver_fails_shell_def native_shell_def lspci_command_def lsb_release_command_def
      wsl_probe_command_def)

lemma driver_fails_shell_opens: "driver_fails_shell n c \<noteq> None"
  by (simp add: driver_fails_shell_def native_shell_def)

lemma dpkg_fails_shell_status:
  "returned_status (dpkg_fails_shell n c) =
     (if c = ''sudo dpkg -i cuda-keyring_1.1-1_all.deb'' then 256
      else if c = wsl_probe_command then 256 else 0)"
  by (simp add: dpkg_fails_shell_def native_shell_def lspci_command_def lsb_release_command_def returned_status_def wsl_probe_command_def)

lemma dpkg_fails_shell_native: "\<not> fst (is_wsl_system dpkg_fails_shell d)"
  by (simp add: is_wsl_system_eq detected_def dpkg_fails_shell_def native_shell_def lspci_command_def lsb_release_command_def
      wsl_probe_command_def)

lemma dpkg_fails_shell_opens: "dpkg_fails_shell n c \<noteq> None"
  by (simp add: dpkg_fails_shell_def native_shell_def)

lemma driver_plan_noble:
  "install_plan True False (Some ''noble'') =
     [(Some (''Updating package lists...'', ''Updating package repositories...''), ''sudo apt-get update''),
      (Some (''Installing prerequisites...'', ''Installing required packages...''), prereq_cmd),
      (Some (''Adding NVIDIA repository...'', ''Adding NVIDIA repository...''), repo_cmd (Some ''noble'')),
      (None, ''sudo dpkg -i cuda-keyring_1.1-1_all.deb''),
      (Some (''Updating package lists...'', ''Updating package lists with NVIDIA repository...''),
       ''sudo apt-get update''),
      (Some (''Installing NVIDIA driver...'', ''Installing NVIDIA proprietary driver...''),
       ''sudo apt-get install -y cuda-drivers'')]"
  by (simp add: install_plan_def driver_plan_def)

lemma show_int_25600: "show_int 25600 = ''25600''"
  by (simp add: show_int_def show_nat.simps digit_char_def)

theorem first_failing_step_aborts_run_witness:
  "fst (installation_thread driver_fails_shell 1000 ready) = Inr ()
   \<and> run_commands driver_fails_shell 1000 ready =
     gate_commands @ [''sudo apt-get update'', prereq_cmd, repo_cmd (Some ''noble''),
                      ''sudo dpkg -i cuda-keyring_1.1-1_all.deb'', ''sudo apt-get update'',
                      ''sudo apt-get install -y cuda-drivers'', autoremove_command]
   \<and> (\<exists>es. effects (snd (installation_thread driver_fails_shell 1000 ready)) =
          es @ [IdleAdd (update_progress_ui
                   \<lparr>upd_progress = 0, upd_message = None,
                    upd_log_message = Some ''Running: sudo apt-get install -y cuda-drivers'',
                    upd_log_type = STATUS_INFO\<rparr>),
                Popen ''sudo apt-get install -y cuda-drivers'',
                IdleAdd (update_progress_ui
                   \<lparr>upd_progress = 0, upd_message = None,
                    upd_log_message = Some ''Command failed with exit code 25600'',
                    upd_log_type = STATUS_ERROR\<rparr>),
                Popen autoremove_command,
                SetInstallationRunning False,
                IdleAdd (set_widget_sensitive_wrapper install_button),
                IdleAdd (set_widget_sensitive_wrapper detect_button),
                IdleAdd set_button_label_wrapper,
                IdleAdd show_error_dialog_wrapper])
   \<and> error_lines (drop (length (effects ready))
        (effects (snd (installation_thread driver_fails_shell 1000 ready))))
       = [''Command failed with exit code 25600'']
   \<and> progress_label (effects (snd (installation_thread driver_fails_shell 1000 ready)))
       = Some ''Installing NVIDIA driver...''
   \<and> installation_thread (driver_fails_shell(16 := (\<lambda>c. None))) 1000 ready
       = installation_thread driver_fails_shell 1000 ready
   \<and> run_commands dpkg_fails_shell 1000 ready =
     gate_commands @ [''sudo apt-get update'', prereq_cmd, repo_cmd (Some ''noble''),
                      ''sudo dpkg -i cuda-keyring_1.1-1_all.deb'', autoremove_command]
   \<and> progress_label (effects (snd (installation_thread dpkg_fails_shell 1000 ready)))
       = Some ''Adding NVIDIA repository...''"
proof -
  let ?plan = "install_plan True False (Some ''noble'')"
  have h1: "\<not> fst (is_wsl_system driver_fails_shell ready)"
    by (rule driver_fails_shell_native)
  have h1': "driver_fails_shell (started ready + 1) df_command = None
             \<or> driver_fails_shell (started ready + 2) mokutil_command \<noteq> None"
    by (simp add: driver_fails_shell_opens)
  have h2: "returned_status (driver_fails_shell (started ready + 3) ping_command) = 0"
    by (simp add: driver_fails_shell_status ping_command_def wsl_probe_command_def)
  have h3: "?plan = install_plan (install_driver_check ready) (install_cuda_check ready)
                      (distro_codename (system_info ready))"
    by (simp add: ready_fields)
  have h4: "5 < length ?plan"
    by (simp add: driver_plan_noble)
  have h5: "\<forall>j<5. returned_status (driver_fails_shell (started ready + 4 + j) (snd (?plan ! j))) = 0"
    by (simp add: driver_plan_noble driver_fails_shell_status eval_nat_numeral less_Suc_eq
        prereq_cmd_def repo_cmd_def show_str_def wsl_probe_command_def)
  have h6: "returned_status (driver_fails_shell (started ready + 4 + 5) (snd (?plan ! 5))) = 25600"
    by (simp add: driver_plan_noble driver_fails_shell_status)
  have h7: "(25600 :: int) \<noteq> 0" by simp
  have d: "last_announced ?plan 5 = Some ''Installing NVIDIA driver...''"
    by (simp add: driver_plan_noble last_announced_def)
  from first_failing_step_aborts_run[where sh = driver_fails_shell and data = ready and plan = ?plan
      and k = 5 and status = 25600 and uid = 1000 and answer = "\<lambda>c. None", OF h1 h1' h2 h3 h4 h5 h6 h7]
  have one: "fst (installation_thread driver_fails_shell 1000 ready) = Inr ()
   \<and> run_commands driver_fails_shell 1000 ready =
     gate_commands @ [''sudo apt-get update'', prereq_cmd, repo_cmd (Some ''noble''),
                      ''sudo dpkg -i cuda-keyring_1.1-1_all.deb'', ''sudo apt-get update'',
                      ''sudo apt-get install -y cuda-drivers'', autoremove_command]
   \<and> (\<exists>es. effects (snd (installation_thread driver_fails_shell 1000 ready)) =
          es @ [IdleAdd (update_progress_ui
                   \<lparr>upd_progress = 0, upd_message = None,
                    upd_log_message = Some ''Running: sudo apt-get install -y cuda-drivers'',
                    upd_log_type = STATUS_INFO\<rparr>),
                Popen ''sudo apt-get install -y cuda-drivers'',
                IdleAdd (update_progress_ui
                   \<lparr>upd_progress = 0, upd_message = None,
                    upd_log_message = Some ''Command failed with exit code 25600'',
                    upd_log_type = STATUS_ERROR\<rparr>),
                Popen autoremove_command,
                SetInstallationRunning False,
                IdleAdd (set_widget_sensitive_wrapper install_button),
                IdleAdd (set_widget_sensitive_wrapper detect_button),
                IdleAdd set_button_label_wrapper,
                IdleAdd show_error_dialog_wrapper])
   \<and> error_lines (drop (length (effects ready))
        (effects (snd (installation_thread driver_fails_shell 1000 ready))))
       = [''Command failed with exit code 25600'']
   \<and> progress_label (effects (snd (installation_thread driver_fails_shell 1000 ready)))
       = Some ''Installing NVIDIA driver...''
   \<and> installation_thread (driver_fails_shell(16 := (\<lambda>c. None))) 1000 ready
       = installation_thread driver_fails_shell 1000 ready"
    by (simp add: driver_plan_noble d[unfolded driver_plan_noble] show_int_25600 ready_fields)
  have g1: "\<not> fst (is_wsl_system dpkg_fails_shell ready)"
    by (rule dpkg_fails_shell_native)
  have g1': "dpkg_fails_shell (started ready + 1) df_command = None
             \<or> dpkg_fails_shell (started ready + 2) mokutil_command \<noteq> None"
    by (simp add: dpkg_fails_shell_opens)
  have g2: "returned_status (dpkg_fails_shell (started ready + 3) ping_command) = 0"
    by (simp add: dpkg_fails_shell_status ping_command_def wsl_probe_command_def)
  have g4: "3 < length ?plan"
    by (simp add: driver_plan_noble)
  have g5: "\<forall>j<3. returned_status (dpkg_fails_shell (started ready + 4 + j) (snd (?plan ! j))) = 0"
    by (simp add: driver_plan_noble dpkg_fails_shell_status eval_nat_numeral less_Suc_eq
        prereq_cmd_def repo_cmd_def show_str_def wsl_probe_command_def)
  have g6: "returned_status (dpkg_fails_shell (started ready + 4 + 3) (snd (?plan ! 3))) = 256"
    by (simp add: driver_plan_noble dpkg_fails_shell_status)
  have g7: "(256 :: int) \<noteq> 0" by simp
  from first_failing_step_aborts_run[where sh = dpkg_fails_shell and data = ready and plan = ?plan
      and k = 3 and status = 256 and uid = 1000 and answer = "\<lambda>c. None", OF g1 g1' g2 h3 g4 g5 g6 g7]
  have "run_commands dpkg_fails_shell 1000 ready =
          gate_commands @ map snd (take (Suc 3) ?plan) @ [autoremove_command]"
    and "fst (?plan ! 3) = None \<longrightarrow>
          snd (?plan ! 3) = ''sudo dpkg -i cuda-keyring_1.1-1_all.deb''
          \<and> progress_label (effects (snd (installation_thread dpkg_fails_shell 1000 ready)))
              = Some ''Adding NVIDIA repository...''"
    by blast+
  then have two: "run_commands dpkg_fails_shell 1000 ready =
     gate_commands @ [''sudo apt-get update'', prereq_cmd, repo_cmd (Some ''noble''),
                      ''sudo dpkg -i cuda-keyring_1.1-1_all.deb'', autoremove_command]
   \<and> progress_label (effects (snd (installation_thread dpkg_fails_shell 1000 ready)))
       = Some ''Adding NVIDIA repository...''"
    by (simp add: driver_plan_noble)
  from one two show ?thesis by simp
qed

text \<open>
  C2 as stated fails in what the failed run carries. When the driver package fails with
  exit status 100, the one error line of the run reads 25600, the wait status. When
  \<^verbatim>\<open>dpkg\<close> fails on the keyring package, a step that announces no description, the
  progress label shows the description of the step before it, the keyring download.
\<close>

theorem failed_step_reported_by_wait_status:
  "WEXITSTATUS (returned_status (driver_fails_shell 15 ''sudo apt-get install -y cuda-drivers'')) = 100
   \<and> fst (installation_thread driver_fails_shell 1000 ready) = Inr ()
   \<and> error_lines (drop (length (effects ready))
        (effects (snd (installation_thread driver_fails_shell 1000 ready))))
       = [''Command failed with exit code 25600'']
   \<and> install_plan True False (Some ''noble'') ! 3 = (None, ''sudo dpkg -i cuda-keyring_1.1-1_all.deb'')
   \<and> install_plan True False (Some ''noble'') ! 2 =
       (Some (''Adding NVIDIA repository...'', ''Adding NVIDIA repository...''), repo_cmd (Some ''noble''))
   \<and> WEXITSTATUS (returned_status (dpkg_fails_shell 13 ''sudo dpkg -i cuda-keyring_1.1-1_all.deb'')) = 1
   \<and> fst (installation_thread dpkg_fails_shell 1000 ready) = Inr ()
   \<and> progress_label (effects (snd (installation_thread dpkg_fails_shell 1000 ready)))
       = Some ''Adding NVIDIA repository...''"
proof -
  let ?plan = "install_plan True False (Some ''noble'')"
  let ?inc = "progress_increment_of (install_driver_check ready) (install_cuda_check ready)"
  have h3: "?plan = install_plan (install_driver_check ready) (install_cuda_check ready)
                      (distro_codename (system_info ready))"
    by (simp add: ready_fields)
  have a1: "driver_fails_shell (started ready + 1) df_command = None
             \<or> driver_fails_shell (started ready + 2) mokutil_command \<noteq> None"
    by (simp add: driver_fails_shell_opens)
  have a2: "returned_status (driver_fails_shell (started ready + 3) ping_command) = 0"
    by (simp add: driver_fails_shell_status ping_command_def wsl_probe_command_def)
  have a4: "5 < length ?plan"
    by (simp add: driver_plan_noble)
  have a5: "\<forall>j<5. returned_status (driver_fails_shell (started ready + 4 + j) (snd (?plan ! j))) = 0"
    by (simp add: driver_plan_noble driver_fails_shell_status eval_nat_numeral less_Suc_eq
        prereq_cmd_def repo_cmd_def show_str_def wsl_probe_command_def)
  have a6: "returned_status (driver_fails_shell (started ready + 4 + 5) (snd (?plan ! 5))) = 25600"
    by (simp add: driver_plan_noble driver_fails_shell_status)
  then have a7: "returned_status (driver_fails_shell (started ready + 4 + 5) (snd (?plan ! 5))) \<noteq> 0"
    by simp
  from installation_thread_fail[OF driver_fails_shell_native a1 a2 h3 refl a4 a5 a7, of 1000]
  obtain X Y where
    XY: "list_all gate_event X" "error_lines Y = []"
      "installation_thread driver_fails_shell 1000 ready =
         (Inr (), ready\<lparr>installation_running := False, started := started ready + 6 + 5,
              effects := effects ready @ X @ Y
                @ command_events ?inc (snd (?plan ! 5)) 25600
                @ Popen autoremove_command # SetInstallationRunning False # restore_events
                @ [IdleAdd show_error_dialog_wrapper]\<rparr>)"
    unfolding a6 by blast
  have c1: "fst (installation_thread driver_fails_shell 1000 ready) = Inr ()"
    unfolding XY(3) by simp
  have c2: "error_lines (drop (length (effects ready))
        (effects (snd (installation_thread driver_fails_shell 1000 ready))))
       = [''Command failed with exit code 25600'']"
    unfolding XY(3) using XY(2) gate_event_quiet[OF XY(1)]
    by (simp add: command_events_def restore_events_def progress_update_def show_int_25600)
  have b1: "dpkg_fails_shell (started ready + 1) df_command = None
             \<or> dpkg_fails_shell (started ready + 2) mokutil_command \<noteq> None"
    by (simp add: dpkg_fails_shell_opens)
  have b2: "returned_status (dpkg_fails_shell (started ready + 3) ping_command) = 0"
    by (simp add: dpkg_fails_shell_status ping_command_def wsl_probe_command_def)
  have b4: "3 < length ?plan"
    by (simp add: driver_plan_noble)
  have b5: "\<forall>j<3. returned_status (dpkg_fails_shell (started ready + 4 + j) (snd (?plan ! j))) = 0"
    by (simp add: driver_plan_noble dpkg_fails_shell_status eval_nat_numeral less_Suc_eq
        prereq_cmd_def repo_cmd_def show_str_def wsl_probe_command_def)
  have b6: "returned_status (dpkg_fails_shell (started ready + 4 + 3) (snd (?plan ! 3))) = 256"
    by (simp add: driver_plan_noble dpkg_fails_shell_status)
  then have b7: "returned_status (dpkg_fails_shell (started ready + 4 + 3) (snd (?plan ! 3))) \<noteq> 0"
    by simp
  from installation_thread_fail[OF dpkg_fails_shell_native b1 b2 h3 refl b4 b5 b7, of 1000]
  obtain X' Y' where
    XY': "label_messages Y' = map fst (List.map_filter fst (take (Suc 3) ?plan))"
      "installation_thread dpkg_fails_shell 1000 ready =
         (Inr (), ready\<lparr>installation_running := False, started := started ready + 6 + 3,
              effects := effects ready @ X' @ Y'
                @ command_events ?inc (snd (?plan ! 3)) 256
                @ Popen autoremove_command # SetInstallationRunning False # restore_events
                @ [IdleAdd show_error_dialog_wrapper]\<rparr>)"
    unfolding b6 by blast
  have lm: "label_messages Y' = [''Updating package lists...'', ''Installing prerequisites...'',
                                  ''Adding NVIDIA repository...'']"
    unfolding XY'(1) by (simp add: driver_plan_noble List.map_filter_def)
  have c3: "fst (installation_thread dpkg_fails_shell 1000 ready) = Inr ()"
    unfolding XY'(2) by simp
  have ne: "label_messages Y' \<noteq> []" unfolding lm by simp
  have c4: "progress_label (effects (snd (installation_thread dpkg_fails_shell 1000 ready)))
       = Some ''Adding NVIDIA repository...''"
    unfolding XY'(2) snd_conv
    using progress_label_last[OF ne, of "command_events ?inc (snd (?plan ! 3)) 256
                @ Popen autoremove_command # SetInstallationRunning False # restore_events
                @ [IdleAdd show_error_dialog_wrapper]" "effects ready @ X'"]
    by (simp add: lm)
  have c5: "WEXITSTATUS (returned_status (driver_fails_shell 15 ''sudo apt-get install -y cuda-drivers'')) = 100"
    "WEXITSTATUS (returned_status (dpkg_fails_shell 13 ''sudo dpkg -i cuda-keyring_1.1-1_all.deb'')) = 1"
    by (simp_all add: driver_fails_shell_status dpkg_fails_shell_status WEXITSTATUS_def)
  have c6: "?plan ! 3 = (None, ''sudo dpkg -i cuda-keyring_1.1-1_all.deb'')"
    "?plan ! 2 = (Some (''Adding NVIDIA repository...'', ''Adding NVIDIA repository...''), repo_cmd (Some ''noble''))"
    by (simp_all add: driver_plan_noble)
  from c1 c2 c3 c4 c5 c6 show ?thesis by blast
qed


subsection \<open>Cleanup by outcome, and the WSL gate\<close>

lemmas command_defs = autoremove_command_def remove_keyring_command_def prereq_cmd_def repo_cmd_def
  env_cmd_def wsl_probe_command_def df_command_def mokutil_command_def ping_command_def

lemma cleanup_commands_fresh:
  "remove_keyring_command \<notin> set (map snd (install_plan a b c))"
  "autoremove_command \<notin> set (map snd (install_plan a b c))"
  "remove_keyring_command \<notin> set gate_commands"
  "autoremove_command \<notin> set gate_commands"
  "remove_keyring_command \<noteq> autoremove_command"
  by (cases a; cases b; simp add: install_plan_def driver_plan_def cuda_plan_def gate_commands_def
      command_defs)+

lemma commands_tail [simp]:
  "commands restore_events = []" "commands (final_update # es) = commands es"
  "commands (SetInstallationRunning b # es) = commands es"
  "commands (IdleAdd cb # es) = commands es"
  by (simp_all add: restore_events_def final_update_def)

text \<open>
  C10. Take an install run that passes both gates, in which the process does not end in
  the compatibility check, and let \<open>plan\<close> be its step list. The thread returns. If
  every step command returns 0, the run starts the keyring removal
  \<^verbatim>\<open>rm -f cuda-keyring_1.1-1_all.deb\<close> exactly once and never the package autoremove,
  and ends with the completion dialog. Otherwise it starts the package autoremove exactly
  once and never the keyring removal, and ends with the failure dialog.
\<close>

theorem cleanup_actions_exclusive:
  assumes native: "\<not> fst (is_wsl_system sh data)"
    and nofault: "sh (started data + 1) df_command = None \<or> sh (started data + 2) mokutil_command \<noteq> None"
    and online: "returned_status (sh (started data + 3) ping_command) = 0"
    and plan: "plan = install_plan (install_driver_check data) (install_cuda_check data)
                        (distro_codename (system_info data))"
  shows "if (\<forall>j<length plan. returned_status (sh (started data + 4 + j) (snd (plan ! j))) = 0)
         then fst (installation_thread sh uid data) = Inr ()
              \<and> count_list (run_commands sh uid data) remove_keyring_command = 1
              \<and> autoremove_command \<notin> set (run_commands sh uid data)
              \<and> last (effects (snd (installation_thread sh uid data)))
                  = IdleAdd show_completion_dialog_wrapper
         else fst (installation_thread sh uid data) = Inr ()
              \<and> count_list (run_commands sh uid data) autoremove_command = 1
              \<and> remove_keyring_command \<notin> set (run_commands sh uid data)
              \<and> last (effects (snd (installation_thread sh uid data)))
                  = IdleAdd show_error_dialog_wrapper"
proof (cases "\<forall>j<length plan. returned_status (sh (started data + 4 + j) (snd (plan ! j))) = 0")
  case True
  have fresh: "remove_keyring_command \<notin> set (map snd plan)" "autoremove_command \<notin> set (map snd plan)"
    unfolding plan by (rule cleanup_commands_fresh)+
  from installation_thread_success[OF native nofault online plan True, of uid] obtain X Y where
    XY: "commands X = gate_commands" "commands Y = map snd plan"
      "installation_thread sh uid data =
         (Inr (), data\<lparr>installation_running := False, started := started data + 5 + length plan,
              effects := effects data @ X @ Y
                   @ [final_update, Popen remove_keyring_command]
                   @ SetInstallationRunning False # restore_events
                   @ [IdleAdd show_completion_dialog_wrapper]\<rparr>)"
    by blast
  have rc: "run_commands sh uid data = gate_commands @ map snd plan @ [remove_keyring_command]"
    unfolding run_commands_def XY(3) using XY(1,2) by simp
  have "count_list (run_commands sh uid data) remove_keyring_command = 1"
    unfolding rc using fresh cleanup_commands_fresh(3)
    by simp
  moreover have "autoremove_command \<notin> set (run_commands sh uid data)"
    unfolding rc using fresh cleanup_commands_fresh(4,5)
    by auto
  moreover have "last (effects (snd (installation_thread sh uid data))) = IdleAdd show_completion_dialog_wrapper"
    unfolding XY(3) by simp
  moreover have "fst (installation_thread sh uid data) = Inr ()"
    unfolding XY(3) by simp
  ultimately show ?thesis using True by simp
next
  case False
  have fresh: "remove_keyring_command \<notin> set (map snd plan)" "autoremove_command \<notin> set (map snd plan)"
    unfolding plan by (rule cleanup_commands_fresh)+
  define P where "P j = (returned_status (sh (started data + 4 + j) (snd (plan ! j))) = 0)" for j
  define k where "k = (LEAST j. \<not> P j)"
  from False obtain j0 where j0: "j0 < length plan" "\<not> P j0"
    unfolding P_def by blast
  have nk: "\<not> P k" unfolding k_def using j0(2) by (rule LeastI)
  have bk: "\<forall>j<k. P j" unfolding k_def using not_less_Least by blast
  have "k \<le> j0" unfolding k_def using j0(2) by (rule Least_le)
  then have k: "k < length plan" using j0(1) by simp
  from installation_thread_fail[OF native nofault online plan refl k bk[unfolded P_def] nk[unfolded P_def], of uid]
  obtain X Y where
    XY: "commands X = gate_commands" "commands Y = map snd (take k plan)"
      "installation_thread sh uid data =
         (Inr (), data\<lparr>installation_running := False, started := started data + 6 + k,
              effects := effects data @ X @ Y
                @ command_events (progress_increment_of (install_driver_check data) (install_cuda_check data))
                    (snd (plan ! k)) (returned_status (sh (started data + 4 + k) (snd (plan ! k))))
                @ Popen autoremove_command # SetInstallationRunning False # restore_events
                @ [IdleAdd show_error_dialog_wrapper]\<rparr>)"
    by blast
  have take: "map snd (take (Suc k) plan) = map snd (take k plan) @ [snd (plan ! k)]"
    using k by (simp add: take_Suc_conv_app_nth)
  have rc: "run_commands sh uid data = gate_commands @ map snd (take (Suc k) plan) @ [autoremove_command]"
    unfolding run_commands_def XY(3) using XY(1,2) take by simp
  have sub: "set (map snd (take (Suc k) plan)) \<subseteq> set (map snd plan)"
    by (metis set_take_subset take_map)
  have fresh': "remove_keyring_command \<notin> set (map snd (take (Suc k) plan))"
      "autoremove_command \<notin> set (map snd (take (Suc k) plan))"
    using sub fresh by blast+
  have "count_list (run_commands sh uid data) autoremove_command = 1"
    unfolding rc using fresh'(2) cleanup_commands_fresh(4)
    by simp
  moreover have "remove_keyring_command \<notin> set (run_commands sh uid data)"
    unfolding rc using fresh'(1) cleanup_commands_fresh(3,5)
    by simp
  moreover have "last (effects (snd (installation_thread sh uid data))) = IdleAdd show_error_dialog_wrapper"
    unfolding XY(3) by simp
  moreover have "fst (installation_thread sh uid data) = Inr ()"
    unfolding XY(3) by simp
  ultimately show ?thesis using False by simp
qed


lemma native_shell_status:
  "returned_status (native_shell n c) = (if c = wsl_probe_command then 256 else 0)"
  by (simp add: native_shell_def lspci_command_def lsb_release_command_def returned_status_def wsl_probe_command_def)

lemma native_shell_native: "\<not> fst (is_wsl_system native_shell d)"
  by (simp add: is_wsl_system_eq detected_def native_shell_def lspci_command_def lsb_release_command_def wsl_probe_command_def)

lemma native_shell_opens: "native_shell n c \<noteq> None"
  by (simp add: native_shell_def)

theorem cleanup_actions_exclusive_witness:
  "(fst (installation_thread native_shell 1000 ready) = Inr ()
    \<and> count_list (run_commands native_shell 1000 ready) remove_keyring_command = 1
    \<and> autoremove_command \<notin> set (run_commands native_shell 1000 ready)
    \<and> last (effects (snd (installation_thread native_shell 1000 ready)))
        = IdleAdd show_completion_dialog_wrapper)
   \<and> (fst (installation_thread driver_fails_shell 1000 ready) = Inr ()
    \<and> count_list (run_commands driver_fails_shell 1000 ready) autoremove_command = 1
    \<and> remove_keyring_command \<notin> set (run_commands driver_fails_shell 1000 ready)
    \<and> last (effects (snd (installation_thread driver_fails_shell 1000 ready)))
        = IdleAdd show_error_dialog_wrapper)"
proof -
  let ?plan = "install_plan True False (Some ''noble'')"
  have h3: "?plan = install_plan (install_driver_check ready) (install_cuda_check ready)
                      (distro_codename (system_info ready))"
    by (simp add: ready_fields)
  have n1: "native_shell (started ready + 1) df_command = None
            \<or> native_shell (started ready + 2) mokutil_command \<noteq> None"
    by (simp add: native_shell_opens)
  have f1: "driver_fails_shell (started ready + 1) df_command = None
            \<or> driver_fails_shell (started ready + 2) mokutil_command \<noteq> None"
    by (simp add: driver_fails_shell_opens)
  have n2: "returned_status (native_shell (started ready + 3) ping_command) = 0"
    by (simp add: native_shell_status ping_command_def wsl_probe_command_def)
  have f2: "returned_status (driver_fails_shell (started ready + 3) ping_command) = 0"
    by (simp add: driver_fails_shell_status ping_command_def wsl_probe_command_def)
  have A: "\<forall>j<length ?plan. returned_status (native_shell (started ready + 4 + j) (snd (?plan ! j))) = 0"
    by (simp add: driver_plan_noble native_shell_status eval_nat_numeral less_Suc_eq
        prereq_cmd_def repo_cmd_def show_str_def wsl_probe_command_def)
  have "returned_status (driver_fails_shell (started ready + 4 + 5) (snd (?plan ! 5))) \<noteq> 0"
    by (simp add: driver_plan_noble driver_fails_shell_status)
  moreover have "5 < length ?plan" by (simp add: driver_plan_noble)
  ultimately have B: "\<not> (\<forall>j<length ?plan.
      returned_status (driver_fails_shell (started ready + 4 + j) (snd (?plan ! j))) = 0)"
    by blast
  from cleanup_actions_exclusive[where sh = native_shell and data = ready and plan = ?plan
      and uid = 1000, OF native_shell_native n1 n2 h3]
  have one: "fst (installation_thread native_shell 1000 ready) = Inr ()
    \<and> count_list (run_commands native_shell 1000 ready) remove_keyring_command = 1
    \<and> autoremove_command \<notin> set (run_commands native_shell 1000 ready)
    \<and> last (effects (snd (installation_thread native_shell 1000 ready)))
        = IdleAdd show_completion_dialog_wrapper"
    unfolding if_P[OF A] .
  from cleanup_actions_exclusive[where sh = driver_fails_shell and data = ready and plan = ?plan
      and uid = 1000, OF driver_fails_shell_native f1 f2 h3]
  have two: "fst (installation_thread driver_fails_shell 1000 ready) = Inr ()
    \<and> count_list (run_commands driver_fails_shell 1000 ready) autoremove_command = 1
    \<and> remove_keyring_command \<notin> set (run_commands driver_fails_shell 1000 ready)
    \<and> last (effects (snd (installation_thread driver_fails_shell 1000 ready)))
        = IdleAdd show_error_dialog_wrapper"
    unfolding if_not_P[OF B] .
  from one two show ?thesis by blast
qed

lemma is_wsl_marker:
  "sh (started d) wsl_probe_command = Some (0, out) \<Longrightarrow> out \<noteq> [] \<Longrightarrow> fst (is_wsl_system sh d)"
  by (simp add: is_wsl_system_eq detected_def returned_status_def)

lemma on_install_clicked_wsl:
  assumes "fst (is_wsl_system sh d)" "\<not> installation_running d"
  shows "on_install_clicked sh confirm password d =
           d\<lparr>started := Suc (started d),
             effects := effects d @ [Popen wsl_probe_command,
                          ErrorDialog ''WSL Environment Detected'' wsl_dialog_message]\<rparr>"
  using assms by (simp add: on_install_clicked_def is_wsl_system_eq effect_defs)

text \<open>
  C3. If the WSL probe answers with status 0 and a non-empty line when the installation
  thread asks, the thread returns after it has started that probe and no other command,
  logged the WSL error lines, reset the run flag and given the buttons back: no gate
  after it, no step and no cleanup command runs. The click handler asks the same probe
  first; with the marker present it starts no other command and creates no thread.
\<close>

theorem wsl_marker_aborts_before_mutation:
  assumes marker: "sh (started data) wsl_probe_command = Some (0, out)" "out \<noteq> []"
  shows "fst (installation_thread sh uid data) = Inr ()
       \<and> effects (snd (installation_thread sh uid data)) =
           effects data @ Popen wsl_probe_command # wsl_effects
             @ SetInstallationRunning False # restore_events
       \<and> run_commands sh uid data = [wsl_probe_command]
       \<and> installation_running (snd (installation_thread sh uid data)) = False
       \<and> commands (effects (on_install_clicked sh confirm password data)) =
           commands (effects data) @ (if installation_running data then [] else [wsl_probe_command])
       \<and> live_threads (on_install_clicked sh confirm password data) = live_threads data"
proof -
  have wsl: "fst (is_wsl_system sh data)"
    using marker by (rule is_wsl_marker)
  have c: "commands wsl_effects = []"
    by (simp add: wsl_effects_def wsl_log_def)
  have t: "installation_thread sh uid data =
           (Inr (), data\<lparr>installation_running := False, started := Suc (started data),
             effects := effects data @ Popen wsl_probe_command # wsl_effects
                        @ SetInstallationRunning False # restore_events\<rparr>)"
    using wsl by (rule installation_thread_wsl)
  have h: "on_install_clicked sh confirm password data =
           (if installation_running data then data
            else data\<lparr>started := Suc (started data),
             effects := effects data @ [Popen wsl_probe_command,
                          ErrorDialog ''WSL Environment Detected'' wsl_dialog_message]\<rparr>)"
    using on_install_clicked_wsl[OF wsl] by (simp add: on_install_clicked_def)
  show ?thesis
    unfolding run_commands_def t h using c by simp
qed

theorem wsl_marker_aborts_before_mutation_witness:
  "fst (installation_thread wsl_shell 1000 ready) = Inr ()
   \<and> effects (snd (installation_thread wsl_shell 1000 ready)) =
     effects ready @ Popen wsl_probe_command # wsl_effects @ SetInstallationRunning False # restore_events
   \<and> run_commands wsl_shell 1000 ready = [wsl_probe_command]
   \<and> installation_running (snd (installation_thread wsl_shell 1000 ready)) = False
   \<and> commands (effects (on_install_clicked wsl_shell True (Some ''secret'') probed)) =
       commands (effects probed) @ [wsl_probe_command]
   \<and> live_threads (on_install_clicked wsl_shell True (Some ''secret'') probed) = []"
proof -
  have m: "wsl_shell n wsl_probe_command = Some (0, ''Linux version 5.15.90.1-microsoft-standard-WSL2'' @ [newline])" for n
    by (simp add: wsl_shell_def)
  have ne: "''Linux version 5.15.90.1-microsoft-standard-WSL2'' @ [newline] \<noteq> []" by simp
  from wsl_marker_aborts_before_mutation[where sh = wsl_shell and data = ready and uid = 1000
      and confirm = True and password = "Some ''secret''", OF m ne]
    wsl_marker_aborts_before_mutation[where sh = wsl_shell and data = probed and uid = 1000
      and confirm = True and password = "Some ''secret''", OF m ne]
  show ?thesis by (simp add: probed_fields)
qed


subsection \<open>The run flag, the handlers and the probe\<close>

lemma run_steps_any:
  "\<exists>b p' n Y. run_steps sh inc plan (p, d) = (b, p', d\<lparr>started := n, effects := effects d @ Y\<rparr>)
     \<and> list_all step_event Y"
proof (induction plan arbitrary: p d)
  case Nil
  show ?case
    by (rule exI[of _ True], rule exI[of _ p], rule exI[of _ "started d"], rule exI[of _ "[]"]) simp
next
  case (Cons s rest)
  obtain a c where s: "s = (a, c)" by (cases s) auto
  let ?p1 = "case a of None \<Rightarrow> p | Some x \<Rightarrow> p + inc"
  let ?st = "returned_status (sh (started d) c)"
  let ?E = "announcement ?p1 a @ command_events inc c ?st"
  let ?d2 = "d\<lparr>started := Suc (started d), effects := effects d @ ?E\<rparr>"
  show ?case
  proof (cases "?st = 0")
    case True
    from Cons.IH[of ?p1 ?d2] obtain b p' n Y where
      Y: "run_steps sh inc rest (?p1, ?d2) = (b, p', ?d2\<lparr>started := n, effects := effects ?d2 @ Y\<rparr>)"
         "list_all step_event Y"
      by blast
    have "run_steps sh inc (s # rest) (p, d) = (b, p', d\<lparr>started := n, effects := effects d @ (?E @ Y)\<rparr>)"
      using Y(1) True by (simp add: s run_steps_Cons Let_def)
    moreover have "list_all step_event (?E @ Y)" using Y(2) by simp
    ultimately show ?thesis by blast
  next
    case False
    have "run_steps sh inc (s # rest) (p, d) =
            (False, ?p1, d\<lparr>started := Suc (started d), effects := effects d @ ?E\<rparr>)"
      using False by (simp add: s run_steps_Cons Let_def)
    moreover have "list_all step_event ?E" by simp
    ultimately show ?thesis by blast
  qed
qed

lemma terminal_restore_events [simp]: "list_all terminal_event restore_events"
  by (simp add: restore_events_def)

lemma worker_wsl_effects: "list_all worker_event wsl_effects"
  by (simp add: wsl_effects_def wsl_log_def)

lemma on_detect_clicked_idle:
  "\<not> installation_running d \<Longrightarrow>
   live_threads (on_detect_clicked d) = live_threads d @ [detection_thread_fn]"
  by (simp add: on_detect_clicked_def effect_defs)

lemma on_install_clicked_accepts:
  assumes "\<not> installation_running d" and "\<not> fst (is_wsl_system sh d)"
    and "gpu_detected (system_info d)" and "install_driver_check d \<or> install_cuda_check d"
    and "returned_status (sh (Suc (started d)) sudo_check_command) = 0"
  shows "live_threads (on_install_clicked sh True (Some pw) d) = live_threads d @ [installation_thread_fn]"
    and "installation_running (on_install_clicked sh True (Some pw) d)"
    and "last (effects (on_install_clicked sh True (Some pw) d)) = PthreadCreate installation_thread_fn"
  using assms
  by (auto simp: on_install_clicked_def is_wsl_system_eq verify_sudo_access_def effect_defs Let_def
      returned_status_def split: option.splits prod.splits)

text \<open>
  Every way out of the installation thread other than the end of the process in the
  compatibility check: the thread returns, only the run flag, the process count and the
  effects have changed, and the write of \<open>False\<close> to the flag stands between what is not
  a closing callback and what is.
\<close>

lemma installation_thread_returns:
  assumes "fst (is_wsl_system sh data) \<or> sh (started data + 1) df_command = None
           \<or> sh (started data + 2) mokutil_command \<noteq> None"
  shows "\<exists>n pre post. installation_thread sh uid data =
            (Inr (), data\<lparr>installation_running := False, started := n,
                           effects := effects data @ pre @ SetInstallationRunning False # post\<rparr>)
     \<and> list_all (\<lambda>e. \<not> terminal_event e) pre
     \<and> list_all terminal_event post
     \<and> set restore_events \<subseteq> set post"
proof (cases "fst (is_wsl_system sh data)")
  case True
  let ?pre = "Popen wsl_probe_command # wsl_effects"
  have "installation_thread sh uid data =
          (Inr (), data\<lparr>installation_running := False, started := Suc (started data),
                         effects := effects data @ ?pre @ SetInstallationRunning False # restore_events\<rparr>)"
    unfolding installation_thread_wsl[OF True] by simp
  moreover have "list_all (\<lambda>e. \<not> terminal_event e) ?pre"
    using worker_not_terminal[OF worker_wsl_effects] by simp
  ultimately show ?thesis
    using terminal_restore_events by blast
next
  case native: False
  then have nofault: "sh (started data + 1) df_command = None \<or> sh (started data + 2) mokutil_command \<noteq> None"
    using assms by blast
  show ?thesis
  proof (cases "returned_status (sh (started data + 3) ping_command) = 0")
    case False
    from installation_thread_offline[OF native nofault False, of uid] obtain X where
      X: "list_all gate_event X"
         "installation_thread sh uid data =
            (Inr (), data\<lparr>installation_running := False, started := started data + 4,
               effects := effects data @ X
                 @ LogMessage ''No internet connection detected. Installation requires internet access.''
                     STATUS_ERROR
                 # SetInstallationRunning False # restore_events
                 @ [IdleAdd show_error_dialog_wrapper]\<rparr>)"
      by blast
    let ?pre = "X @ [LogMessage ''No internet connection detected. Installation requires internet access.''
                       STATUS_ERROR]"
    let ?post = "restore_events @ [IdleAdd show_error_dialog_wrapper]"
    have "installation_thread sh uid data =
            (Inr (), data\<lparr>installation_running := False, started := started data + 4,
               effects := effects data @ ?pre @ SetInstallationRunning False # ?post\<rparr>)"
      unfolding X(2) by simp
    moreover have "list_all (\<lambda>e. \<not> terminal_event e) ?pre"
      using worker_not_terminal[OF gate_event_worker[OF X(1)]] by simp
    moreover have "list_all terminal_event ?post" "set restore_events \<subseteq> set ?post"
      by auto
    ultimately show ?thesis by blast
  next
    case online: True
    let ?inc = "progress_increment_of (install_driver_check data) (install_cuda_check data)"
    let ?plan = "install_plan (install_driver_check data) (install_cuda_check data)
                   (distro_codename (system_info data))"
    from installation_thread_online[OF native nofault online, of uid] obtain X where
      X: "list_all gate_event X"
         "installation_thread sh uid data =
            (Inr (),
             let r = run_steps sh ?inc ?plan
                          (0, data\<lparr>started := started data + 4, effects := effects data @ X\<rparr>);
                  d3 = snd (snd r)
              in if fst r
                 then cleanup_install sh True
                        (d3\<lparr>started := Suc (started d3),
                            effects := effects d3 @ [final_update, Popen remove_keyring_command]\<rparr>)
                 else cleanup_install sh False d3)"
      by blast
    let ?d2 = "data\<lparr>started := started data + 4, effects := effects data @ X\<rparr>"
    from run_steps_any[of sh ?inc ?plan 0 ?d2] obtain b p' n Y where
      Y: "run_steps sh ?inc ?plan (0, ?d2) = (b, p', ?d2\<lparr>started := n, effects := effects ?d2 @ Y\<rparr>)"
         "list_all step_event Y"
      by blast
    let ?pre = "X @ Y @ (if b then [final_update, Popen remove_keyring_command]
                         else [Popen autoremove_command])"
    let ?post = "restore_events @ [IdleAdd (if b then show_completion_dialog_wrapper
                                            else show_error_dialog_wrapper)]"
    have "installation_thread sh uid data =
            (Inr (), data\<lparr>installation_running := False, started := (if b then Suc n else Suc n),
               effects := effects data @ ?pre @ SetInstallationRunning False # ?post\<rparr>)"
      unfolding X(2) Y(1) by (cases b; simp add: cleanup_install_eq Let_def)
    moreover have "list_all (\<lambda>e. \<not> terminal_event e) ?pre"
      using worker_not_terminal[OF gate_event_worker[OF X(1)]]
        worker_not_terminal[OF step_event_worker[OF Y(2)]]
      by (simp add: final_update_def)
    moreover have "list_all terminal_event ?post" "set restore_events \<subseteq> set ?post"
      by auto
    ultimately show ?thesis by blast
  qed
qed

text \<open>
  On the native host where the \<^verbatim>\<open>mokutil\<close> pipe does not open, the process ends in the
  compatibility check: the run flag stays set and nothing is queued.
\<close>

lemma double_free_run:
  "fst (installation_thread no_mokutil_pipe_shell 1000 ready) = Inl DoubleFree
   \<and> installation_running (snd (installation_thread no_mokutil_pipe_shell 1000 ready))
   \<and> run_commands no_mokutil_pipe_shell 1000 ready = [wsl_probe_command, df_command, mokutil_command]"
proof -
  have a: "\<not> fst (is_wsl_system no_mokutil_pipe_shell ready)"
    by (simp add: is_wsl_system_eq detected_def no_mokutil_pipe_shell_def native_shell_def
        lspci_command_def lsb_release_command_def wsl_probe_command_def mokutil_command_def)
  have b: "no_mokutil_pipe_shell (started ready + 1) df_command \<noteq> None"
    by (simp add: no_mokutil_pipe_shell_def native_shell_def mokutil_command_def df_command_def)
  have c: "no_mokutil_pipe_shell (started ready + 2) mokutil_command = None"
    by (simp add: no_mokutil_pipe_shell_def)
  from installation_thread_fault[OF a b c, of 1000] obtain X where
    X: "installation_thread no_mokutil_pipe_shell 1000 ready =
           (Inl DoubleFree, ready\<lparr>started := started ready + 3, effects := effects ready @ X\<rparr>)"
       "commands X = [wsl_probe_command, df_command, mokutil_command]"
    by blast
  show ?thesis
    unfolding run_commands_def X(1) using X(2) by (simp add: ready_fields)
qed

text \<open>The thread function returns exactly when the second \<^verbatim>\<open>g_free\<close> meets no stale pointer.\<close>

lemma installation_thread_returns_iff:
  "fst (installation_thread sh uid data) = Inr () \<longleftrightarrow>
     fst (is_wsl_system sh data) \<or> sh (started data + 1) df_command = None
     \<or> sh (started data + 2) mokutil_command \<noteq> None"
proof
  assume r: "fst (installation_thread sh uid data) = Inr ()"
  show "fst (is_wsl_system sh data) \<or> sh (started data + 1) df_command = None
     \<or> sh (started data + 2) mokutil_command \<noteq> None"
  proof (rule ccontr)
    assume "\<not> (fst (is_wsl_system sh data) \<or> sh (started data + 1) df_command = None
     \<or> sh (started data + 2) mokutil_command \<noteq> None)"
    then have "\<not> fst (is_wsl_system sh data)" "sh (started data + 1) df_command \<noteq> None"
      "sh (started data + 2) mokutil_command = None"
      by (simp_all only: de_Morgan_disj not_not simp_thms)
    from installation_thread_fault[OF this, of uid] r show False by auto
  qed
next
  assume "fst (is_wsl_system sh data) \<or> sh (started data + 1) df_command = None
     \<or> sh (started data + 2) mokutil_command \<noteq> None"
  from installation_thread_returns[OF this, of uid] show "fst (installation_thread sh uid data) = Inr ()"
    by auto
qed

text \<open>
  C9. Take a run of the installation thread in which the process does not end in the
  compatibility check. On each way out (WSL gate, connectivity gate, a failed step, full
  success) the thread returns, and the write of \<open>False\<close> to \<open>installation_running\<close> comes
  before every callback that ends the run: what the thread does before the write
  contains none of them, what it does after consists of them only and gives both buttons
  back. The flag is \<open>False\<close> in the final state, and both click handlers accept a request
  again: a click on Detect creates a detection thread, and a click on Install that passes
  the handler's own checks (no WSL marker, a detected card, an option ticked, the dialog
  confirmed, a password that \<^verbatim>\<open>sudo\<close> accepts) sets the flag and creates an installation
  thread.
\<close>

theorem installation_thread_resets_flag_first:
  assumes "fst (is_wsl_system sh data) \<or> sh (started data + 1) df_command = None
           \<or> sh (started data + 2) mokutil_command \<noteq> None"
  shows "fst (installation_thread sh uid data) = Inr ()
     \<and> (\<exists>pre post. effects (snd (installation_thread sh uid data)) =
                 effects data @ pre @ SetInstallationRunning False # post
          \<and> list_all (\<lambda>e. \<not> terminal_event e) pre
          \<and> list_all terminal_event post
          \<and> set restore_events \<subseteq> set post)
     \<and> installation_running (snd (installation_thread sh uid data)) = False
     \<and> live_threads (on_detect_clicked (snd (installation_thread sh uid data))) =
         live_threads (snd (installation_thread sh uid data)) @ [detection_thread_fn]
     \<and> (\<not> fst (is_wsl_system sh' (snd (installation_thread sh uid data)))
          \<and> gpu_detected (system_info data)
          \<and> (install_driver_check data \<or> install_cuda_check data)
          \<and> returned_status (sh' (Suc (started (snd (installation_thread sh uid data))))
                sudo_check_command) = 0
        \<longrightarrow> installation_running
              (on_install_clicked sh' True (Some pw) (snd (installation_thread sh uid data)))
          \<and> live_threads (on_install_clicked sh' True (Some pw) (snd (installation_thread sh uid data)))
              = live_threads (snd (installation_thread sh uid data)) @ [installation_thread_fn]
          \<and> last (effects (on_install_clicked sh' True (Some pw) (snd (installation_thread sh uid data))))
              = PthreadCreate installation_thread_fn)"
proof -
  let ?R = "snd (installation_thread sh uid data)"
  from installation_thread_returns[OF assms, of uid] obtain n pre post where
    pp: "installation_thread sh uid data =
            (Inr (), data\<lparr>installation_running := False, started := n,
                           effects := effects data @ pre @ SetInstallationRunning False # post\<rparr>)"
     "list_all (\<lambda>e. \<not> terminal_event e) pre" "list_all terminal_event post"
     "set restore_events \<subseteq> set post"
    by blast
  have idle: "\<not> installation_running ?R" unfolding pp(1) by simp
  have same: "system_info ?R = system_info data" "install_driver_check ?R = install_driver_check data"
    "install_cuda_check ?R = install_cuda_check data"
    unfolding pp(1) by simp_all
  have c0: "fst (installation_thread sh uid data) = Inr ()"
    unfolding pp(1) by simp
  have c1: "\<exists>pre post. effects ?R = effects data @ pre @ SetInstallationRunning False # post
          \<and> list_all (\<lambda>e. \<not> terminal_event e) pre
          \<and> list_all terminal_event post
          \<and> set restore_events \<subseteq> set post"
    using pp(2,3,4) unfolding pp(1) by auto
  have c2: "installation_running ?R = False" using idle by simp
  have c3: "live_threads (on_detect_clicked ?R) = live_threads ?R @ [detection_thread_fn]"
    by (rule on_detect_clicked_idle[OF idle])
  have c4: "installation_running (on_install_clicked sh' True (Some pw) ?R)
          \<and> live_threads (on_install_clicked sh' True (Some pw) ?R)
              = live_threads ?R @ [installation_thread_fn]
          \<and> last (effects (on_install_clicked sh' True (Some pw) ?R))
              = PthreadCreate installation_thread_fn"
    if "\<not> fst (is_wsl_system sh' ?R)" "gpu_detected (system_info data)"
       "install_driver_check data \<or> install_cuda_check data"
       "returned_status (sh' (Suc (started ?R)) sudo_check_command) = 0"
    using on_install_clicked_accepts[OF idle that(1) _ _ that(4), of pw] that(2,3)
    unfolding same by simp
  from c0 c1 c2 c3 c4 show ?thesis by blast
qed

theorem installation_thread_resets_flag_first_witness:
  "fst (installation_thread driver_fails_shell 1000 ready) = Inr ()
   \<and> installation_running ready
   \<and> installation_running (snd (installation_thread driver_fails_shell 1000 ready)) = False
   \<and> live_threads (on_detect_clicked (snd (installation_thread driver_fails_shell 1000 ready))) =
       live_threads (snd (installation_thread driver_fails_shell 1000 ready)) @ [detection_thread_fn]
   \<and> installation_running
       (on_install_clicked native_shell True (Some ''secret'')
          (snd (installation_thread driver_fails_shell 1000 ready)))
   \<and> live_threads (on_install_clicked native_shell True (Some ''secret'')
          (snd (installation_thread driver_fails_shell 1000 ready)))
       = live_threads (snd (installation_thread driver_fails_shell 1000 ready)) @ [installation_thread_fn]"
proof -
  let ?R = "snd (installation_thread driver_fails_shell 1000 ready)"
  have h: "fst (is_wsl_system driver_fails_shell ready)
           \<or> driver_fails_shell (started ready + 1) df_command = None
           \<or> driver_fails_shell (started ready + 2) mokutil_command \<noteq> None"
    by (simp add: driver_fails_shell_opens)
  have a: "\<not> fst (is_wsl_system native_shell ?R)"
    by (rule native_shell_native)
  have b: "gpu_detected (system_info ready)" "install_driver_check ready \<or> install_cuda_check ready"
    by (simp_all add: ready_fields)
  have c: "returned_status (native_shell (Suc (started ?R)) sudo_check_command) = 0"
    by (simp add: native_shell_status sudo_check_command_def wsl_probe_command_def)
  from installation_thread_resets_flag_first[where sh = driver_fails_shell and data = ready
      and uid = 1000 and sh' = native_shell and pw = "''secret''", OF h] a b c
  show ?thesis
    by (simp add: ready_fields)
qed


text \<open>
  C8, amended. With neither option ticked, the click handler creates no thread and leaves
  the run flag and the system information as they are; the one command it may start is
  the read-only WSL probe, which it runs before it looks at the options unless a run is
  active.
\<close>

theorem empty_selection_rejected:
  assumes "\<not> install_driver_check data" and "\<not> install_cuda_check data"
  shows "live_threads (on_install_clicked sh confirm password data) = live_threads data
       \<and> installation_running (on_install_clicked sh confirm password data) = installation_running data
       \<and> system_info (on_install_clicked sh confirm password data) = system_info data
       \<and> commands (effects (on_install_clicked sh confirm password data)) =
           commands (effects data) @ (if installation_running data then [] else [wsl_probe_command])"
  using assms by (simp add: on_install_clicked_def is_wsl_system_eq effect_defs)

theorem empty_selection_rejected_witness:
  "live_threads (on_install_clicked native_shell True (Some ''secret'') unticked) = []
   \<and> installation_running (on_install_clicked native_shell True (Some ''secret'') unticked) = False
   \<and> commands (effects (on_install_clicked native_shell True (Some ''secret'') unticked)) =
       commands (effects unticked) @ [wsl_probe_command]"
proof -
  have a: "\<not> install_driver_check unticked" "\<not> install_cuda_check unticked"
    by (simp_all add: unticked_def probed_fields)
  have b: "\<not> installation_running unticked" "live_threads unticked = []"
    by (simp_all add: unticked_def probed_fields)
  from empty_selection_rejected[where sh = native_shell and data = unticked and confirm = True
      and password = "Some ''secret''", OF a] b
  show ?thesis by simp
qed

text \<open>
  C8 as stated fails: on the native host with neither option ticked the handler starts
  the WSL probe before it shows the warning dialog.
\<close>

theorem empty_selection_runs_wsl_probe:
  "\<not> install_driver_check unticked \<and> \<not> install_cuda_check unticked
   \<and> effects (on_install_clicked native_shell True (Some ''secret'') unticked) =
       effects unticked @ [Popen wsl_probe_command,
                           ErrorDialog ''Warning'' ''Please select at least one installation option.'']"
  by (simp add: unticked_def probed_fields on_install_clicked_def is_wsl_system_eq native_shell_wsl
      returned_status_def detected_def effect_defs)

text \<open>
  C4 at its failing inputs. The probe does not set \<open>installation_running\<close>, the only
  thing either handler tests. Right after program start, with the first probe thread
  still live, a click on Detect creates a second probe thread; and with a probe started
  from the button still live, a click on Install creates the installation thread beside
  it.
\<close>

theorem second_worker_while_probe_in_flight:
  "live_threads main_start = [detection_thread_fn]
   \<and> live_threads (on_detect_clicked main_start) = [detection_thread_fn, detection_thread_fn]
   \<and> live_threads (on_detect_clicked probed) = [detection_thread_fn]
   \<and> live_threads (on_install_clicked native_shell True (Some ''secret'') (on_detect_clicked probed))
       = [detection_thread_fn, installation_thread_fn]"
proof -
  have a: "live_threads main_start = [detection_thread_fn]" "\<not> installation_running main_start"
    by (simp_all add: main_start_def init_app_data_def effect_defs)
  have b: "live_threads (on_detect_clicked probed) = [detection_thread_fn]"
    by (simp add: on_detect_clicked_idle probed_fields)
  have c: "on_detect_clicked probed =
             probed\<lparr>detect_button_sensitive := False, live_threads := [detection_thread_fn],
                    effects := effects (on_detect_clicked probed)\<rparr>"
    by (simp add: on_detect_clicked_def probed_fields effect_defs)
  have d: "live_threads (on_install_clicked native_shell True (Some ''secret'') (on_detect_clicked probed))
       = [detection_thread_fn, installation_thread_fn]"
    by (subst c)
       (simp add: on_install_clicked_def is_wsl_system_eq verify_sudo_access_def probed_fields
          native_shell_wsl native_shell_sudo returned_status_def detected_def effect_defs Let_def)
  from a b d show ?thesis by (simp add: on_detect_clicked_idle)
qed

lemma native_steps_run:
  "run_steps native_shell 20 (install_plan True False (Some ''noble'')) (0, ready) =
     (True, 100, ready\<lparr>started := started ready + 6,
        effects := effects ready @
          announcement 20 (Some (''Updating package lists...'', ''Updating package repositories...''))
          @ command_events 20 ''sudo apt-get update'' 0
          @ announcement 40 (Some (''Installing prerequisites...'', ''Installing required packages...''))
          @ command_events 20 prereq_cmd 0
          @ announcement 60 (Some (''Adding NVIDIA repository...'', ''Adding NVIDIA repository...''))
          @ command_events 20 (repo_cmd (Some ''noble'')) 0
          @ command_events 20 ''sudo dpkg -i cuda-keyring_1.1-1_all.deb'' 0
          @ announcement 80 (Some (''Updating package lists...'', ''Updating package lists with NVIDIA repository...''))
          @ command_events 20 ''sudo apt-get update'' 0
          @ announcement 100 (Some (''Installing NVIDIA driver...'', ''Installing NVIDIA proprietary driver...''))
          @ command_events 20 ''sudo apt-get install -y cuda-drivers'' 0\<rparr>)"
proof -
  have none: "announcement p None = []" for p
    by (simp add: announcement_def)
  show ?thesis
    by (simp add: driver_plan_noble run_steps_Cons native_shell_status Let_def none
        prereq_cmd_def repo_cmd_def show_str_def wsl_probe_command_def)
qed

lemma step_increments_append [simp]:
  "step_increments (xs @ ys) = step_increments xs @ step_increments ys"
  by (induction xs rule: step_increments.induct) auto

lemma announced_progress_append [simp]:
  "announced_progress (xs @ ys) = announced_progress xs @ announced_progress ys"
  by (induction xs rule: announced_progress.induct) auto

lemma increments_of_events [simp]:
  "step_increments (command_events inc c 0) = [inc]"
  "step_increments (announcement p (Some (m, l))) = []"
  "announced_progress (command_events inc c 0) = []"
  "announced_progress (announcement p (Some (m, l))) = [p]"
  by (simp_all add: command_events_def announcement_def progress_update_def)

text \<open>
  C1 at its failing input, driver only. The thread computes \<open>total_steps = 5\<close> and an
  increment of 20, while the step list has 6 commands. On the native host, where every
  command succeeds, each of the six commands carries the increment 20, 120 in all; the
  progress announced with a message goes 20, 40, 60, 80, 100.
\<close>

theorem total_steps_driver_only:
  "total_steps True False = 5
   \<and> progress_increment_of True False = 20
   \<and> length (install_plan True False codename) = 6
   \<and> (let r = run_steps native_shell (progress_increment_of True False)
                  (install_plan True False (Some ''noble'')) (0, ready);
            done = drop (length (effects ready)) (effects (snd (snd r)))
        in fst r \<and> step_increments done = [20, 20, 20, 20, 20, 20]
           \<and> sum_list (step_increments done) = 120
           \<and> announced_progress done = [20, 40, 60, 80, 100])"
proof -
  have inc: "progress_increment_of True False = 20"
    by (simp add: total_steps_def progress_increment_of_def)
  have "total_steps True False = 5" "length (install_plan True False codename) = 6"
    by (simp_all add: total_steps_def install_plan_def driver_plan_def)
  then show ?thesis
    unfolding inc native_steps_run by (simp add: Let_def)
qed


lemma no_lsb_shell_answers:
  "no_lsb_shell n lsb_release_command = Some (32512, [])"
  "no_lsb_shell n lspci_command = Some (0, gpu_line)"
  by (simp_all add: no_lsb_shell_def native_shell_def lsb_release_command_def lspci_command_def)

lemma detect_nvidia_gpu_eq:
  "detect_nvidia_gpu sh d =
     (let r = (returned_status (sh (started d) lspci_command), map_option snd (sh (started d) lspci_command))
      in (detected r,
          d\<lparr>system_info := (system_info d)\<lparr>gpu_detected := detected r,
                  gpu_info := Some (if detected r
                                    then ''Detected: '' @ g_strchomp (g_strchug (show_str (snd r)))
                                    else ''No NVIDIA GPU detected'')\<rparr>,
            started := Suc (started d), effects := effects d @ [Popen lspci_command]\<rparr>))"
  by (simp add: detect_nvidia_gpu_def run_command_eq set_system_info_def Let_def)

lemma detect_nvidia_driver_eq:
  "detect_nvidia_driver sh d =
     (let r = (returned_status (sh (started d) nvidia_smi_command),
               map_option snd (sh (started d) nvidia_smi_command))
      in (detected r,
          d\<lparr>system_info := (system_info d)\<lparr>driver_installed := detected r,
                  driver_info := Some (if detected r
                                    then ''Installed: Version '' @ g_strchomp (g_strchug (show_str (snd r)))
                                    else ''Not installed'')\<rparr>,
            started := Suc (started d), effects := effects d @ [Popen nvidia_smi_command]\<rparr>))"
  by (simp add: detect_nvidia_driver_def run_command_eq set_system_info_def Let_def)

lemma detect_cuda_eq:
  "detect_cuda sh d =
     (let r = (returned_status (sh (started d) nvcc_command), map_option snd (sh (started d) nvcc_command))
      in (detected r,
          d\<lparr>system_info := (system_info d)\<lparr>cuda_installed := detected r,
                  cuda_info := Some (if detected r
                                    then ''Installed: CUDA '' @ g_strchomp (g_strchug (show_str (snd r)))
                                    else ''Not installed'')\<rparr>,
            started := Suc (started d), effects := effects d @ [Popen nvcc_command]\<rparr>))"
  by (simp add: detect_cuda_def run_command_eq set_system_info_def Let_def)

lemmas detect_eqs = detect_nvidia_gpu_eq detect_nvidia_driver_eq detect_cuda_eq

lemma detect_nvidia_gpu_frame [simp]:
  "distro_codename (system_info (snd (detect_nvidia_gpu sh d))) = distro_codename (system_info d)"
  "driver_info (system_info (snd (detect_nvidia_gpu sh d))) = driver_info (system_info d)"
  "cuda_info (system_info (snd (detect_nvidia_gpu sh d))) = cuda_info (system_info d)"
  "effects (snd (detect_nvidia_gpu sh d)) = effects d @ [Popen lspci_command]"
  by (simp_all add: detect_nvidia_gpu_eq Let_def)

lemma detect_nvidia_driver_frame [simp]:
  "distro_codename (system_info (snd (detect_nvidia_driver sh d))) = distro_codename (system_info d)"
  "gpu_info (system_info (snd (detect_nvidia_driver sh d))) = gpu_info (system_info d)"
  "cuda_info (system_info (snd (detect_nvidia_driver sh d))) = cuda_info (system_info d)"
  "effects (snd (detect_nvidia_driver sh d)) = effects d @ [Popen nvidia_smi_command]"
  by (simp_all add: detect_nvidia_driver_eq Let_def)

lemma detect_cuda_frame [simp]:
  "distro_codename (system_info (snd (detect_cuda sh d))) = distro_codename (system_info d)"
  "gpu_info (system_info (snd (detect_cuda sh d))) = gpu_info (system_info d)"
  "driver_info (system_info (snd (detect_cuda sh d))) = driver_info (system_info d)"
  "effects (snd (detect_cuda sh d)) = effects d @ [Popen nvcc_command]"
  by (simp_all add: detect_cuda_eq Let_def)

lemma detect_sets_description:
  "\<exists>g. gpu_info (system_info (snd (detect_nvidia_gpu sh d))) = Some g \<and> g \<noteq> []"
  "\<exists>v. driver_info (system_info (snd (detect_nvidia_driver sh d))) = Some v \<and> v \<noteq> []"
  "\<exists>c. cuda_info (system_info (snd (detect_cuda sh d))) = Some c \<and> c \<noteq> []"
  by (simp_all add: detect_eqs Let_def)

lemma logged_append [simp]: "logged t (xs @ ys) = logged t xs @ logged t ys"
  by (induction t xs rule: logged.induct) auto

lemma system_info_effect [simp]:
  "system_info (g_idle_add cb d) = system_info d"
  "system_info (log_message_call m t d) = system_info d"
  "effects (g_idle_add cb d) = effects d @ [IdleAdd cb]"
  "effects (log_message_call m t d) = effects d @ [LogMessage m t]"
  by (simp_all add: effect_defs)

lemma detection_thread_steps:
  "detection_thread sh d =
     g_idle_add (set_widget_sensitive_wrapper detect_button)
       (g_idle_add update_status_display_wrapper
         (g_idle_add (progress_update 0 None ''System detection completed.'' STATUS_INFO)
           (snd (detect_cuda sh
             (log_message_call ''Checking CUDA status...'' STATUS_INFO
               (snd (detect_nvidia_driver sh
                 (log_message_call ''Checking driver status...'' STATUS_INFO
                   (snd (detect_nvidia_gpu sh
                     (log_message_call ''Checking for NVIDIA GPU...'' STATUS_INFO
                       (codename_step sh d))))))))))))"
  by (simp only: detection_thread_def codename_step_def Let_def split_beta)

lemma probe_descriptions_never_empty:
  "\<exists>g v c. gpu_info (system_info (detection_thread sh d)) = Some g \<and> g \<noteq> []
     \<and> driver_info (system_info (detection_thread sh d)) = Some v \<and> v \<noteq> []
     \<and> cuda_info (system_info (detection_thread sh d)) = Some c \<and> c \<noteq> []
     \<and> distro_codename (system_info (detection_thread sh d)) \<noteq> None"
proof -
  have "distro_codename (system_info (codename_step sh d)) \<noteq> None"
    by (simp add: codename_step_def set_system_info_def Let_def split: option.splits)
  then show ?thesis
    unfolding detection_thread_steps
    using detect_sets_description(1)[of sh "log_message_call ''Checking for NVIDIA GPU...'' STATUS_INFO
                       (codename_step sh d)"]
      detect_sets_description(2)[of sh "log_message_call ''Checking driver status...'' STATUS_INFO
                   (snd (detect_nvidia_gpu sh
                     (log_message_call ''Checking for NVIDIA GPU...'' STATUS_INFO
                       (codename_step sh d))))"]
      detect_sets_description(3)[of sh "log_message_call ''Checking CUDA status...'' STATUS_INFO
               (snd (detect_nvidia_driver sh
                 (log_message_call ''Checking driver status...'' STATUS_INFO
                   (snd (detect_nvidia_gpu sh
                     (log_message_call ''Checking for NVIDIA GPU...'' STATUS_INFO
                       (codename_step sh d)))))))"]
    by simp
qed

lemma probe_falls_back_when_pipe_fails:
  assumes "sh (started d) lsb_release_command = None" and "distro_codename (system_info d) = None"
  shows "distro_codename (system_info (detection_thread sh d)) = Some ''unknown''
       \<and> logged STATUS_WARNING (effects (detection_thread sh d))
           = logged STATUS_WARNING (effects d) @ [''Unable to detect distribution codename'']"
proof -
  have "codename_step sh d =
          d\<lparr>system_info := (system_info d)\<lparr>distro_codename := Some ''unknown''\<rparr>,
            started := Suc (started d),
            effects := effects d @
              [LogMessage ''Detecting system components...'' STATUS_INFO,
               LogMessage ''Detecting Linux distribution...'' STATUS_INFO,
               Popen lsb_release_command,
               LogMessage ''Unable to detect distribution codename'' STATUS_WARNING]\<rparr>"
    using assms
    by (simp add: codename_step_def run_command_eq set_system_info_def effect_defs Let_def)
  then show ?thesis
    unfolding detection_thread_steps by simp
qed

lemma probe_keeps_empty_output:
  assumes "sh (started d) lsb_release_command = Some (status, [])"
  shows "distro_codename (system_info (detection_thread sh d)) = Some []
       \<and> logged STATUS_WARNING (effects (detection_thread sh d)) = logged STATUS_WARNING (effects d)"
proof -
  have "codename_step sh d =
          d\<lparr>system_info := (system_info d)\<lparr>distro_codename := Some []\<rparr>,
            started := Suc (started d),
            effects := effects d @
              [LogMessage ''Detecting system components...'' STATUS_INFO,
               LogMessage ''Detecting Linux distribution...'' STATUS_INFO,
               Popen lsb_release_command,
               LogMessage ''Distribution codename: '' STATUS_INFO]\<rparr>"
    using assms
    by (simp add: codename_step_def run_command_eq set_system_info_def effect_defs Let_def
        g_strchomp_def)
  then show ?thesis
    unfolding detection_thread_steps by simp
qed


text \<open>
  C7 at its failing input: \<^verbatim>\<open>lsb_release\<close> prints nothing. The pipe opened, so
  \<open>run_command\<close> stored the empty string, the test for \<^verbatim>\<open>NULL\<close> passes, the codename
  stays empty and no warning is logged.
\<close>

theorem empty_codename_output_not_replaced:
  "no_lsb_shell (started main_start) lsb_release_command = Some (32512, [])
   \<and> distro_codename (system_info (detection_thread no_lsb_shell main_start)) = Some []
   \<and> logged STATUS_WARNING (effects (detection_thread no_lsb_shell main_start)) = []"
proof -
  have "logged STATUS_WARNING (effects main_start) = []"
    by (simp add: main_start_def init_app_data_def effect_defs)
  then show ?thesis
    using probe_keeps_empty_output[where sh = no_lsb_shell and d = main_start,
        OF no_lsb_shell_answers(1)]
    by (simp add: no_lsb_shell_answers)
qed

text \<open>
  C6 at its failing input, the same probe: the three descriptions are set, the codename
  is left as the empty string.
\<close>

theorem probe_leaves_empty_codename:
  "system_info (detection_thread no_lsb_shell main_start) =
     \<lparr>gpu_detected = True,
      gpu_info = Some ''Detected: 01:00.0 VGA compatible controller: NVIDIA Corporation AD104'',
      driver_installed = False, driver_info = Some ''Not installed'',
      cuda_installed = False, cuda_info = Some ''Not installed'',
      distro_codename = Some []\<rparr>"
  by (simp add: main_start_def init_app_data_def prober_defs shell_defs sudo_check_command_def
      run_command_eq returned_status_def effect_defs progress_update_def Let_def split_beta)


subsection \<open>A message of two lines in the console\<close>

lemma log_messages_snoc:
  "log_messages (es @ [(now, message, t)]) b = log_message now message t (log_messages es b)"
  by (induction es arbitrary: b) auto

lemma join_lines_append: "join_lines (xs @ ys) = join_lines xs @ join_lines ys"
  by (simp add: join_lines_def)

lemma probe_logs_codename_output:
  assumes "sh (started d) lsb_release_command = Some (status, out)"
  shows "LogMessage (''Distribution codename: '' @ g_strchomp out) STATUS_INFO
           \<in> set (effects (detection_thread sh d))"
proof -
  have "codename_step sh d =
          d\<lparr>system_info := (system_info d)\<lparr>distro_codename := Some (g_strchomp out)\<rparr>,
            started := Suc (started d),
            effects := effects d @
              [LogMessage ''Detecting system components...'' STATUS_INFO,
               LogMessage ''Detecting Linux distribution...'' STATUS_INFO,
               Popen lsb_release_command,
               LogMessage (''Distribution codename: '' @ g_strchomp out) STATUS_INFO]\<rparr>"
    using assms
    by (simp add: codename_step_def run_command_eq set_system_info_def effect_defs Let_def)
  then show ?thesis
    unfolding detection_thread_steps by simp
qed

lemma one_line_plain:
  "one_line ''Checking for NVIDIA GPU...''"
  "one_line ''Distribution codename: No LSB modules are available.''"
  "one_line ''noble''"
  by (simp_all add: one_line_def newline_def carriage_return_def paragraph_separator_def)

text \<open>
  C5 at its failing input. \<^verbatim>\<open>lsb_release\<close> prints two lines; \<open>g_strchomp\<close> takes the
  line break off the end only, so the probe logs a message with a line break inside.
  With 999 lines in the console the count is at the cap, 1000; the insertion of that
  message deletes one line and adds two, so that the count is 1001, and the second of
  the two lines, \<^verbatim>\<open>noble\<close>, carries no time stamp and no severity.
\<close>

theorem log_exceeds_cap_on_two_line_message:
  "LogMessage two_line_message STATUS_INFO \<in> set (effects (detection_thread two_line_shell main_start))
   \<and> MAX_LOG_LINES = 1000
   \<and> map_option gtk_text_buffer_get_line_count (log_messages busy_log (Some [])) = Some 1000
   \<and> map_option gtk_text_buffer_get_line_count
         (log_messages (busy_log @ [(nine_o_five, two_line_message, STATUS_INFO)]) (Some []))
       = Some 1001
   \<and> map_option closed_lines
         (log_messages (busy_log @ [(nine_o_five, two_line_message, STATUS_INFO)]) (Some []))
       = Some (replicate 998 ''[09:05:59] [INFO] Checking for NVIDIA GPU...''
               @ [''[09:05:59] [INFO] Distribution codename: No LSB modules are available.'',
                  ''noble''])
   \<and> \<not> log_line_format ''noble''"
proof -
  let ?e = "(nine_o_five, ''Checking for NVIDIA GPU...'', STATUS_INFO)"
  let ?L = "''[09:05:59] [INFO] Checking for NVIDIA GPU...''"
  let ?l1 = "''[09:05:59] [INFO] Distribution codename: No LSB modules are available.''"
  have L: "log_line ?e = ?L"
    by (simp add: log_line_def formatted_message_def g_date_time_format_def two_digits_def
        digit_char_def status_icon_def nine_o_five_def)
  have l1: "log_line (nine_o_five, ''Distribution codename: No LSB modules are available.'', STATUS_INFO) = ?l1"
    by (simp add: log_line_def formatted_message_def g_date_time_format_def two_digits_def
        digit_char_def status_icon_def nine_o_five_def)
  have oL: "one_line ?L"
    using one_line_log_line[OF one_line_plain(1), of nine_o_five STATUS_INFO] unfolding L .
  have ol1: "one_line ?l1"
    using one_line_log_line[OF one_line_plain(2), of nine_o_five STATUS_INFO] unfolding l1 .
  have probe: "LogMessage two_line_message STATUS_INFO
                 \<in> set (effects (detection_thread two_line_shell main_start))"
    using probe_logs_codename_output[where sh = two_line_shell and d = main_start and status = 0
        and out = "''No LSB modules are available.'' @ [newline] @ ''noble'' @ [newline]"]
    by (simp add: two_line_shell_def two_line_message_def g_strchomp_def g_ascii_isspace_def newline_def)
  have hyp: "\<forall>e \<in> set busy_log. one_line (fst (snd e))"
    by (simp add: busy_log_def one_line_plain)
  from log_of_one_line_messages[OF hyp] obtain buf where
    b: "log_messages busy_log (Some []) = Some buf"
       "buf = join_lines (drop (length busy_log - (MAX_LOG_LINES - 1)) (map log_line busy_log))"
       "gtk_text_buffer_get_line_count buf = min (Suc (length busy_log)) MAX_LOG_LINES"
    by blast
  have buf: "buf = join_lines (replicate 999 ?L)"
    unfolding b(2) by (simp add: busy_log_def MAX_LOG_LINES_def L)
  have c1: "map_option gtk_text_buffer_get_line_count (log_messages busy_log (Some [])) = Some 1000"
    unfolding b(1) using b(3) by (simp add: busy_log_def MAX_LOG_LINES_def)
  have all: "\<forall>l \<in> set (replicate 999 ?L). one_line l"
    using oL by simp
  have keep: "keep_newest (replicate 999 ?L) = replicate 998 ?L"
    by (simp add: keep_newest_def MAX_LOG_LINES_def)
  have fm: "formatted_message nine_o_five two_line_message STATUS_INFO = join_lines [?l1, ''noble'']"
    by (simp add: formatted_message_def two_line_message_def join_lines_def g_date_time_format_def
        two_digits_def digit_char_def status_icon_def nine_o_five_def)
  let ?new = "replicate 998 ?L @ [?l1, ''noble'']"
  have run: "log_messages (busy_log @ [(nine_o_five, two_line_message, STATUS_INFO)]) (Some [])
               = Some (join_lines ?new)"
    unfolding log_messages_snoc b(1) buf log_message_join[OF all] keep fm
    by (simp add: join_lines_append)
  have new: "\<forall>l \<in> set ?new. one_line l"
    using oL ol1 one_line_plain(3) by auto
  have c2: "map_option gtk_text_buffer_get_line_count
         (log_messages (busy_log @ [(nine_o_five, two_line_message, STATUS_INFO)]) (Some []))
       = Some 1001"
    unfolding run using line_count_join[OF new] by simp
  have c3: "map_option closed_lines
         (log_messages (busy_log @ [(nine_o_five, two_line_message, STATUS_INFO)]) (Some []))
       = Some ?new"
    unfolding run using closed_lines_join[OF new] by simp
  have c4: "\<not> log_line_format ''noble''"
    by simp
  have c5: "MAX_LOG_LINES = 1000"
    by (simp add: MAX_LOG_LINES_def)
  from probe c5 c1 c2 c3 c4 show ?thesis by blast
qed

end
